theory Spec2Isabelle
  imports Complex_Main "HOL-Library.Char_ord" "HOL-Library.List_Lexorder"
begin

section \<open>JavaScript values as the alert engine and the client see them\<close>

text \<open>
  Every payload the server's alert engine analyses has been through \<^verbatim>\<open>JSON.parse\<close>
  (the request body), and every payload the client compares has been through
  \<^verbatim>\<open>JSON.parse(JSON.stringify(result))\<close> in \<^verbatim>\<open>SystemChecks.safeRun\<close>.  A payload is
  therefore a JSON value.  An object keeps its members in insertion order, which is
  the order \<^verbatim>\<open>JSON.stringify\<close> prints them in.  A finite double is modelled by the
  rational number it denotes, so comparisons are exact.  \<^verbatim>\<open>undefined\<close> is not a JSON
  value: a JavaScript value that may be undefined is a \<open>json option\<close>, \<open>None\<close>
  standing for \<^verbatim>\<open>undefined\<close>.
\<close>

datatype json =
    JNull
  | JBool bool
  | JNum rat
  | JStr string
  | JArr "json list"
  | JObj "(string \<times> json) list"

datatype js_error = TypeError string | Error string

text \<open>ToBoolean: what \<^verbatim>\<open>!x\<close>, \<^verbatim>\<open>x || y\<close> and \<^verbatim>\<open>x ? a : b\<close> test.\<close>

fun truthy :: "json option \<Rightarrow> bool" where
  "truthy None = False"
| "truthy (Some JNull) = False"
| "truthy (Some (JBool b)) = b"
| "truthy (Some (JNum n)) = (n \<noteq> 0)"
| "truthy (Some (JStr s)) = (s \<noteq> [])"
| "truthy (Some (JArr xs)) = True"
| "truthy (Some (JObj kvs)) = True"

text \<open>
  Member access \<^verbatim>\<open>x.name\<close> and \<^verbatim>\<open>x?.name\<close>, for the member names the alert engine
  reads (\<^verbatim>\<open>encrypted\<close>, \<^verbatim>\<open>upToDate\<close>, \<^verbatim>\<open>daysBehind\<close>, \<^verbatim>\<open>installed\<close>, \<^verbatim>\<open>enabled\<close>,
  \<^verbatim>\<open>definitionsOutdated\<close>, \<^verbatim>\<open>sleepTimeout\<close>): none of them is a member of a boolean, a
  number, a string or an array, nor inherited by a parsed object.  When a key is
  repeated in the JSON text, \<^verbatim>\<open>JSON.parse\<close> keeps its last value.  \<^verbatim>\<open>x?.name\<close> is
  undefined when \<^verbatim>\<open>x\<close> is undefined or null.  The engine writes the plain \<^verbatim>\<open>x.name\<close>
  only behind a test that \<^verbatim>\<open>x\<close> is truthy, so its TypeError on undefined and null is
  never reached.
\<close>

fun member :: "json option \<Rightarrow> string \<Rightarrow> json option" where
  "member (Some (JObj kvs)) name = map_of (rev kvs) name"
| "member x name = None"

text \<open>
  The conversions of ECMAScript that depend on number formatting, on the grammar of
  numeric strings and on \<^verbatim>\<open>ToPrimitive\<close> of arrays and objects are parameters of the
  model: \<open>StringToNumber\<close> (with \<open>None\<close> for NaN), \<open>NumberToString\<close>, and
  \<open>ToPrimitive\<close> of an array or object, which yields a string or throws a TypeError
  (a parsed object may hold a member \<^verbatim>\<open>toString\<close> that is not callable).
\<close>

record builtins =
  StringToNumber :: "string \<Rightarrow> rat option"
  NumberToString :: "rat \<Rightarrow> string"
  ToPrimitive :: "json \<Rightarrow> js_error + string"

fun ToNumber :: "builtins \<Rightarrow> json option \<Rightarrow> js_error + rat option" where
  "ToNumber rt None = Inr None"
| "ToNumber rt (Some JNull) = Inr (Some 0)"
| "ToNumber rt (Some (JBool b)) = Inr (Some (if b then 1 else 0))"
| "ToNumber rt (Some (JNum n)) = Inr (Some n)"
| "ToNumber rt (Some (JStr s)) = Inr (StringToNumber rt s)"
| "ToNumber rt (Some v) =
     (case ToPrimitive rt v of Inl e \<Rightarrow> Inl e | Inr s \<Rightarrow> Inr (StringToNumber rt s))"

fun ToString :: "builtins \<Rightarrow> json \<Rightarrow> js_error + string" where
  "ToString rt JNull = Inr ''null''"
| "ToString rt (JBool b) = Inr (if b then ''true'' else ''false'')"
| "ToString rt (JNum n) = Inr (NumberToString rt n)"
| "ToString rt (JStr s) = Inr s"
| "ToString rt v = ToPrimitive rt v"

text \<open>
  \<^verbatim>\<open>x > k\<close> for a number literal \<open>k\<close>: \<open>x\<close> is converted to a number, and the
  comparison is false when that is NaN.
\<close>

definition js_gt :: "builtins \<Rightarrow> json option \<Rightarrow> rat \<Rightarrow> js_error + bool" where
  "js_gt rt x k =
     (case ToNumber rt x of
        Inl e \<Rightarrow> Inl e
      | Inr None \<Rightarrow> Inr False
      | Inr (Some n) \<Rightarrow> Inr (k < n))"

section \<open>Promises over a store\<close>

text \<open>
  An \<^verbatim>\<open>async\<close> function is a function from the state of the store to its outcome
  (\<open>Inl\<close> a rejection, \<open>Inr\<close> the value it resolves with) and the state it leaves
  behind.  A rejected promise keeps the effects it had before it failed.
\<close>

type_synonym ('s, 'a) promise = "'s \<Rightarrow> (js_error + 'a) \<times> 's"

definition resolve :: "'a \<Rightarrow> ('s, 'a) promise" where
  "resolve x = (\<lambda>s. (Inr x, s))"

definition reject :: "js_error \<Rightarrow> ('s, 'a) promise" where
  "reject e = (\<lambda>s. (Inl e, s))"

definition await :: "('s, 'a) promise \<Rightarrow> ('a \<Rightarrow> ('s, 'b) promise) \<Rightarrow> ('s, 'b) promise" where
  "await p k = (\<lambda>s. case p s of (Inl e, s') \<Rightarrow> (Inl e, s') | (Inr x, s') \<Rightarrow> k x s')"

definition try_catch :: "('s, 'a) promise \<Rightarrow> (js_error \<Rightarrow> ('s, 'a) promise) \<Rightarrow> ('s, 'a) promise" where
  "try_catch p h = (\<lambda>s. case p s of (Inl e, s') \<Rightarrow> h e s' | (Inr x, s') \<Rightarrow> (Inr x, s'))"

text \<open>An expression that may throw, evaluated inside an \<^verbatim>\<open>async\<close> function.\<close>

definition evaluated :: "js_error + 'a \<Rightarrow> ('s, 'a) promise" where
  "evaluated r = (case r of Inl e \<Rightarrow> reject e | Inr x \<Rightarrow> resolve x)"

section \<open>The alert store\<close>

text \<open>
  A row of the table \<^verbatim>\<open>alerts\<close>, with the columns the SQL of \<^verbatim>\<open>AlterService.js\<close>
  names.  Timestamps are stored as text.
\<close>

record alert_row =
  machine_id :: string
  alert_type :: string
  severity :: string
  title :: string
  message :: string
  is_resolved :: bool
  created_at :: string
  resolved_at :: "string option"

text \<open>
  The statements \<^verbatim>\<open>AlterService.js\<close> sends to \<^verbatim>\<open>this.db.db\<close>:
  \<^item> \<^verbatim>\<open>SELECT id FROM alerts WHERE machine_id = ? AND alert_type = ? AND is_resolved = 0\<close>
    through \<^verbatim>\<open>get\<close>, which yields the first row found or undefined;
  \<^item> \<^verbatim>\<open>UPDATE alerts SET is_resolved = 1, resolved_at = CURRENT_TIMESTAMP WHERE machine_id = ? AND alert_type = ? AND is_resolved = 0\<close>
    through \<^verbatim>\<open>run\<close>, which yields the number of rows changed;
  \<^item> \<^verbatim>\<open>DELETE FROM alerts WHERE is_resolved = 1 AND resolved_at < ?\<close> through \<^verbatim>\<open>run\<close>.
\<close>

datatype query = SELECT_open_alert string string

datatype statement = UPDATE_resolve string string | DELETE_resolved_before string

record 's sqlite3 =
  get :: "query \<Rightarrow> ('s, alert_row option) promise"
  run :: "statement \<Rightarrow> ('s, nat) promise"

text \<open>
  The object handed to the constructor of \<^verbatim>\<open>AlertService\<close>, as far as the service
  uses it: \<^verbatim>\<open>this.db.db\<close>, \<^verbatim>\<open>this.db.createAlert\<close> and \<^verbatim>\<open>this.db.getAlerts\<close>; a member
  the object does not have is \<open>None\<close>.  \<^verbatim>\<open>createAlert\<close> receives the members
  \<^verbatim>\<open>machineId, alertType, severity, title, message\<close> of its argument, in this order.
\<close>

record 's database =
  db :: "'s sqlite3 option"
  createAlert :: "(string \<Rightarrow> string \<Rightarrow> string \<Rightarrow> string \<Rightarrow> string \<Rightarrow> ('s, unit) promise) option"
  getAlerts :: "(string \<Rightarrow> bool \<Rightarrow> ('s, alert_row list) promise) option"

subsection \<open>Timestamps as text\<close>

text \<open>
  The clock counts milliseconds since 1970-01-01T00:00:00Z.  SQLite's
  \<^verbatim>\<open>CURRENT_TIMESTAMP\<close> is the text \<^verbatim>\<open>YYYY-MM-DD HH:MM:SS\<close> (UTC);
  \<^verbatim>\<open>Date.prototype.toISOString\<close> gives \<^verbatim>\<open>YYYY-MM-DDTHH:MM:SS.sssZ\<close>.  Both are
  printed from the same civil date; the years 0000 to 9999 are printed with four
  digits.
\<close>

definition digit :: "nat \<Rightarrow> char" where
  "digit d = ''0123456789'' ! d"

function decimal :: "nat \<Rightarrow> string" where
  "decimal n = (if n < 10 then [digit n] else decimal (n div 10) @ [digit (n mod 10)])"
  by pat_completeness auto
termination
  by (relation "measure id") auto

declare decimal.simps [simp del]

definition pad :: "nat \<Rightarrow> int \<Rightarrow> string" where
  "pad w n = replicate (w - length (decimal (nat n))) (CHR ''0'') @ decimal (nat n)"

definition civil_from_days :: "int \<Rightarrow> int \<times> int \<times> int" where
  "civil_from_days z0 =
     (let z = z0 + 719468;
          era = z div 146097;
          doe = z - era * 146097;
          yoe = (doe - doe div 1460 + doe div 36524 - doe div 146096) div 365;
          y = yoe + era * 400;
          doy = doe - (365 * yoe + yoe div 4 - yoe div 100);
          mp = (5 * doy + 2) div 153;
          d = doy - (153 * mp + 2) div 5 + 1;
          m = (if mp < 10 then mp + 3 else mp - 9)
      in (if m \<le> 2 then y + 1 else y, m, d))"

definition date_text :: "int \<Rightarrow> string" where
  "date_text ms =
     (case civil_from_days (ms div 86400000) of
        (y, m, d) \<Rightarrow> pad 4 y @ ''-'' @ pad 2 m @ ''-'' @ pad 2 d)"

definition time_text :: "int \<Rightarrow> string" where
  "time_text ms =
     (let r = ms mod 86400000
      in pad 2 (r div 3600000) @ '':'' @ pad 2 (r mod 3600000 div 60000) @ '':'' @
         pad 2 (r mod 60000 div 1000))"

definition toISOString :: "int \<Rightarrow> string" where
  "toISOString ms = date_text ms @ ''T'' @ time_text ms @ ''.'' @ pad 3 (ms mod 1000) @ ''Z''"

definition sqlite_datetime :: "int \<Rightarrow> string" where
  "sqlite_datetime ms = date_text ms @ '' '' @ time_text ms"

subsection \<open>The SQL store\<close>

record store =
  rows :: "alert_row list"
  now :: int

definition CURRENT_TIMESTAMP :: "store \<Rightarrow> string" where
  "CURRENT_TIMESTAMP s = sqlite_datetime (now s)"

text \<open>\<^verbatim>\<open>WHERE machine_id = ? AND alert_type = ? AND is_resolved = 0\<close>\<close>

definition where_open :: "string \<Rightarrow> string \<Rightarrow> alert_row \<Rightarrow> bool" where
  "where_open m t r = (machine_id r = m \<and> alert_type r = t \<and> \<not> is_resolved r)"

text \<open>
  \<^verbatim>\<open>WHERE is_resolved = 1 AND resolved_at < ?\<close>: SQLite compares two texts byte by
  byte, and a comparison with NULL selects nothing.
\<close>

definition where_expired :: "string \<Rightarrow> alert_row \<Rightarrow> bool" where
  "where_expired cutoff r =
     (is_resolved r \<and> (case resolved_at r of None \<Rightarrow> False | Some t \<Rightarrow> t < cutoff))"

definition set_resolved :: "string \<Rightarrow> alert_row \<Rightarrow> alert_row" where
  "set_resolved ts r = r\<lparr>is_resolved := True, resolved_at := Some ts\<rparr>"

fun sql_get :: "query \<Rightarrow> (store, alert_row option) promise" where
  "sql_get (SELECT_open_alert m t) = (\<lambda>s. (Inr (find (where_open m t) (rows s)), s))"

fun sql_run :: "statement \<Rightarrow> (store, nat) promise" where
  "sql_run (UPDATE_resolve m t) =
     (\<lambda>s. (Inr (length (filter (where_open m t) (rows s))),
           s\<lparr>rows := map (\<lambda>r. if where_open m t r then set_resolved (CURRENT_TIMESTAMP s) r else r)
                         (rows s)\<rparr>))"
| "sql_run (DELETE_resolved_before cutoff) =
     (\<lambda>s. (Inr (length (filter (where_expired cutoff) (rows s))),
           s\<lparr>rows := filter (\<lambda>r. \<not> where_expired cutoff r) (rows s)\<rparr>))"

text \<open>
  \<^verbatim>\<open>createAlert(alertData)\<close> of the class \<^verbatim>\<open>Database\<close> is
  \<^verbatim>\<open>Database.Alert.create(alertData)\<close>.  The schema of \<^verbatim>\<open>Alert\<close> has the paths
  \<^verbatim>\<open>machine_id\<close> (required), \<^verbatim>\<open>alert_type\<close>, \<^verbatim>\<open>severity\<close>, \<^verbatim>\<open>title\<close>, \<^verbatim>\<open>message\<close>,
  \<^verbatim>\<open>is_resolved\<close>, \<^verbatim>\<open>created_at\<close> and \<^verbatim>\<open>resolved_at\<close>.  Mongoose builds the document from
  the members of \<^verbatim>\<open>alertData\<close> that are paths of the schema and validates it before
  it saves anything.  The service calls \<^verbatim>\<open>createAlert\<close> with an object whose members
  are \<^verbatim>\<open>machineId\<close>, \<^verbatim>\<open>alertType\<close>, \<^verbatim>\<open>severity\<close>, \<^verbatim>\<open>title\<close> and \<^verbatim>\<open>message\<close>, the five
  arguments of the model: whatever their values, the document has no \<^verbatim>\<open>machine_id\<close>,
  the validation fails, and the promise rejects with a \<^verbatim>\<open>ValidationError\<close>, an
  \<^verbatim>\<open>Error\<close> with the message below; no record is added.
\<close>

definition validation_failed :: js_error where
  "validation_failed =
     Error (''Alert validation failed: machine_id: Path '' @ [CHR 0x60] @ ''machine_id'' @
            [CHR 0x60] @ '' is required.'')"

definition Database_createAlert ::
  "string \<Rightarrow> string \<Rightarrow> string \<Rightarrow> string \<Rightarrow> string \<Rightarrow> ('s, unit) promise" where
  "Database_createAlert machineId' alertType' severity' title' message' = reject validation_failed"

text \<open>
  \<^verbatim>\<open>getAlerts(machineId = null, resolved = false, limit = 100)\<close> of the class
  \<^verbatim>\<open>Database\<close>: the alerts with the given \<^verbatim>\<open>is_resolved\<close>, of the given machine when
  \<^verbatim>\<open>machineId\<close> is truthy, newest first, at most 100 of them.
\<close>

definition listAlerts :: "string \<Rightarrow> bool \<Rightarrow> (store, alert_row list) promise" where
  "listAlerts m resolved =
     (\<lambda>s. (Inr (take 100 (rev (sort_key created_at
                (filter (\<lambda>r. is_resolved r = resolved \<and> (m = [] \<or> machine_id r = m)) (rows s))))),
           s))"

text \<open>
  The store the service is written for: \<^verbatim>\<open>createAlert\<close> and \<^verbatim>\<open>getAlerts\<close> of the class
  \<^verbatim>\<open>Database\<close>, and the handle \<^verbatim>\<open>db\<close> on which the three statements of the service
  run.  The class \<^verbatim>\<open>Database\<close> of the sources has no member \<^verbatim>\<open>db\<close>.
\<close>

definition alertStore :: "store database" where
  "alertStore =
     \<lparr>db = Some \<lparr>get = sql_get, run = sql_run\<rparr>,
      createAlert = Some Database_createAlert,
      getAlerts = Some listAlerts\<rparr>"

text \<open>
  \<^verbatim>\<open>routes/api.js\<close> constructs the service as \<^verbatim>\<open>new AlertService(models)\<close>, where
  \<^verbatim>\<open>models\<close> is the object \<^verbatim>\<open>{User, ApiKey, Machine, SystemReport, Alert}\<close> of Mongoose
  models built in the server's entry file.  It has no member \<^verbatim>\<open>db\<close>, \<^verbatim>\<open>createAlert\<close> or
  \<^verbatim>\<open>getAlerts\<close>.
\<close>

definition models :: "'s database" where
  "models = \<lparr>db = None, createAlert = None, getAlerts = None\<rparr>"

section \<open>AlertService\<close>

text \<open>
  The methods take the constructor's argument \<^verbatim>\<open>this.db\<close> as their first parameter.
  Reading a member of \<^verbatim>\<open>undefined\<close> and calling \<^verbatim>\<open>undefined\<close> throw a TypeError;
  inside a promise executor or an \<^verbatim>\<open>async\<close> function that is a rejection.
\<close>

definition db_get :: "'s database \<Rightarrow> query \<Rightarrow> ('s, alert_row option) promise" where
  "db_get this_db q =
     (case db this_db of
        None \<Rightarrow> reject (TypeError ''Cannot read properties of undefined (reading get)'')
      | Some h \<Rightarrow> get h q)"

definition db_run :: "'s database \<Rightarrow> statement \<Rightarrow> ('s, nat) promise" where
  "db_run this_db st =
     (case db this_db of
        None \<Rightarrow> reject (TypeError ''Cannot read properties of undefined (reading run)'')
      | Some h \<Rightarrow> run h st)"

definition db_createAlert :: "'s database \<Rightarrow> string \<Rightarrow> string \<Rightarrow> string \<Rightarrow> string \<Rightarrow> string \<Rightarrow> ('s, unit) promise" where
  "db_createAlert this_db m t sev ttl msg =
     (case createAlert this_db of
        None \<Rightarrow> reject (TypeError ''this.db.createAlert is not a function'')
      | Some f \<Rightarrow> f m t sev ttl msg)"

definition db_getAlerts :: "'s database \<Rightarrow> string \<Rightarrow> bool \<Rightarrow> ('s, alert_row list) promise" where
  "db_getAlerts this_db m resolved =
     (case getAlerts this_db of
        None \<Rightarrow> reject (TypeError ''this.db.getAlerts is not a function'')
      | Some f \<Rightarrow> f m resolved)"

definition createAlertIfNotExists :: "'s database \<Rightarrow> string \<Rightarrow> string \<Rightarrow> string \<Rightarrow> string \<Rightarrow> string \<Rightarrow> ('s, unit) promise" where
  "createAlertIfNotExists this_db machineId' alertType' severity' title' message' =
     await (db_get this_db (SELECT_open_alert machineId' alertType')) (\<lambda>existingAlert.
       if existingAlert = None then
         await (db_createAlert this_db machineId' alertType' severity' title' message')
           (\<lambda>_. resolve ())
       else resolve ())"

definition resolveAlertByType :: "'s database \<Rightarrow> string \<Rightarrow> string \<Rightarrow> ('s, nat) promise" where
  "resolveAlertByType this_db machineId' alertType' =
     db_run this_db (UPDATE_resolve machineId' alertType')"

definition checkDiskEncryptionAlert :: "'s database \<Rightarrow> string \<Rightarrow> json option \<Rightarrow> ('s, unit) promise" where
  "checkDiskEncryptionAlert this_db machineId' diskEncryption' =
     (if \<not> truthy diskEncryption' \<or> \<not> truthy (member diskEncryption' ''encrypted'') then
        createAlertIfNotExists this_db machineId' ''disk_encryption'' ''high''
          ''Disk Encryption Disabled''
          (''Machine '' @ machineId' @
           '' does not have disk encryption enabled. This poses a significant security risk.'')
      else
        await (resolveAlertByType this_db machineId' ''disk_encryption'') (\<lambda>_. resolve ()))"

text \<open>
  The message of \<^verbatim>\<open>checkOSUpdatesAlert\<close>: a conditional on
  \<^verbatim>\<open>osUpdates?.daysBehind\<close> between two template literals.
\<close>

definition os_message :: "builtins \<Rightarrow> string \<Rightarrow> json option \<Rightarrow> js_error + string" where
  "os_message rt machineId' osUpdates' =
     (case member osUpdates' ''daysBehind'' of
        None \<Rightarrow> Inr (''Machine '' @ machineId' @ '' has pending OS updates.'')
      | Some d \<Rightarrow>
          if truthy (Some d) then
            (case ToString rt d of
               Inl e \<Rightarrow> Inl e
             | Inr ds \<Rightarrow>
                 Inr (''Machine '' @ machineId' @ '' is '' @ ds @ '' days behind on OS updates.''))
          else Inr (''Machine '' @ machineId' @ '' has pending OS updates.''))"

definition checkOSUpdatesAlert :: "builtins \<Rightarrow> 's database \<Rightarrow> string \<Rightarrow> json option \<Rightarrow> ('s, unit) promise" where
  "checkOSUpdatesAlert rt this_db machineId' osUpdates' =
     (if \<not> truthy osUpdates' \<or> \<not> truthy (member osUpdates' ''upToDate'') then
        await (evaluated (js_gt rt (member osUpdates' ''daysBehind'') 30)) (\<lambda>behind.
        await (evaluated (os_message rt machineId' osUpdates')) (\<lambda>message'.
          createAlertIfNotExists this_db machineId' ''os_updates''
            (if behind then ''high'' else ''medium'') ''OS Updates Required'' message'))
      else
        await (resolveAlertByType this_db machineId' ''os_updates'') (\<lambda>_. resolve ()))"

definition checkAntivirusAlert :: "'s database \<Rightarrow> string \<Rightarrow> json option \<Rightarrow> ('s, unit) promise" where
  "checkAntivirusAlert this_db machineId' antivirus' =
     (if \<not> truthy antivirus' \<or> \<not> truthy (member antivirus' ''installed'') then
        createAlertIfNotExists this_db machineId' ''antivirus_missing'' ''high''
          ''Antivirus Not Installed''
          (''Machine '' @ machineId' @ '' does not have antivirus software installed.'')
      else if \<not> truthy (member antivirus' ''enabled'') then
        await (createAlertIfNotExists this_db machineId' ''antivirus_disabled'' ''medium''
                 ''Antivirus Disabled''
                 (''Machine '' @ machineId' @
                  '' has antivirus software installed but it is not enabled.''))
          (\<lambda>_. await (resolveAlertByType this_db machineId' ''antivirus_missing'')
             (\<lambda>_. resolve ()))
      else
        await (resolveAlertByType this_db machineId' ''antivirus_missing'') (\<lambda>_.
        await (resolveAlertByType this_db machineId' ''antivirus_disabled'') (\<lambda>_.
          if truthy (member antivirus' ''definitionsOutdated'') then
            createAlertIfNotExists this_db machineId' ''antivirus_outdated'' ''medium''
              ''Antivirus Definitions Outdated''
              (''Machine '' @ machineId' @ '' has outdated antivirus definitions.'')
          else
            await (resolveAlertByType this_db machineId' ''antivirus_outdated'')
              (\<lambda>_. resolve ()))))"

text \<open>\<^verbatim>\<open>x || y\<close> for a defined \<open>y\<close>.\<close>

definition js_or :: "json option \<Rightarrow> json \<Rightarrow> json" where
  "js_or x y = (case x of None \<Rightarrow> y | Some v \<Rightarrow> if truthy (Some v) then v else y)"

text \<open>
  The message of \<^verbatim>\<open>checkSleepSettingsAlert\<close>, with
  \<^verbatim>\<open>timeout = sleepSettings?.sleepTimeout || 'unknown'\<close>.  It ends in
  \<^verbatim>\<open>Recommended: \<close>, the sign for less-or-equal and \<^verbatim>\<open>10 minutes.\<close>; the sign is
  written as its three bytes in UTF-8.
\<close>

definition sleep_message :: "builtins \<Rightarrow> string \<Rightarrow> json option \<Rightarrow> js_error + string" where
  "sleep_message rt machineId' sleepSettings' =
     (case ToString rt (js_or (member sleepSettings' ''sleepTimeout'') (JStr ''unknown'')) of
        Inl e \<Rightarrow> Inl e
      | Inr timeout \<Rightarrow>
          Inr (''Machine '' @ machineId' @ '' has sleep timeout set to '' @ timeout @
               '' minutes. Recommended: '' @ [CHR 0xE2, CHR 0x89, CHR 0xA4] @ ''10 minutes.''))"

definition checkSleepSettingsAlert :: "builtins \<Rightarrow> 's database \<Rightarrow> string \<Rightarrow> json option \<Rightarrow> ('s, unit) promise" where
  "checkSleepSettingsAlert rt this_db machineId' sleepSettings' =
     await (if \<not> truthy sleepSettings' then resolve True
            else evaluated (js_gt rt (member sleepSettings' ''sleepTimeout'') 10)) (\<lambda>tooLong.
       if tooLong then
         await (evaluated (sleep_message rt machineId' sleepSettings')) (\<lambda>message'.
           createAlertIfNotExists this_db machineId' ''sleep_timeout'' ''low''
             ''Sleep Timeout Too Long'' message')
       else
         await (resolveAlertByType this_db machineId' ''sleep_timeout'') (\<lambda>_. resolve ()))"

text \<open>
  The members \<^verbatim>\<open>analyzeSystemData\<close> takes out of its argument.  A member that the
  argument lacks is undefined.
\<close>

record system_data =
  machineId :: string
  diskEncryption :: "json option"
  osUpdates :: "json option"
  antivirus :: "json option"
  sleepSettings :: "json option"

definition analyzeSystemData :: "builtins \<Rightarrow> 's database \<Rightarrow> 'x system_data_scheme \<Rightarrow> ('s, unit) promise" where
  "analyzeSystemData rt this_db systemData =
     try_catch
       (await (checkDiskEncryptionAlert this_db (machineId systemData) (diskEncryption systemData)) (\<lambda>_.
        await (checkOSUpdatesAlert rt this_db (machineId systemData) (osUpdates systemData)) (\<lambda>_.
        await (checkAntivirusAlert this_db (machineId systemData) (antivirus systemData)) (\<lambda>_.
        checkSleepSettingsAlert rt this_db (machineId systemData) (sleepSettings systemData)))))
       (\<lambda>error. resolve ())"

text \<open>
  \<^verbatim>\<open>severityWeights[alert.severity]\<close>: the object literal has the four weights as its
  own members and inherits the members of \<^verbatim>\<open>Object.prototype\<close>, which are functions,
  but for \<^verbatim>\<open>__proto__\<close>, which is \<^verbatim>\<open>Object.prototype\<close> itself; any other name gives
  undefined.
\<close>

datatype looked_up = Weight nat | Inherited | Undefined

definition Object_prototype :: "string list" where
  "Object_prototype =
     [''constructor'', ''hasOwnProperty'', ''isPrototypeOf'', ''propertyIsEnumerable'',
      ''toLocaleString'', ''toString'', ''valueOf'', ''__proto__'', ''__defineGetter__'',
      ''__defineSetter__'', ''__lookupGetter__'', ''__lookupSetter__'']"

definition severityWeights :: "string \<Rightarrow> looked_up" where
  "severityWeights name =
     (if name = ''critical'' then Weight 10
      else if name = ''high'' then Weight 7
      else if name = ''medium'' then Weight 4
      else if name = ''low'' then Weight 1
      else if name \<in> set Object_prototype then Inherited
      else Undefined)"

text \<open>
  \<^verbatim>\<open>riskScore += severityWeights[alert.severity] || 0\<close>.  \<^verbatim>\<open>riskScore\<close> is a number as
  long as only numbers are added.  A function or an object is truthy, and adding it
  to a number concatenates the two as strings; from then on \<^verbatim>\<open>riskScore\<close> is a string,
  and adding a number appends its digits.  \<open>RawText\<close> stands for such a string: it
  holds the text of a function or \<^verbatim>\<open>[object Object]\<close>, so it converts to NaN.
\<close>

datatype number_or_text = RawNumber nat | RawText

definition add_weight :: "number_or_text \<Rightarrow> alert_row \<Rightarrow> number_or_text" where
  "add_weight riskScore alert =
     (case riskScore of
        RawText \<Rightarrow> RawText
      | RawNumber n \<Rightarrow>
          (case severityWeights (severity alert) of
             Weight w \<Rightarrow> RawNumber (n + w)
           | Inherited \<Rightarrow> RawText
           | Undefined \<Rightarrow> RawNumber n))"

text \<open>
  The result of \<^verbatim>\<open>getMachineRiskScore\<close>.  \<^verbatim>\<open>score\<close> is \<open>None\<close> when it is NaN:
  \<^verbatim>\<open>Math.min\<close> and \<^verbatim>\<open>Math.round\<close> of NaN are NaN, and every comparison with NaN is
  false, which gives the level \<^verbatim>\<open>low\<close>.
\<close>

record risk =
  score :: "int option"
  level :: string
  alertCount :: nat
  rawScore :: number_or_text

definition maxPossibleScore :: rat where
  "maxPossibleScore = 50"

definition normalizedScore :: "nat \<Rightarrow> rat" where
  "normalizedScore riskScore = min 100 (of_nat riskScore / maxPossibleScore * 100)"

definition riskOf :: "alert_row list \<Rightarrow> risk" where
  "riskOf alerts =
     (case foldl add_weight (RawNumber 0) alerts of
        RawNumber riskScore \<Rightarrow>
          \<lparr>score = Some (round (normalizedScore riskScore)),
           level = (if normalizedScore riskScore \<ge> 80 then ''critical''
                    else if normalizedScore riskScore \<ge> 60 then ''high''
                    else if normalizedScore riskScore \<ge> 30 then ''medium'' else ''low''),
           alertCount = length alerts,
           rawScore = RawNumber riskScore\<rparr>
      | RawText \<Rightarrow>
          \<lparr>score = None, level = ''low'', alertCount = length alerts, rawScore = RawText\<rparr>)"

definition getMachineRiskScore :: "'s database \<Rightarrow> string \<Rightarrow> ('s, risk) promise" where
  "getMachineRiskScore this_db machineId' =
     await (db_getAlerts this_db machineId' False) (\<lambda>alerts. resolve (riskOf alerts))"

text \<open>
  \<^verbatim>\<open>cleanupOldResolvedAlerts(daysToKeep = 30)\<close>: \<open>None\<close> is the omitted argument, and
  \<open>Date_now\<close> is what \<^verbatim>\<open>Date.now()\<close> returns.
\<close>

definition cleanupOldResolvedAlerts :: "'s database \<Rightarrow> int \<Rightarrow> int option \<Rightarrow> ('s, nat) promise" where
  "cleanupOldResolvedAlerts this_db Date_now daysToKeep' =
     (let daysToKeep = (case daysToKeep' of None \<Rightarrow> 30 | Some d \<Rightarrow> d);
          cutoffDate = toISOString (Date_now - daysToKeep * 24 * 60 * 60 * 1000)
      in db_run this_db (DELETE_resolved_before cutoffDate))"

section \<open>SystemChecks: the probe\<close>

text \<open>
  What the probe reads of its host: the values of the module \<^verbatim>\<open>os\<close>, the clock, and
  \<^verbatim>\<open>child_process.exec\<close>, which for a command yields its standard output or fails
  with an error that may carry \<^verbatim>\<open>stderr\<close> and has a message.  Strings are lists of
  characters; numbers that the probe computes are exact integers.
\<close>

datatype exec_error = ExecError "string option" string

record host =
  os_platform :: string
  os_hostname :: string
  os_type :: string
  os_release :: string
  os_arch :: string
  os_uptime :: rat
  os_totalmem :: rat
  os_freemem :: rat
  os_cpus :: nat
  os_loadavg :: "rat list"
  clock :: int
  exec :: "string \<Rightarrow> exec_error + string"

subsection \<open>String functions of JavaScript\<close>

text \<open>White space is the white space of ASCII.\<close>

definition is_space :: "char \<Rightarrow> bool" where
  "is_space c = (c \<in> set [CHR 0x09, CHR 0x0A, CHR 0x0B, CHR 0x0C, CHR 0x0D, CHR 0x20])"

definition is_digit :: "char \<Rightarrow> bool" where
  "is_digit c = (c \<in> set ''0123456789'')"

definition trim :: "string \<Rightarrow> string" where
  "trim s = rev (dropWhile is_space (rev (dropWhile is_space s)))"

definition starts_with :: "string \<Rightarrow> string \<Rightarrow> bool" where
  "starts_with s w = (take (length w) s = w)"

fun str_includes :: "string \<Rightarrow> string \<Rightarrow> bool" where
  "str_includes [] w = (w = [])"
| "str_includes (c # cs) w = (starts_with (c # cs) w \<or> str_includes cs w)"

text \<open>\<^verbatim>\<open>s.substring(0, n)\<close>\<close>

definition substring0 :: "string \<Rightarrow> nat \<Rightarrow> string" where
  "substring0 s n = take n s"

text \<open>\<^verbatim>\<open>s.split(sep)\<close> for a separator of one character.\<close>

fun split :: "char \<Rightarrow> string \<Rightarrow> string list" where
  "split sep [] = [[]]"
| "split sep (c # cs) =
     (if c = sep then [] # split sep cs
      else (case split sep cs of [] \<Rightarrow> [[c]] | x # xs \<Rightarrow> (c # x) # xs))"

definition digit_value :: "char \<Rightarrow> nat" where
  "digit_value c =
     (if is_digit c then of_char c - 48
      else if c \<in> set ''abcdef'' then of_char c - 87
      else of_char c - 55)"

definition number_of :: "nat \<Rightarrow> string \<Rightarrow> nat" where
  "number_of radix ds = foldl (\<lambda>n c. radix * n + digit_value c) 0 ds"

text \<open>
  \<^verbatim>\<open>parseInt(s, 10)\<close> and \<^verbatim>\<open>parseInt(s)\<close>; \<open>None\<close> is NaN.  Leading white space is
  skipped, a sign is read, and the longest run of digits is the number; without a
  radix, the prefix \<^verbatim>\<open>0x\<close> or \<^verbatim>\<open>0X\<close> selects radix 16.
\<close>

definition signed :: "string \<Rightarrow> bool \<times> string" where
  "signed s =
     (case dropWhile is_space s of
        [] \<Rightarrow> (False, [])
      | c # cs \<Rightarrow>
          if c = CHR ''-'' then (True, cs)
          else if c = CHR ''+'' then (False, cs) else (False, c # cs))"

definition parseInt10 :: "string \<Rightarrow> int option" where
  "parseInt10 s =
     (case signed s of (neg, u) \<Rightarrow>
        let ds = takeWhile is_digit u
        in if ds = [] then None
           else Some (if neg then - int (number_of 10 ds) else int (number_of 10 ds)))"

definition is_hex :: "char \<Rightarrow> bool" where
  "is_hex c = (c \<in> set ''0123456789abcdefABCDEF'')"

definition parseInt :: "string \<Rightarrow> int option" where
  "parseInt s =
     (case signed s of (neg, u) \<Rightarrow>
        if starts_with u ''0x'' \<or> starts_with u ''0X'' then
          let ds = takeWhile is_hex (drop 2 u)
          in if ds = [] then None
             else Some (if neg then - int (number_of 16 ds) else int (number_of 16 ds))
        else
          let ds = takeWhile is_digit u
          in if ds = [] then None
             else Some (if neg then - int (number_of 10 ds) else int (number_of 10 ds)))"

text \<open>
  An integer in a template literal, and \<^verbatim>\<open>n.toString(16)\<close>; \<open>None\<close> is NaN.
\<close>

definition int_text :: "int option \<Rightarrow> string" where
  "int_text n =
     (case n of
        None \<Rightarrow> ''NaN''
      | Some i \<Rightarrow> if i < 0 then ''-'' @ decimal (nat (- i)) else decimal (nat i))"

function hex :: "nat \<Rightarrow> string" where
  "hex n = (if n < 16 then [''0123456789abcdef'' ! n]
            else hex (n div 16) @ [''0123456789abcdef'' ! (n mod 16)])"
  by pat_completeness auto
termination
  by (relation "measure id") auto

declare hex.simps [simp del]

definition hex_text :: "int option \<Rightarrow> string" where
  "hex_text n =
     (case n of
        None \<Rightarrow> ''NaN''
      | Some i \<Rightarrow> if i < 0 then ''-'' @ hex (nat (- i)) else hex (nat i))"

text \<open>
  \<^verbatim>\<open>s.match(/\d+/)\<close>: the first run of digits.  \<^verbatim>\<open>s.match(/w\s+(\d+)/)\<close> for a word
  \<open>w\<close>: the digits captured at the leftmost place where \<open>w\<close> is followed by white
  space and then a digit.
\<close>

definition match_digits :: "string \<Rightarrow> string option" where
  "match_digits s =
     (case dropWhile (\<lambda>c. \<not> is_digit c) s of [] \<Rightarrow> None | c # cs \<Rightarrow> Some (takeWhile is_digit (c # cs)))"

fun match_word_number :: "string \<Rightarrow> string \<Rightarrow> string option" where
  "match_word_number w [] = None"
| "match_word_number w (c # cs) =
     (let r = drop (length w) (c # cs);
          r' = dropWhile is_space r
      in if starts_with (c # cs) w \<and> r' \<noteq> r \<and> takeWhile is_digit r' \<noteq> []
         then Some (takeWhile is_digit r')
         else match_word_number w cs)"

subsection \<open>Running commands\<close>

text \<open>
  \<^verbatim>\<open>runCommand\<close> rethrows a failure as
  \<^verbatim>\<open>new Error(error.stderr?.toString() || error.message)\<close>.
\<close>

definition runCommand :: "host \<Rightarrow> string \<Rightarrow> js_error + string" where
  "runCommand h command =
     (case exec h command of
        Inr stdout \<Rightarrow> Inr stdout
      | Inl (ExecError stderr msg) \<Rightarrow>
          Inl (Error (case stderr of
                        None \<Rightarrow> msg
                      | Some e \<Rightarrow> if e \<noteq> [] then e else msg)))"

text \<open>
  \<^verbatim>\<open>safeRun\<close> returns \<^verbatim>\<open>JSON.parse(JSON.stringify(result))\<close>, which is the result
  itself for the JSON values below, and for a failure the marker
  \<^verbatim>\<open>{error: true, message: error.message || String(error)}\<close>.
\<close>

definition error_text :: "js_error \<Rightarrow> string" where
  "error_text e =
     (case e of
        Error msg \<Rightarrow> if msg \<noteq> [] then msg else ''Error''
      | TypeError msg \<Rightarrow> if msg \<noteq> [] then msg else ''TypeError'')"

definition safeRun :: "js_error + json \<Rightarrow> json" where
  "safeRun r =
     (case r of
        Inr result \<Rightarrow> result
      | Inl e \<Rightarrow> JObj [(''error'', JBool True), (''message'', JStr (error_text e))])"

text \<open>The continuation of a command that may have thrown.\<close>

definition and_then :: "js_error + 'a \<Rightarrow> ('a \<Rightarrow> js_error + 'b) \<Rightarrow> js_error + 'b" where
  "and_then r k = (case r of Inl e \<Rightarrow> Inl e | Inr x \<Rightarrow> k x)"

subsection \<open>Disk encryption\<close>

definition checkMacOSEncryption :: "host \<Rightarrow> js_error + json" where
  "checkMacOSEncryption h =
     and_then (runCommand h ''fdesetup status'') (\<lambda>stdout.
       Inr (JObj [(''enabled'', JBool (str_includes stdout ''FileVault is On'')),
                  (''status'', JStr (trim stdout)),
                  (''method'', JStr ''FileVault'')]))"

definition checkWindowsEncryption :: "host \<Rightarrow> js_error + json" where
  "checkWindowsEncryption h =
     and_then (runCommand h ''manage-bde -status C:'') (\<lambda>stdout.
       let enabled = str_includes stdout ''Protection On'' \<or> str_includes stdout ''Fully Encrypted''
       in Inr (JObj [(''enabled'', JBool enabled),
                     (''status'', JStr (if enabled then ''BitLocker enabled''
                                        else ''BitLocker not enabled'')),
                     (''method'', JStr ''BitLocker''),
                     (''details'', JStr (substring0 stdout 200))]))"

definition checkLinuxEncryption :: "host \<Rightarrow> js_error + json" where
  "checkLinuxEncryption h =
     and_then (runCommand h ''lsblk -f'') (\<lambda>stdout.
       let enabled = str_includes stdout ''crypto_LUKS''
       in Inr (JObj [(''enabled'', JBool enabled),
                     (''status'', JStr (if enabled then ''LUKS encryption detected''
                                        else ''No LUKS encryption found'')),
                     (''method'', JStr ''LUKS''),
                     (''details'', JStr (substring0 stdout 200))]))"

definition checkDiskEncryption :: "host \<Rightarrow> json" where
  "checkDiskEncryption h =
     safeRun
       (if os_platform h = ''darwin'' then checkMacOSEncryption h
        else if os_platform h = ''win32'' then checkWindowsEncryption h
        else if os_platform h = ''linux'' then checkLinuxEncryption h
        else Inr (JObj [(''enabled'', JBool False), (''status'', JStr ''Platform not supported'')]))"

subsection \<open>OS updates\<close>

definition checkMacOSUpdates :: "host \<Rightarrow> js_error + json" where
  "checkMacOSUpdates h =
     and_then (runCommand h ''softwareupdate -l'') (\<lambda>stdout.
       let updatesAvailable = \<not> str_includes stdout ''No new software available''
       in Inr (JObj [(''updatesAvailable'', JBool updatesAvailable),
                     (''lastCheck'', JStr (toISOString (clock h))),
                     (''status'', JStr (if updatesAvailable then ''Updates available''
                                        else ''System up to date'')),
                     (''details'', JStr (substring0 stdout 500))]))"

definition checkWindowsUpdates :: "host \<Rightarrow> js_error + json" where
  "checkWindowsUpdates h =
     and_then (runCommand h ''powershell \"Get-WindowsUpdate -AcceptAll -Hide\"'') (\<lambda>stdout.
       Inr (JObj [(''updatesAvailable'', JBool (length (trim stdout) > 0)),
                  (''lastCheck'', JStr (toISOString (clock h))),
                  (''status'', JStr ''Windows Update check completed''),
                  (''details'', JStr (substring0 stdout 500))]))"

text \<open>
  \<^verbatim>\<open>checkLinuxUpdates\<close> tries three package managers in nested \<^verbatim>\<open>try\<close> blocks and
  throws when all three commands fail.
\<close>

definition linux_update_count :: "host \<Rightarrow> js_error + string \<times> string" where
  "linux_update_count h =
     (case runCommand h ''apt list --upgradable 2>/dev/null | wc -l'' of
        Inr stdout \<Rightarrow> Inr (stdout, ''apt'')
      | Inl e1 \<Rightarrow>
          (case runCommand h ''yum check-update | grep -c \"^[^L]\" || true'' of
             Inr stdout \<Rightarrow> Inr (stdout, ''yum'')
           | Inl e2 \<Rightarrow>
               (case runCommand h ''zypper list-updates | wc -l'' of
                  Inr stdout \<Rightarrow> Inr (stdout, ''zypper'')
                | Inl e3 \<Rightarrow> Inl (Error ''No supported package manager found''))))"

definition checkLinuxUpdates :: "host \<Rightarrow> js_error + json" where
  "checkLinuxUpdates h =
     and_then (linux_update_count h) (\<lambda>(stdout, packageManager).
       let updateCount = parseInt10 (trim stdout)
       in Inr (JObj [(''updatesAvailable'',
                        JBool (case updateCount of
                                 None \<Rightarrow> False
                               | Some n \<Rightarrow> n > (if packageManager = ''apt'' then 1 else 0))),
                     (''lastCheck'', JStr (toISOString (clock h))),
                     (''status'',
                        JStr (int_text updateCount @ '' package'' @
                              (if updateCount \<noteq> Some 1 then ''s'' else '''') @
                              '' can be upgraded'')),
                     (''packageManager'', JStr packageManager),
                     (''details'', JStr (''Using '' @ packageManager))]))"

definition checkOSUpdates :: "host \<Rightarrow> json" where
  "checkOSUpdates h =
     safeRun
       (if os_platform h = ''darwin'' then checkMacOSUpdates h
        else if os_platform h = ''win32'' then checkWindowsUpdates h
        else if os_platform h = ''linux'' then checkLinuxUpdates h
        else Inr (JObj [(''updatesAvailable'', JBool False),
                        (''status'', JStr ''Platform not supported'')]))"

subsection \<open>Antivirus\<close>

definition checkMacOSAntivirus :: "host \<Rightarrow> js_error + json" where
  "checkMacOSAntivirus h =
     Inr (JObj [(''installed'', JBool True),
                (''running'', JBool True),
                (''name'', JStr ''XProtect (Built-in)''),
                (''status'', JStr ''macOS built-in malware protection active''),
                (''lastUpdate'', JStr ''Automatic updates'')])"

text \<open>\<^verbatim>\<open>xs[i] || d\<close> for a list of strings.\<close>

definition item_or :: "string list \<Rightarrow> nat \<Rightarrow> string \<Rightarrow> string" where
  "item_or xs i d = (if i < length xs \<and> xs ! i \<noteq> [] then xs ! i else d)"

text \<open>
  \<^verbatim>\<open>(productState & 0x1000) !== 0\<close>: bit 12 of the number; NaN converts to 0.
\<close>

definition wmic_command :: string where
  "wmic_command =
     ''wmic /namespace:'' @ [CHR 0x5C, CHR 0x5C] @ ''root'' @ [CHR 0x5C] @
     ''SecurityCenter2 path AntivirusProduct get displayName,productState /format:csv''"

definition checkWindowsAntivirus :: "host \<Rightarrow> js_error + json" where
  "checkWindowsAntivirus h =
     and_then (runCommand h wmic_command) (\<lambda>stdout.
       let lines = filter (\<lambda>l. l \<noteq> []) (split (CHR 0x0A) (trim stdout))
       in if length lines > 1 then
            let parts = split (CHR '','') (lines ! 1);
                displayName = item_or parts 1 ''Windows Defender'';
                productState = parseInt (item_or parts 2 ''0'');
                running = (case productState of None \<Rightarrow> False | Some n \<Rightarrow> bit n 12)
            in Inr (JObj [(''installed'', JBool True),
                          (''running'', JBool running),
                          (''name'', JStr displayName),
                          (''status'', JStr (if running then ''Antivirus active''
                                             else ''Antivirus installed but not active'')),
                          (''productState'', JStr (hex_text productState))])
          else
            Inr (JObj [(''installed'', JBool False),
                       (''running'', JBool False),
                       (''status'', JStr ''No antivirus product detected'')]))"

text \<open>
  \<^verbatim>\<open>checkLinuxAntivirus\<close> runs its five commands in order and returns at the first
  that succeeds.
\<close>

definition antivirusChecks :: "(string \<times> string) list" where
  "antivirusChecks =
     [(''which clamav'', ''ClamAV''),
      (''which freshclam'', ''ClamAV''),
      (''systemctl is-active clamav-daemon'', ''ClamAV Daemon''),
      (''which rkhunter'', ''RKHunter''),
      (''which chkrootkit'', ''chkrootkit'')]"

fun first_detected :: "host \<Rightarrow> (string \<times> string) list \<Rightarrow> json" where
  "first_detected h [] =
     JObj [(''installed'', JBool False),
           (''running'', JBool False),
           (''status'', JStr ''No common antivirus solutions detected'')]"
| "first_detected h ((command, name) # checks) =
     (case runCommand h command of
        Inr stdout \<Rightarrow>
          JObj [(''installed'', JBool True),
                (''running'', JBool True),
                (''name'', JStr name),
                (''status'', JStr (name @ '' detected'')),
                (''method'', JStr ''Command line detection'')]
      | Inl e \<Rightarrow> first_detected h checks)"

definition checkLinuxAntivirus :: "host \<Rightarrow> js_error + json" where
  "checkLinuxAntivirus h = Inr (first_detected h antivirusChecks)"

definition checkAntivirus :: "host \<Rightarrow> json" where
  "checkAntivirus h =
     safeRun
       (if os_platform h = ''darwin'' then checkMacOSAntivirus h
        else if os_platform h = ''win32'' then checkWindowsAntivirus h
        else if os_platform h = ''linux'' then checkLinuxAntivirus h
        else Inr (JObj [(''installed'', JBool False),
                        (''running'', JBool False),
                        (''status'', JStr ''Platform not supported'')]))"

subsection \<open>Sleep settings\<close>

text \<open>A number or null as a JSON value, and \<^verbatim>\<open>n || 'Never'\<close> in a template literal.\<close>

definition number_or_null :: "int option \<Rightarrow> json" where
  "number_or_null n = (case n of None \<Rightarrow> JNull | Some i \<Rightarrow> JNum (of_int i))"

definition minutes_or_never :: "int option \<Rightarrow> string" where
  "minutes_or_never n =
     (case n of None \<Rightarrow> ''Never'' | Some i \<Rightarrow> if i = 0 then ''Never'' else int_text (Some i))"

text \<open>
  \<^verbatim>\<open>Math.min(sleepTime || Infinity, displaySleep || Infinity)\<close>, with \<open>None\<close> for
  Infinity: null and 0 count as Infinity.
\<close>

definition or_infinity :: "int option \<Rightarrow> int option" where
  "or_infinity n = (case n of None \<Rightarrow> None | Some i \<Rightarrow> if i = 0 then None else Some i)"

definition min_infinity :: "int option \<Rightarrow> int option \<Rightarrow> int option" where
  "min_infinity a b =
     (case a of None \<Rightarrow> b | Some x \<Rightarrow> (case b of None \<Rightarrow> Some x | Some y \<Rightarrow> Some (min x y)))"

text \<open>
  The loop over the lines of \<^verbatim>\<open>pmset\<close>: each line that matches sets \<^verbatim>\<open>sleepTime\<close>,
  respectively \<^verbatim>\<open>displaySleep\<close>.
\<close>

definition pmset_line :: "int option \<times> int option \<Rightarrow> string \<Rightarrow> int option \<times> int option" where
  "pmset_line acc line =
     (case acc of (sleepTime, displaySleep) \<Rightarrow>
        ((case match_word_number ''sleep'' line of
            None \<Rightarrow> sleepTime | Some ds \<Rightarrow> parseInt10 ds),
         (case match_word_number ''displaysleep'' line of
            None \<Rightarrow> displaySleep | Some ds \<Rightarrow> parseInt10 ds)))"

definition checkMacOSSleep :: "host \<Rightarrow> js_error + json" where
  "checkMacOSSleep h =
     and_then (runCommand h ''pmset -g | grep -E \"(sleep|displaysleep)\"'') (\<lambda>stdout.
       case foldl pmset_line (None, None) (split (CHR 0x0A) stdout) of
         (sleepTime, displaySleep) \<Rightarrow>
           let effectiveSleep = min_infinity (or_infinity sleepTime) (or_infinity displaySleep)
           in Inr (JObj [(''sleepTime'', number_or_null effectiveSleep),
                         (''displaySleep'', number_or_null displaySleep),
                         (''compliant'',
                            JBool (case effectiveSleep of None \<Rightarrow> False | Some n \<Rightarrow> n \<le> 10)),
                         (''status'',
                            JStr (''Sleep: '' @ minutes_or_never sleepTime @ '' min, Display: '' @
                                  minutes_or_never displaySleep @ '' min'')),
                         (''settings'', JStr (trim stdout))]))"

definition checkWindowsSleep :: "host \<Rightarrow> js_error + json" where
  "checkWindowsSleep h =
     (case runCommand h ''powercfg /query SCHEME_CURRENT SUB_SLEEP'' of
        Inr stdout \<Rightarrow>
          Inr (JObj [(''sleepTime'', JNull),
                     (''compliant'', JBool False),
                     (''status'',
                        JStr ''Windows power settings check - manual verification recommended''),
                     (''settings'', JStr (substring0 stdout 300))])
      | Inl e \<Rightarrow>
          Inr (JObj [(''sleepTime'', JNull),
                     (''compliant'', JBool False),
                     (''status'', JStr ''Unable to check Windows sleep settings'')]))"

definition checkLinuxSleep :: "host \<Rightarrow> js_error + json" where
  "checkLinuxSleep h =
     (case runCommand h ''gsettings get org.gnome.desktop.session idle-delay'' of
        Inr stdout \<Rightarrow>
          let delay = (case parseInt (case match_digits stdout of None \<Rightarrow> ''0'' | Some ds \<Rightarrow> ds) of
                         None \<Rightarrow> 0 | Some n \<Rightarrow> n)
          in Inr (JObj [(''sleepTime'', JNum (of_int delay / 60)),
                        (''compliant'', JBool (delay \<le> 600)),
                        (''status'', JStr (''GNOME idle delay: '' @ int_text (Some delay) @ '' seconds'')),
                        (''settings'', JStr (trim stdout))])
      | Inl e \<Rightarrow>
          Inr (JObj [(''sleepTime'', JNull),
                     (''compliant'', JBool False),
                     (''status'', JStr ''Manual check recommended for your desktop environment'')]))"

definition checkSleepSettings :: "host \<Rightarrow> json" where
  "checkSleepSettings h =
     safeRun
       (if os_platform h = ''darwin'' then checkMacOSSleep h
        else if os_platform h = ''win32'' then checkWindowsSleep h
        else if os_platform h = ''linux'' then checkLinuxSleep h
        else Inr (JObj [(''sleepTime'', JNull),
                        (''compliant'', JBool False),
                        (''status'', JStr ''Platform not supported'')]))"

section \<open>SystemMonitor\<close>

text \<open>
  The object \<^verbatim>\<open>getSystemState\<close> builds.  It extends the members the server's
  \<^verbatim>\<open>analyzeSystemData\<close> reads.  \<^verbatim>\<open>timestamp\<close> is the time of the clock in milliseconds:
  the source keeps it as the text of \<^verbatim>\<open>toISOString\<close>, from which \<^verbatim>\<open>new Date\<close> reads the
  same millisecond back.
\<close>

record system_state = system_data +
  platform :: string
  hostname :: string
  timestamp :: int
  osInfo :: json
  systemInfo :: json

definition getSystemState :: "host \<Rightarrow> string \<Rightarrow> system_state" where
  "getSystemState h this_machineId =
     \<lparr>machineId = this_machineId,
      diskEncryption = Some (checkDiskEncryption h),
      osUpdates = Some (checkOSUpdates h),
      antivirus = Some (checkAntivirus h),
      sleepSettings = Some (checkSleepSettings h),
      platform = os_platform h,
      hostname = os_hostname h,
      timestamp = clock h,
      osInfo = JObj [(''type'', JStr (os_type h)), (''release'', JStr (os_release h)),
                     (''arch'', JStr (os_arch h)), (''uptime'', JNum (os_uptime h))],
      systemInfo = JObj [(''totalMemory'', JNum (os_totalmem h)),
                         (''freeMemory'', JNum (os_freemem h)),
                         (''cpus'', JNum (of_nat (os_cpus h))),
                         (''loadAverage'', JArr (map JNum (os_loadavg h)))]\<rparr>"

subsection \<open>JSON.stringify\<close>

text \<open>
  \<^verbatim>\<open>JSON.stringify\<close> of a JSON value, without indentation.  A string is quoted with
  the escapes of \<^verbatim>\<open>QuoteJSONString\<close>; a number is printed by the runtime's
  \<open>NumberToString\<close>.  \<^verbatim>\<open>JSON.stringify(undefined)\<close> is undefined.
\<close>

definition hexdigit :: "nat \<Rightarrow> char" where
  "hexdigit n = ''0123456789abcdef'' ! n"

definition escape :: "char \<Rightarrow> string" where
  "escape c =
     (if c = CHR 0x08 then [CHR 0x5C, CHR ''b'']
      else if c = CHR 0x09 then [CHR 0x5C, CHR ''t'']
      else if c = CHR 0x0A then [CHR 0x5C, CHR ''n'']
      else if c = CHR 0x0C then [CHR 0x5C, CHR ''f'']
      else if c = CHR 0x0D then [CHR 0x5C, CHR ''r'']
      else if c = CHR 0x22 then [CHR 0x5C, CHR 0x22]
      else if c = CHR 0x5C then [CHR 0x5C, CHR 0x5C]
      else if (of_char c :: nat) < 32 then
        [CHR 0x5C, CHR ''u'', CHR ''0'', CHR ''0'',
         hexdigit (of_char c div 16), hexdigit (of_char c mod 16)]
      else [c])"

definition quote :: "string \<Rightarrow> string" where
  "quote s = CHR 0x22 # concat (map escape s) @ [CHR 0x22]"

fun commas :: "string list \<Rightarrow> string" where
  "commas [] = []"
| "commas [x] = x"
| "commas (x # y # ys) = x @ CHR '','' # commas (y # ys)"

fun stringify :: "builtins \<Rightarrow> json \<Rightarrow> string" where
  "stringify rt JNull = ''null''"
| "stringify rt (JBool b) = (if b then ''true'' else ''false'')"
| "stringify rt (JNum n) = NumberToString rt n"
| "stringify rt (JStr s) = quote s"
| "stringify rt (JArr xs) = CHR ''['' # commas (map (stringify rt) xs) @ '']''"
| "stringify rt (JObj kvs) =
     CHR ''{'' # commas (map (\<lambda>(k, v). quote k @ CHR '':'' # stringify rt v) kvs) @ ''}''"

definition JSON_stringify :: "builtins \<Rightarrow> json option \<Rightarrow> string option" where
  "JSON_stringify rt x = map_option (stringify rt) x"

subsection \<open>The decision to transmit\<close>

text \<open>
  The members of the monitor that a check reads and writes.  \<^verbatim>\<open>lastState\<close> is the
  snapshot last transmitted, null at the start.
\<close>

record monitor =
  lastState :: "system_state option"
  this_machineId :: "string option"
  checkInterval :: int
  lastCheck :: "int option"
  nextCheck :: "int option"

definition hasStateChanged :: "builtins \<Rightarrow> monitor \<Rightarrow> system_state \<Rightarrow> bool" where
  "hasStateChanged rt this newState =
     (case lastState this of
        None \<Rightarrow> True
      | Some sent \<Rightarrow>
          list_ex (\<lambda>key. JSON_stringify rt (key sent) \<noteq> JSON_stringify rt (key newState))
            [diskEncryption, osUpdates, antivirus, sleepSettings])"

text \<open>\<open>Date_now\<close> is what \<^verbatim>\<open>Date.now()\<close> returns when the monitor asks.\<close>

definition shouldSendHeartbeat :: "monitor \<Rightarrow> int \<Rightarrow> bool" where
  "shouldSendHeartbeat this Date_now =
     (case lastState this of
        None \<Rightarrow> True
      | Some sent \<Rightarrow>
          (let lastSent = timestamp sent;
               hoursSinceLastSent = (of_int (Date_now - lastSent) :: rat) / (1000 * 60 * 60)
           in hoursSinceLastSent \<ge> 24))"

text \<open>
  \<^verbatim>\<open>shouldSend\<close> of \<^verbatim>\<open>runCheck\<close>:
  \<^verbatim>\<open>!this.lastState || this.hasStateChanged(currentState) || this.shouldSendHeartbeat()\<close>.
\<close>

definition shouldSend :: "builtins \<Rightarrow> monitor \<Rightarrow> system_state \<Rightarrow> int \<Rightarrow> bool" where
  "shouldSend rt this currentState Date_now =
     (lastState this = None \<or> hasStateChanged rt this currentState \<or>
      shouldSendHeartbeat this Date_now)"

text \<open>
  \<^verbatim>\<open>runCheck\<close>.  \<open>lookup\<close> is the outcome of \<^verbatim>\<open>machineId()\<close>, asked for when the monitor
  has no machine id yet; \<open>h\<close> is the host at the time of the check, \<open>Date_now\<close> the
  time read after the probes, and \<open>sendSystemData\<close> the API client.  The result is the
  snapshot handed to the API client, if any, and the monitor afterwards.  A failed
  transmission is caught: \<^verbatim>\<open>lastState\<close> and \<^verbatim>\<open>nextCheck\<close> stay as they were.
\<close>

definition runCheck ::
  "builtins \<Rightarrow> monitor \<Rightarrow> js_error + string \<Rightarrow> host \<Rightarrow> int \<Rightarrow>
   (system_state \<Rightarrow> js_error + unit) \<Rightarrow> system_state option \<times> monitor" where
  "runCheck rt this lookup h Date_now sendSystemData =
     (case (case this_machineId this of
              None \<Rightarrow> lookup
            | Some m \<Rightarrow> if m = [] then lookup else Inr m) of
        Inl e \<Rightarrow> (None, this)
      | Inr m \<Rightarrow>
          (let this1 = this\<lparr>this_machineId := Some m, lastCheck := Some (clock h)\<rparr>;
               currentState = getSystemState h m;
               next = Date_now + checkInterval this1 * 60 * 1000
           in if shouldSend rt this1 currentState Date_now then
                (case sendSystemData currentState of
                   Inl e \<Rightarrow> (Some currentState, this1)
                 | Inr u \<Rightarrow>
                     (Some currentState,
                      this1\<lparr>lastState := Some currentState, nextCheck := Some next\<rparr>))
              else (None, this1\<lparr>nextCheck := Some next\<rparr>)))"

section \<open>Observations of the store\<close>

text \<open>The open alerts of a machine and type, and all its alerts of that type.\<close>

definition open_count :: "string \<Rightarrow> string \<Rightarrow> store \<Rightarrow> nat" where
  "open_count m t s = length (filter (where_open m t) (rows s))"

definition alerts_of :: "string \<Rightarrow> string \<Rightarrow> store \<Rightarrow> alert_row list" where
  "alerts_of m t s = filter (\<lambda>r. machine_id r = m \<and> alert_type r = t) (rows s)"

text \<open>
  The invariant of the alert records: no two open records share machine and type.
\<close>

definition at_most_one_open :: "store \<Rightarrow> bool" where
  "at_most_one_open s =
     distinct (map (\<lambda>r. (machine_id r, alert_type r)) (filter (\<lambda>r. \<not> is_resolved r) (rows s)))"

text \<open>
  Two changes of a store.  \<open>ensure_open\<close> adds an open alert of a machine and type,
  created now, unless one is open: the outcome \<^verbatim>\<open>createAlertIfNotExists\<close> is written
  for, and the way the examples come by a store that holds an alert.
  \<open>mark_resolved\<close> is what the statement of \<^verbatim>\<open>resolveAlertByType\<close> does.
\<close>

definition ensure_open :: "string \<Rightarrow> string \<Rightarrow> string \<Rightarrow> string \<Rightarrow> string \<Rightarrow> store \<Rightarrow> store" where
  "ensure_open m t sev ttl msg s =
     (if open_count m t s = 0 then
        s\<lparr>rows := rows s @
              [\<lparr>machine_id = m, alert_type = t, severity = sev, title = ttl, message = msg,
                is_resolved = False, created_at = CURRENT_TIMESTAMP s, resolved_at = None\<rparr>]\<rparr>
      else s)"

definition mark_resolved :: "string \<Rightarrow> string \<Rightarrow> store \<Rightarrow> store" where
  "mark_resolved m t s =
     s\<lparr>rows := map (\<lambda>r. if where_open m t r then set_resolved (CURRENT_TIMESTAMP s) r else r)
                   (rows s)\<rparr>"

text \<open>
  \<^verbatim>\<open>resolveAlertByType\<close> on one record: an open record becomes resolved at the given
  timestamp, a resolved record stays as it is.
\<close>

definition resolved_at_time :: "string \<Rightarrow> alert_row \<Rightarrow> alert_row" where
  "resolved_at_time ts r = (if is_resolved r then r else set_resolved ts r)"

text \<open>
  A store on which every statement about one alert type fails (the callback of
  \<^verbatim>\<open>get\<close> or \<^verbatim>\<open>run\<close> receives an error), and every other statement works.
\<close>

definition failing_get :: "string \<Rightarrow> query \<Rightarrow> (store, alert_row option) promise" where
  "failing_get bad q =
     (case q of SELECT_open_alert m t \<Rightarrow>
        if t = bad then reject (Error ''SQLITE_IOERR: disk I/O error'') else sql_get q)"

definition failing_run :: "string \<Rightarrow> statement \<Rightarrow> (store, nat) promise" where
  "failing_run bad st =
     (case st of
        UPDATE_resolve m t \<Rightarrow>
          if t = bad then reject (Error ''SQLITE_IOERR: disk I/O error'') else sql_run st
      | DELETE_resolved_before cutoff \<Rightarrow> sql_run st)"

definition failingStore :: "string \<Rightarrow> store database" where
  "failingStore bad =
     \<lparr>db = Some \<lparr>get = failing_get bad, run = failing_run bad\<rparr>,
      createAlert = Some Database_createAlert,
      getAlerts = Some listAlerts\<rparr>"

text \<open>
  The calls by which the service reaches the store, one at a time: a query, a
  statement, or \<^verbatim>\<open>createAlert\<close>.  Whatever the service does, also in analyses that run
  interleaved, is a sequence of such calls.
\<close>

datatype store_call =
    Get query
  | Run statement
  | CreateAlert string string string string string

fun after_call :: "store_call \<Rightarrow> store \<Rightarrow> store" where
  "after_call (Get q) s = snd (db_get alertStore q s)"
| "after_call (Run st) s = snd (db_run alertStore st s)"
| "after_call (CreateAlert m t sev ttl msg) s = snd (db_createAlert alertStore m t sev ttl msg s)"

text \<open>
  The open alerts of a machine, the newest 100 of them as \<^verbatim>\<open>getAlerts\<close> lists them,
  and the number an alert adds to the raw score when its severity is no name that the
  table of weights inherits.
\<close>

definition open_alerts :: "string \<Rightarrow> store \<Rightarrow> alert_row list" where
  "open_alerts m s = filter (\<lambda>r. \<not> is_resolved r \<and> machine_id r = m) (rows s)"

definition newest_open_alerts :: "string \<Rightarrow> store \<Rightarrow> alert_row list" where
  "newest_open_alerts m s = take 100 (rev (sort_key created_at (open_alerts m s)))"

definition weight :: "alert_row \<Rightarrow> nat" where
  "weight alert = (case severityWeights (severity alert) of Weight w \<Rightarrow> w | _ \<Rightarrow> 0)"

text \<open>
  A runtime for the examples.  They convert no string, array or object and print
  natural numbers only: it prints a natural number in decimal, as ECMAScript does,
  and is arbitrary elsewhere.
\<close>

definition decimal_runtime :: builtins where
  "decimal_runtime =
     \<lparr>StringToNumber = (\<lambda>s. None),
      NumberToString = (\<lambda>n. decimal (nat \<lfloor>n\<rfloor>)),
      ToPrimitive = (\<lambda>v. Inr ''[object Object]'')\<rparr>"

subsection \<open>Observations on the decision to transmit\<close>

text \<open>
  The four category payloads of a snapshot, in the order of the \<^verbatim>\<open>keys\<close> of
  \<^verbatim>\<open>hasStateChanged\<close>.
\<close>

definition payloads :: "system_state \<Rightarrow> json option list" where
  "payloads s = [diskEncryption s, osUpdates s, antivirus s, sleepSettings s]"

text \<open>The numbers that occur in a value.\<close>

fun numbers :: "json \<Rightarrow> rat list" where
  "numbers (JNum n) = [n]"
| "numbers (JArr xs) = concat (map numbers xs)"
| "numbers (JObj kvs) = concat (map (\<lambda>(k, v). numbers v) kvs)"
| "numbers JNull = []"
| "numbers (JBool b) = []"
| "numbers (JStr s) = []"

definition payload_numbers :: "system_state \<Rightarrow> rat list" where
  "payload_numbers s =
     concat (map (\<lambda>p. case p of None \<Rightarrow> [] | Some v \<Rightarrow> numbers v) (payloads s))"

text \<open>
  What the text of a number looks like: decimal digits, a sign, a point and an
  exponent mark, as \<open>Number::toString\<close> produces for a finite number.
\<close>

definition number_text :: "string \<Rightarrow> bool" where
  "number_text s \<longleftrightarrow> s \<noteq> [] \<and> list_all (\<lambda>c. c \<in> set ''0123456789+-.e'') s"

text \<open>
  A runtime prints the numbers \<open>ns\<close> faithfully when it gives each a number text and
  different numbers different texts.
\<close>

definition prints_faithfully :: "builtins \<Rightarrow> rat list \<Rightarrow> bool" where
  "prints_faithfully rt ns \<longleftrightarrow>
     list_all (\<lambda>n. number_text (NumberToString rt n)) ns \<and>
     distinct (map (NumberToString rt) (remdups ns))"

text \<open>The milliseconds of the 24 hours of the heartbeat.\<close>

definition heartbeat_ms :: int where
  "heartbeat_ms = 24 * 60 * 60 * 1000"

text \<open>
  The characters that can follow a value inside an array or an object, and the
  characters a value's text can start with.
\<close>

definition closes :: "string \<Rightarrow> bool" where
  "closes r \<longleftrightarrow> r = [] \<or> hd r \<in> {CHR '','', CHR '']'', CHR ''}''}"

fun lead :: "json \<Rightarrow> char set" where
  "lead JNull = {CHR ''n''}"
| "lead (JBool b) = {if b then CHR ''t'' else CHR ''f''}"
| "lead (JNum n) = set ''0123456789+-.e''"
| "lead (JStr s) = {CHR 0x22}"
| "lead (JArr xs) = {CHR ''[''}"
| "lead (JObj kvs) = {CHR ''{''}"

text \<open>
  A value with the members of every object sorted by name.  Two values are the same
  up to the order of the members of their objects when this gives the same value.
\<close>

fun sorted_members :: "json \<Rightarrow> json" where
  "sorted_members (JObj kvs) = JObj (sort_key fst (map (\<lambda>(k, v). (k, sorted_members v)) kvs))"
| "sorted_members (JArr xs) = JArr (map sorted_members xs)"
| "sorted_members JNull = JNull"
| "sorted_members (JBool b) = JBool b"
| "sorted_members (JNum n) = JNum n"
| "sorted_members (JStr s) = JStr s"

definition same_members :: "json option \<Rightarrow> json option \<Rightarrow> bool" where
  "same_members p q \<longleftrightarrow> map_option sorted_members p = map_option sorted_members q"

text \<open>The names of the members of an object, and an object of primitive values.\<close>

fun names :: "json \<Rightarrow> string list" where
  "names (JObj kvs) = map fst kvs"
| "names v = []"

fun primitive :: "json \<Rightarrow> bool" where
  "primitive (JObj kvs) = False"
| "primitive (JArr xs) = False"
| "primitive v = True"

fun flat_object :: "json \<Rightarrow> bool" where
  "flat_object (JObj kvs) = list_all (\<lambda>kv. primitive (snd kv)) kvs"
| "flat_object v = False"

section \<open>Stores and snapshots of the examples\<close>

text \<open>The store without alerts, at a given time.\<close>

definition no_alerts :: "int \<Rightarrow> store" where
  "no_alerts t = \<lparr>rows = [], now = t\<rparr>"

text \<open>
  The scenario of the specification:
  \<^verbatim>\<open>{diskEncryption:{encrypted:e}, osUpdates:{upToDate:true},
  antivirus:{installed:true,enabled:true,definitionsOutdated:false},
  sleepSettings:{sleepTimeout:5}}\<close>, reported by the machine \<^verbatim>\<open>M1\<close>.
\<close>

definition scenario :: "bool \<Rightarrow> system_data" where
  "scenario e =
     \<lparr>machineId = ''M1'',
      diskEncryption = Some (JObj [(''encrypted'', JBool e)]),
      osUpdates = Some (JObj [(''upToDate'', JBool True)]),
      antivirus = Some (JObj [(''installed'', JBool True), (''enabled'', JBool True),
                              (''definitionsOutdated'', JBool False)]),
      sleepSettings = Some (JObj [(''sleepTimeout'', JNum 5)])\<rparr>"

text \<open>
  A snapshot that is non-compliant in every category: the disk is not encrypted, the
  system is 45 days behind, the antivirus \<open>av\<close> is as given, the sleep timeout is 30
  minutes.
\<close>

definition noncompliant :: "json \<Rightarrow> system_data" where
  "noncompliant av =
     \<lparr>machineId = ''M1'',
      diskEncryption = Some (JObj [(''encrypted'', JBool False)]),
      osUpdates = Some (JObj [(''upToDate'', JBool False), (''daysBehind'', JNum 45)]),
      antivirus = Some av,
      sleepSettings = Some (JObj [(''sleepTimeout'', JNum 30)])\<rparr>"

definition av_not_installed :: json where
  "av_not_installed = JObj [(''installed'', JBool False)]"

definition av_disabled :: json where
  "av_disabled = JObj [(''installed'', JBool True), (''enabled'', JBool False)]"

definition av_outdated :: json where
  "av_outdated =
     JObj [(''installed'', JBool True), (''enabled'', JBool True),
           (''definitionsOutdated'', JBool True)]"

text \<open>
  A Mac whose disk is encrypted with FileVault and whose display sleeps after ten
  minutes; every command but \<^verbatim>\<open>fdesetup\<close> and \<^verbatim>\<open>pmset\<close> fails on it.
\<close>

definition mac :: host where
  "mac =
     \<lparr>os_platform = ''darwin'', os_hostname = ''mac.local'', os_type = ''Darwin'',
      os_release = ''23.4.0'', os_arch = ''arm64'', os_uptime = 3600,
      os_totalmem = 17179869184, os_freemem = 8589934592, os_cpus = 8,
      os_loadavg = [1, 2, 3],
      clock = 1714604400000,
      exec = (\<lambda>command.
        if command = ''fdesetup status'' then Inr (''FileVault is On.'' @ [CHR 0x0A])
        else if command = ''pmset -g | grep -E \"(sleep|displaysleep)\"'' then
          Inr ('' displaysleep 10'' @ [CHR 0x0A] @ '' sleep 1'' @ [CHR 0x0A])
        else Inl (ExecError (Some ''command not found'') ''Command failed''))\<rparr>"

text \<open>
  A snapshot of a Mac taken at \<open>t\<close>, with FileVault on or off, and a monitor that has
  last transmitted \<open>sent\<close>.
\<close>

definition snapshot :: "int \<Rightarrow> bool \<Rightarrow> system_state" where
  "snapshot t on =
     \<lparr>machineId = ''M1'',
      diskEncryption = Some (JObj [(''enabled'', JBool on),
                                   (''status'', JStr (if on then ''FileVault is On.''
                                                      else ''FileVault is Off.'')),
                                   (''method'', JStr ''FileVault'')]),
      osUpdates = Some (JObj [(''error'', JBool True),
                              (''message'', JStr ''command not found'')]),
      antivirus = Some (JObj [(''installed'', JBool True), (''running'', JBool True),
                              (''name'', JStr ''XProtect (Built-in)''),
                              (''status'', JStr ''macOS built-in malware protection active''),
                              (''lastUpdate'', JStr ''Automatic updates'')]),
      sleepSettings = Some (JObj [(''sleepTime'', JNum 1), (''displaySleep'', JNum 10),
                                  (''compliant'', JBool True),
                                  (''status'', JStr ''Sleep: 1 min, Display: 10 min''),
                                  (''settings'', JStr ''displaysleep 10'')]),
      platform = ''darwin'', hostname = ''mac.local'', timestamp = t,
      osInfo = JObj [(''uptime'', JNum (of_int t))],
      systemInfo = JObj [(''freeMemory'', JNum (of_int t))]\<rparr>"

definition monitoring :: "system_state option \<Rightarrow> monitor" where
  "monitoring sent =
     \<lparr>lastState = sent, this_machineId = Some ''M1'', checkInterval = 30,
      lastCheck = None, nextCheck = None\<rparr>"

text \<open>
  A store that holds one alert, an open alert of the machine \<^verbatim>\<open>M1\<close> of the given type,
  created on 2024-05-01 at 23:00:00 UTC, half an hour before the time of the store.
\<close>

definition one_open :: "string \<Rightarrow> store" where
  "one_open t =
     \<lparr>rows = [\<lparr>machine_id = ''M1'', alert_type = t, severity = ''medium'',
                title = ''An alert'', message = ''An alert of the machine M1'',
                is_resolved = False, created_at = ''2024-05-01 23:00:00'',
                resolved_at = None\<rparr>],
      now = 1714606200000\<rparr>"

text \<open>
  A store that holds \<open>n\<close> open alerts of the machine \<^verbatim>\<open>M1\<close>, all of the given severity
  and created in the same second.
\<close>

definition many_open :: "nat \<Rightarrow> string \<Rightarrow> store" where
  "many_open n sev =
     \<lparr>rows = replicate n
               \<lparr>machine_id = ''M1'', alert_type = ''sleep_timeout'', severity = sev,
                title = ''An alert'', message = ''An alert of the machine M1'',
                is_resolved = False, created_at = ''2024-05-01 23:00:00'',
                resolved_at = None\<rparr>,
      now = 1714606200000\<rparr>"

section \<open>Promises\<close>

lemma await_resolved: "p s = (Inr x, s') \<Longrightarrow> await p k s = k x s'"
  by (simp add: await_def)

lemma await_rejected: "p s = (Inl e, s') \<Longrightarrow> await p k s = (Inl e, s')"
  by (simp add: await_def)

lemma await_resolve: "await (resolve x) k = k x"
  by (simp add: await_def resolve_def)

lemma await_reject: "await (reject e) k = reject e"
  by (simp add: await_def reject_def)

section \<open>The service on the store\<close>

lemma find_None_filter: "(find P xs = None) = (filter P xs = [])"
  by (induction xs) auto

lemma createAlertIfNotExists_alertStore:
  "createAlertIfNotExists alertStore m t sev ttl msg s =
     (if open_count m t s = 0 then Inl validation_failed else Inr (), s)"
  by (simp add: createAlertIfNotExists_def alertStore_def db_get_def db_createAlert_def await_def
      resolve_def reject_def Database_createAlert_def open_count_def find_None_filter)

lemma resolveAlertByType_alertStore:
  "resolveAlertByType alertStore m t s = (Inr (open_count m t s), mark_resolved m t s)"
  by (simp add: resolveAlertByType_def alertStore_def db_run_def mark_resolved_def open_count_def)

lemma now_ensure_open [simp]: "now (ensure_open m t sev ttl msg s) = now s"
  by (simp add: ensure_open_def)

lemma now_mark_resolved [simp]: "now (mark_resolved m t s) = now s"
  by (simp add: mark_resolved_def)

lemma where_open_resolved:
  "where_open m' t' (if where_open m t r then set_resolved ts r else r) =
     (where_open m' t' r \<and> \<not> (m' = m \<and> t' = t))"
  by (auto simp: where_open_def set_resolved_def)

lemma where_open_other:
  "where_open m' t' r \<Longrightarrow> \<not> (m' = m \<and> t' = t) \<Longrightarrow> \<not> where_open m t r"
  by (auto simp: where_open_def)

lemma filter_resolved_same:
  "filter (where_open m t) (map (\<lambda>r. if where_open m t r then set_resolved ts r else r) xs) = []"
  by (induction xs) (simp_all add: where_open_resolved del: if_split cong: if_cong)

lemma filter_resolved_other:
  assumes "\<not> (m' = m \<and> t' = t)"
  shows "filter (where_open m' t') (map (\<lambda>r. if where_open m t r then set_resolved ts r else r) xs) =
           filter (where_open m' t') xs"
proof (induction xs)
  case Nil
  show ?case by simp
next
  case (Cons r xs)
  have "where_open m' t' r \<Longrightarrow> \<not> where_open m t r"
    using assms by (rule where_open_other [rotated])
  with Cons assms show ?case
    by (auto simp: where_open_resolved simp del: if_split cong: if_cong)
qed

lemma filter_map_resolved:
  "filter (where_open m' t') (map (\<lambda>r. if where_open m t r then set_resolved ts r else r) xs) =
     (if m' = m \<and> t' = t then [] else filter (where_open m' t') xs)"
  using filter_resolved_same [of m t ts xs] filter_resolved_other [of m' m t' t ts xs]
  by (cases "m' = m \<and> t' = t") auto

lemma open_count_mark_resolved:
  "open_count m' t' (mark_resolved m t s) = (if m' = m \<and> t' = t then 0 else open_count m' t' s)"
  by (simp add: mark_resolved_def open_count_def filter_map_resolved)

lemma map_resolved_noop:
  "filter (where_open m t) xs = [] \<Longrightarrow>
     map (\<lambda>r. if where_open m t r then set_resolved ts r else r) xs = xs"
  by (induction xs) (auto split: if_splits)

lemma mark_resolved_noop: "open_count m t s = 0 \<Longrightarrow> mark_resolved m t s = s"
  by (simp add: mark_resolved_def open_count_def map_resolved_noop)

lemma length_rows_mark_resolved [simp]: "length (rows (mark_resolved m t s)) = length (rows s)"
  by (simp add: mark_resolved_def)

lemma open_count_now [simp]: "open_count m t (s\<lparr>now := n\<rparr>) = open_count m t s"
  by (simp add: open_count_def)

lemma CURRENT_TIMESTAMP_mark_resolved [simp]:
  "CURRENT_TIMESTAMP (mark_resolved m t s) = CURRENT_TIMESTAMP s"
  by (simp add: CURRENT_TIMESTAMP_def)

lemma alerts_of_mark_resolved:
  "alerts_of m' t' (mark_resolved m t s) =
     (if m' = m \<and> t' = t then map (resolved_at_time (CURRENT_TIMESTAMP s)) (alerts_of m t s)
      else alerts_of m' t' s)"
proof -
  have "filter (\<lambda>r. machine_id r = m' \<and> alert_type r = t')
          (map (\<lambda>r. if where_open m t r then set_resolved ts r else r) xs) =
        (if m' = m \<and> t' = t
         then map (\<lambda>r. if is_resolved r then r else set_resolved ts r)
                (filter (\<lambda>r. machine_id r = m \<and> alert_type r = t) xs)
         else filter (\<lambda>r. machine_id r = m' \<and> alert_type r = t') xs)" for ts xs
    by (induction xs) (auto simp: where_open_def set_resolved_def)
  then show ?thesis
    by (simp add: mark_resolved_def alerts_of_def resolved_at_time_def [abs_def])
qed

section \<open>The invariant\<close>

lemma at_most_one_open_no_alerts: "at_most_one_open (no_alerts t)"
  by (simp add: at_most_one_open_def no_alerts_def)

lemma open_keys_mark_resolved:
  "map (\<lambda>r. (machine_id r, alert_type r)) (filter (\<lambda>r. \<not> is_resolved r) (rows (mark_resolved m t s))) =
   filter (\<lambda>k. k \<noteq> (m, t)) (map (\<lambda>r. (machine_id r, alert_type r)) (filter (\<lambda>r. \<not> is_resolved r) (rows s)))"
proof -
  have "map (\<lambda>r. (machine_id r, alert_type r))
          (filter (\<lambda>r. \<not> is_resolved r)
             (map (\<lambda>r. if where_open m t r then set_resolved ts r else r) xs)) =
        filter (\<lambda>k. k \<noteq> (m, t))
          (map (\<lambda>r. (machine_id r, alert_type r)) (filter (\<lambda>r. \<not> is_resolved r) xs))" for ts xs
    by (induction xs) (auto simp: where_open_def set_resolved_def)
  then show ?thesis by (simp add: mark_resolved_def)
qed

lemma at_most_one_open_mark_resolved:
  "at_most_one_open s \<Longrightarrow> at_most_one_open (mark_resolved m t s)"
  unfolding at_most_one_open_def open_keys_mark_resolved by (rule distinct_filter)

lemma open_count_keys:
  "open_count m t s =
     length (filter (\<lambda>k. k = (m, t))
       (map (\<lambda>r. (machine_id r, alert_type r)) (filter (\<lambda>r. \<not> is_resolved r) (rows s))))"
proof -
  have "length (filter (where_open m t) xs) =
        length (filter (\<lambda>k. k = (m, t))
          (map (\<lambda>r. (machine_id r, alert_type r)) (filter (\<lambda>r. \<not> is_resolved r) xs)))" for xs
    by (induction xs) (auto simp: where_open_def)
  then show ?thesis by (simp add: open_count_def)
qed

lemma distinct_count_le_1: "distinct xs \<Longrightarrow> length (filter (\<lambda>k. k = x) xs) \<le> 1"
  by (induction xs) (auto simp: filter_empty_conv)

lemma at_most_one_open_count: "at_most_one_open s \<Longrightarrow> open_count m t s \<le> 1"
  unfolding open_count_keys at_most_one_open_def by (rule distinct_count_le_1)

lemma at_most_one_open_filter:
  "at_most_one_open s \<Longrightarrow> at_most_one_open (s\<lparr>rows := filter P (rows s)\<rparr>)"
proof -
  assume "at_most_one_open s"
  then have "distinct (map (\<lambda>r. (machine_id r, alert_type r))
               (filter P (filter (\<lambda>r. \<not> is_resolved r) (rows s))))"
    unfolding at_most_one_open_def by (rule distinct_map_filter)
  then show ?thesis
    by (simp add: at_most_one_open_def conj_commute)
qed

lemma cleanup_alertStore:
  "cleanupOldResolvedAlerts alertStore n k s =
     (Inr (length (filter (where_expired (toISOString (n - (case k of None \<Rightarrow> 30 | Some d \<Rightarrow> d) * 24 * 60 * 60 * 1000))) (rows s))),
      s\<lparr>rows := filter (\<lambda>r. \<not> where_expired (toISOString (n - (case k of None \<Rightarrow> 30 | Some d \<Rightarrow> d) * 24 * 60 * 60 * 1000)) r) (rows s)\<rparr>)"
  by (simp add: cleanupOldResolvedAlerts_def alertStore_def db_run_def Let_def)

lemma at_most_one_open_after_call:
  "at_most_one_open s \<Longrightarrow> at_most_one_open (after_call c s)"
proof (cases c)
  case (Get q)
  assume "at_most_one_open s"
  then show ?thesis using Get by (cases q) (simp add: db_get_def alertStore_def)
next
  case (Run st)
  assume inv: "at_most_one_open s"
  show ?thesis
  proof (cases st)
    case (UPDATE_resolve m t)
    have "snd (db_run alertStore st s) = mark_resolved m t s"
      using UPDATE_resolve by (simp add: db_run_def alertStore_def mark_resolved_def)
    with inv Run show ?thesis by (simp add: at_most_one_open_mark_resolved)
  next
    case (DELETE_resolved_before cutoff)
    have "snd (db_run alertStore st s) = s\<lparr>rows := filter (\<lambda>r. \<not> where_expired cutoff r) (rows s)\<rparr>"
      using DELETE_resolved_before by (simp add: db_run_def alertStore_def)
    with inv Run show ?thesis by (simp add: at_most_one_open_filter)
  qed
next
  case (CreateAlert m t sev ttl msg)
  assume "at_most_one_open s"
  then show ?thesis
    using CreateAlert
    by (simp add: db_createAlert_def alertStore_def Database_createAlert_def reject_def)
qed

lemma at_most_one_open_after_calls:
  "at_most_one_open s \<Longrightarrow> at_most_one_open (fold after_call calls s)"
  by (induction calls arbitrary: s) (simp_all add: at_most_one_open_after_call)

section \<open>The rules of the engine on the store\<close>

lemmas alertStore_simps =
  createAlertIfNotExists_alertStore resolveAlertByType_alertStore await_def resolve_def
  reject_def evaluated_def

lemma checkDiskEncryptionAlert_alertStore:
  "checkDiskEncryptionAlert alertStore m d s =
     (if truthy d \<and> truthy (member d ''encrypted'')
      then (Inr (), mark_resolved m ''disk_encryption'' s)
      else (if open_count m ''disk_encryption'' s = 0 then Inl validation_failed else Inr (), s))"
  by (simp add: checkDiskEncryptionAlert_def alertStore_simps)

lemma checkAntivirusAlert_alertStore:
  "checkAntivirusAlert alertStore m av s =
     (if truthy av \<and> truthy (member av ''installed'') then
        if truthy (member av ''enabled'') then
          if truthy (member av ''definitionsOutdated'') then
            (if open_count m ''antivirus_outdated'' s = 0 then Inl validation_failed else Inr (),
             mark_resolved m ''antivirus_disabled'' (mark_resolved m ''antivirus_missing'' s))
          else
            (Inr (),
             mark_resolved m ''antivirus_outdated''
               (mark_resolved m ''antivirus_disabled'' (mark_resolved m ''antivirus_missing'' s)))
        else if open_count m ''antivirus_disabled'' s = 0 then (Inl validation_failed, s)
        else (Inr (), mark_resolved m ''antivirus_missing'' s)
      else (if open_count m ''antivirus_missing'' s = 0 then Inl validation_failed else Inr (), s))"
  by (simp add: checkAntivirusAlert_def alertStore_simps open_count_mark_resolved)

lemma checkOSUpdatesAlert_compliant:
  "truthy os \<Longrightarrow> truthy (member os ''upToDate'') \<Longrightarrow>
     checkOSUpdatesAlert rt alertStore m os s = (Inr (), mark_resolved m ''os_updates'' s)"
  by (simp add: checkOSUpdatesAlert_def alertStore_simps)

lemma checkSleepSettingsAlert_compliant:
  "truthy sl \<Longrightarrow> js_gt rt (member sl ''sleepTimeout'') 10 = Inr False \<Longrightarrow>
     checkSleepSettingsAlert rt alertStore m sl s = (Inr (), mark_resolved m ''sleep_timeout'' s)"
  by (simp add: checkSleepSettingsAlert_def alertStore_simps)

section \<open>Timestamps of the examples\<close>

lemma sqlite_datetime_examples:
  "sqlite_datetime 1714604400000 = ''2024-05-01 23:00:00''"
  "sqlite_datetime 1714606200000 = ''2024-05-01 23:30:00''"
  by code_simp+

lemma toISOString_examples:
  "toISOString 1714557600000 = ''2024-05-01T10:00:00.000Z''"
  by code_simp

section \<open>Stores of the examples\<close>

lemma open_count_one_open:
  "open_count m t' (one_open t) = (if m = ''M1'' \<and> t' = t then 1 else 0)"
  by (simp add: open_count_def one_open_def where_open_def)

lemma open_count_no_alerts: "open_count m t (no_alerts n) = 0"
  by (simp add: open_count_def no_alerts_def)

lemma at_most_one_open_one_open: "at_most_one_open (one_open t)"
  by (simp add: at_most_one_open_def one_open_def)

section \<open>The service as the API route constructs it\<close>

lemma createAlertIfNotExists_models:
  "createAlertIfNotExists models m t sev ttl msg s =
     (Inl (TypeError ''Cannot read properties of undefined (reading get)''), s)"
  by (simp add: createAlertIfNotExists_def models_def db_get_def await_def reject_def)

lemma resolveAlertByType_models:
  "resolveAlertByType models m t s =
     (Inl (TypeError ''Cannot read properties of undefined (reading run)''), s)"
  by (simp add: resolveAlertByType_def models_def db_run_def reject_def)

lemma checkDiskEncryptionAlert_models:
  "\<exists>e. checkDiskEncryptionAlert models m d s = (Inl e, s)"
  by (simp add: checkDiskEncryptionAlert_def createAlertIfNotExists_models
      resolveAlertByType_models await_rejected)

text \<open>
  C9.  On the object \<open>models\<close> that \<^verbatim>\<open>routes/api.js\<close> hands to the constructor,
  \<^verbatim>\<open>createAlertIfNotExists\<close> and \<^verbatim>\<open>resolveAlertByType\<close> reject with a TypeError and
  leave the state as it is, for every argument; \<^verbatim>\<open>analyzeSystemData\<close> catches the
  rejection of its first rule, resolves, and has neither created nor resolved an
  alert, for every snapshot; \<^verbatim>\<open>getMachineRiskScore\<close> rejects for every machine.
\<close>

theorem models_wiring_rejects:
  "createAlertIfNotExists models m t sev ttl msg s =
     (Inl (TypeError ''Cannot read properties of undefined (reading get)''), s)
   \<and> resolveAlertByType models m t s =
     (Inl (TypeError ''Cannot read properties of undefined (reading run)''), s)
   \<and> analyzeSystemData rt models systemData s = (Inr (), s)
   \<and> getMachineRiskScore models m s =
     (Inl (TypeError ''this.db.getAlerts is not a function''), s)"
proof -
  obtain e where
    "checkDiskEncryptionAlert models (machineId systemData) (diskEncryption systemData) s = (Inl e, s)"
    using checkDiskEncryptionAlert_models [of "machineId systemData" "diskEncryption systemData" s]
    by auto
  then have "analyzeSystemData rt models systemData s = (Inr (), s)"
    by (simp add: analyzeSystemData_def try_catch_def await_rejected resolve_def)
  moreover have "getMachineRiskScore models m s =
     (Inl (TypeError ''this.db.getAlerts is not a function''), s)"
    by (simp add: getMachineRiskScore_def db_getAlerts_def models_def await_def reject_def)
  ultimately show ?thesis
    by (simp add: createAlertIfNotExists_models resolveAlertByType_models)
qed

section \<open>The members the probe writes and the engine reads\<close>







text \<open>
  Every payload of the probe is an object of primitive values whose member names, in
  their order, are one of a few lists.
\<close>

lemma checkDiskEncryption_shape:
  "flat_object (checkDiskEncryption h) \<and>
   names (checkDiskEncryption h) \<in>
     set [[''enabled'', ''status'', ''method''],
          [''enabled'', ''status'', ''method'', ''details''],
          [''enabled'', ''status''],
          [''error'', ''message'']]"
  by (simp add: checkDiskEncryption_def safeRun_def checkMacOSEncryption_def
      checkWindowsEncryption_def checkLinuxEncryption_def and_then_def Let_def
      split: sum.splits)

lemma checkOSUpdates_shape:
  "flat_object (checkOSUpdates h) \<and>
   names (checkOSUpdates h) \<in>
     set [[''updatesAvailable'', ''lastCheck'', ''status'', ''details''],
          [''updatesAvailable'', ''lastCheck'', ''status'', ''packageManager'', ''details''],
          [''updatesAvailable'', ''status''],
          [''error'', ''message'']]"
  by (simp add: checkOSUpdates_def safeRun_def checkMacOSUpdates_def
      checkWindowsUpdates_def checkLinuxUpdates_def and_then_def Let_def
      split: sum.splits prod.splits)

lemma first_detected_shape:
  "flat_object (first_detected h checks) \<and>
   names (first_detected h checks) \<in>
     set [[''installed'', ''running'', ''name'', ''status'', ''method''],
          [''installed'', ''running'', ''status'']]"
  by (induction h checks rule: first_detected.induct) (simp_all split: sum.splits)

lemma checkAntivirus_shape:
  "flat_object (checkAntivirus h) \<and>
   names (checkAntivirus h) \<in>
     set [[''installed'', ''running'', ''name'', ''status'', ''lastUpdate''],
          [''installed'', ''running'', ''name'', ''status'', ''productState''],
          [''installed'', ''running'', ''name'', ''status'', ''method''],
          [''installed'', ''running'', ''status''],
          [''error'', ''message'']]"
  using first_detected_shape [of h antivirusChecks]
  by (auto simp add: checkAntivirus_def safeRun_def checkMacOSAntivirus_def
      checkWindowsAntivirus_def checkLinuxAntivirus_def and_then_def Let_def
      split: sum.splits)

lemma primitive_number_or_null: "primitive (number_or_null x)"
  by (cases x) (simp_all add: number_or_null_def)

lemma checkSleepSettings_shape:
  "flat_object (checkSleepSettings h) \<and>
   names (checkSleepSettings h) \<in>
     set [[''sleepTime'', ''displaySleep'', ''compliant'', ''status'', ''settings''],
          [''sleepTime'', ''compliant'', ''status'', ''settings''],
          [''sleepTime'', ''compliant'', ''status''],
          [''error'', ''message'']]"
  by (simp add: checkSleepSettings_def safeRun_def checkMacOSSleep_def
      checkWindowsSleep_def checkLinuxSleep_def and_then_def Let_def
      primitive_number_or_null split: sum.splits prod.splits)

lemma disk_shapes:
  assumes x: "x \<in> set [[''enabled'', ''status'', ''method''],
          [''enabled'', ''status'', ''method'', ''details''],
          [''enabled'', ''status''],
          [''error'', ''message'']]"
    and y: "y \<in> set [[''enabled'', ''status'', ''method''],
          [''enabled'', ''status'', ''method'', ''details''],
          [''enabled'', ''status''],
          [''error'', ''message'']]"
  shows "distinct x" and "set x = set y \<Longrightarrow> x = y"
proof -
  from x have x': "x = [''enabled'', ''status'', ''method''] \<or>
      x = [''enabled'', ''status'', ''method'', ''details''] \<or>
      x = [''enabled'', ''status''] \<or>
      x = [''error'', ''message'']"
    by simp
  from y have y': "y = [''enabled'', ''status'', ''method''] \<or>
      y = [''enabled'', ''status'', ''method'', ''details''] \<or>
      y = [''enabled'', ''status''] \<or>
      y = [''error'', ''message'']"
    by simp
  from x' show "distinct x" by (elim disjE) simp_all
  assume "set x = set y"
  then have m: "(k \<in> set x) = (k \<in> set y)" for k by simp
  from x' y' m [of "''method''"] m [of "''details''"] m [of "''error''"]
  show "x = y" by (elim disjE) simp_all
qed

lemma os_shapes:
  assumes x: "x \<in> set [[''updatesAvailable'', ''lastCheck'', ''status'', ''details''],
          [''updatesAvailable'', ''lastCheck'', ''status'', ''packageManager'', ''details''],
          [''updatesAvailable'', ''status''],
          [''error'', ''message'']]"
    and y: "y \<in> set [[''updatesAvailable'', ''lastCheck'', ''status'', ''details''],
          [''updatesAvailable'', ''lastCheck'', ''status'', ''packageManager'', ''details''],
          [''updatesAvailable'', ''status''],
          [''error'', ''message'']]"
  shows "distinct x" and "set x = set y \<Longrightarrow> x = y"
proof -
  from x have x': "x = [''updatesAvailable'', ''lastCheck'', ''status'', ''details''] \<or>
      x = [''updatesAvailable'', ''lastCheck'', ''status'', ''packageManager'', ''details''] \<or>
      x = [''updatesAvailable'', ''status''] \<or>
      x = [''error'', ''message'']"
    by simp
  from y have y': "y = [''updatesAvailable'', ''lastCheck'', ''status'', ''details''] \<or>
      y = [''updatesAvailable'', ''lastCheck'', ''status'', ''packageManager'', ''details''] \<or>
      y = [''updatesAvailable'', ''status''] \<or>
      y = [''error'', ''message'']"
    by simp
  from x' show "distinct x" by (elim disjE) simp_all
  assume "set x = set y"
  then have m: "(k \<in> set x) = (k \<in> set y)" for k by simp
  from x' y' m [of "''details''"] m [of "''packageManager''"] m [of "''error''"]
  show "x = y" by (elim disjE) simp_all
qed

lemma antivirus_shapes:
  assumes x: "x \<in> set [[''installed'', ''running'', ''name'', ''status'', ''lastUpdate''],
          [''installed'', ''running'', ''name'', ''status'', ''productState''],
          [''installed'', ''running'', ''name'', ''status'', ''method''],
          [''installed'', ''running'', ''status''],
          [''error'', ''message'']]"
    and y: "y \<in> set [[''installed'', ''running'', ''name'', ''status'', ''lastUpdate''],
          [''installed'', ''running'', ''name'', ''status'', ''productState''],
          [''installed'', ''running'', ''name'', ''status'', ''method''],
          [''installed'', ''running'', ''status''],
          [''error'', ''message'']]"
  shows "distinct x" and "set x = set y \<Longrightarrow> x = y"
proof -
  from x have x': "x = [''installed'', ''running'', ''name'', ''status'', ''lastUpdate''] \<or>
      x = [''installed'', ''running'', ''name'', ''status'', ''productState''] \<or>
      x = [''installed'', ''running'', ''name'', ''status'', ''method''] \<or>
      x = [''installed'', ''running'', ''status''] \<or>
      x = [''error'', ''message'']"
    by simp
  from y have y': "y = [''installed'', ''running'', ''name'', ''status'', ''lastUpdate''] \<or>
      y = [''installed'', ''running'', ''name'', ''status'', ''productState''] \<or>
      y = [''installed'', ''running'', ''name'', ''status'', ''method''] \<or>
      y = [''installed'', ''running'', ''status''] \<or>
      y = [''error'', ''message'']"
    by simp
  from x' show "distinct x" by (elim disjE) simp_all
  assume "set x = set y"
  then have m: "(k \<in> set x) = (k \<in> set y)" for k by simp
  from x' y' m [of "''lastUpdate''"] m [of "''productState''"] m [of "''method''"] m [of "''error''"]
  show "x = y" by (elim disjE) simp_all
qed

lemma sleep_shapes:
  assumes x: "x \<in> set [[''sleepTime'', ''displaySleep'', ''compliant'', ''status'', ''settings''],
          [''sleepTime'', ''compliant'', ''status'', ''settings''],
          [''sleepTime'', ''compliant'', ''status''],
          [''error'', ''message'']]"
    and y: "y \<in> set [[''sleepTime'', ''displaySleep'', ''compliant'', ''status'', ''settings''],
          [''sleepTime'', ''compliant'', ''status'', ''settings''],
          [''sleepTime'', ''compliant'', ''status''],
          [''error'', ''message'']]"
  shows "distinct x" and "set x = set y \<Longrightarrow> x = y"
proof -
  from x have x': "x = [''sleepTime'', ''displaySleep'', ''compliant'', ''status'', ''settings''] \<or>
      x = [''sleepTime'', ''compliant'', ''status'', ''settings''] \<or>
      x = [''sleepTime'', ''compliant'', ''status''] \<or>
      x = [''error'', ''message'']"
    by simp
  from y have y': "y = [''sleepTime'', ''displaySleep'', ''compliant'', ''status'', ''settings''] \<or>
      y = [''sleepTime'', ''compliant'', ''status'', ''settings''] \<or>
      y = [''sleepTime'', ''compliant'', ''status''] \<or>
      y = [''error'', ''message'']"
    by simp
  from x' show "distinct x" by (elim disjE) simp_all
  assume "set x = set y"
  then have m: "(k \<in> set x) = (k \<in> set y)" for k by simp
  from x' y' m [of "''displaySleep''"] m [of "''settings''"] m [of "''error''"]
  show "x = y" by (elim disjE) simp_all
qed

section \<open>An analysis never adds a record\<close>

lemma open_count_resolved_le:
  "open_count m' t' (fold (mark_resolved m) ts s) \<le> open_count m' t' s"
proof (induction ts arbitrary: s)
  case Nil show ?case by simp
next
  case (Cons t ts)
  have "open_count m' t' (fold (mark_resolved m) ts (mark_resolved m t s)) \<le>
        open_count m' t' (mark_resolved m t s)" by (rule Cons.IH)
  also have "\<dots> \<le> open_count m' t' s" by (simp add: open_count_mark_resolved)
  finally show ?case by simp
qed

lemma length_rows_resolved: "length (rows (fold (mark_resolved m) ts s)) = length (rows s)"
  by (induction ts arbitrary: s) simp_all

lemma checkDiskEncryptionAlert_only_resolves:
  "\<exists>ts. snd (checkDiskEncryptionAlert alertStore m d s) = fold (mark_resolved m) ts s"
proof (cases "truthy d \<and> truthy (member d ''encrypted'')")
  case True
  then have "snd (checkDiskEncryptionAlert alertStore m d s) =
             fold (mark_resolved m) [''disk_encryption''] s"
    by (simp add: checkDiskEncryptionAlert_alertStore)
  then show ?thesis ..
next
  case False
  then have "snd (checkDiskEncryptionAlert alertStore m d s) = fold (mark_resolved m) [] s"
    by (auto simp: checkDiskEncryptionAlert_alertStore)
  then show ?thesis ..
qed

lemma checkOSUpdatesAlert_only_resolves:
  "\<exists>ts. snd (checkOSUpdatesAlert rt alertStore m os s) = fold (mark_resolved m) ts s"
proof (cases "truthy os \<and> truthy (member os ''upToDate'')")
  case True
  then have "snd (checkOSUpdatesAlert rt alertStore m os s) =
             fold (mark_resolved m) [''os_updates''] s"
    by (simp add: checkOSUpdatesAlert_compliant)
  then show ?thesis ..
next
  case False
  then have "snd (checkOSUpdatesAlert rt alertStore m os s) = fold (mark_resolved m) [] s"
    by (auto simp: checkOSUpdatesAlert_def alertStore_simps split: sum.splits)
  then show ?thesis ..
qed

lemma checkAntivirusAlert_only_resolves:
  "\<exists>ts. snd (checkAntivirusAlert alertStore m av s) = fold (mark_resolved m) ts s"
proof -
  have "snd (checkAntivirusAlert alertStore m av s) = fold (mark_resolved m) [] s \<or>
        snd (checkAntivirusAlert alertStore m av s) = fold (mark_resolved m) [''antivirus_missing''] s \<or>
        snd (checkAntivirusAlert alertStore m av s) =
          fold (mark_resolved m) [''antivirus_missing'', ''antivirus_disabled''] s \<or>
        snd (checkAntivirusAlert alertStore m av s) =
          fold (mark_resolved m) [''antivirus_missing'', ''antivirus_disabled'', ''antivirus_outdated''] s"
    by (simp add: checkAntivirusAlert_alertStore)
  then show ?thesis by blast
qed

lemma checkSleepSettingsAlert_only_resolves:
  "\<exists>ts. snd (checkSleepSettingsAlert rt alertStore m sl s) = fold (mark_resolved m) ts s"
proof -
  have "snd (checkSleepSettingsAlert rt alertStore m sl s) = fold (mark_resolved m) [] s \<or>
        snd (checkSleepSettingsAlert rt alertStore m sl s) = fold (mark_resolved m) [''sleep_timeout''] s"
    by (auto simp: checkSleepSettingsAlert_def alertStore_simps split: sum.splits)
  then show ?thesis by blast
qed

lemma analyzeSystemData_only_resolves:
  "\<exists>ts. snd (analyzeSystemData rt alertStore d s) = fold (mark_resolved (machineId d)) ts s"
proof -
  let ?m = "machineId d"
  obtain r1 s1 where 1: "checkDiskEncryptionAlert alertStore ?m (diskEncryption d) s = (r1, s1)"
    by (cases "checkDiskEncryptionAlert alertStore ?m (diskEncryption d) s")
  obtain r2 s2 where 2: "checkOSUpdatesAlert rt alertStore ?m (osUpdates d) s1 = (r2, s2)"
    by (cases "checkOSUpdatesAlert rt alertStore ?m (osUpdates d) s1")
  obtain r3 s3 where 3: "checkAntivirusAlert alertStore ?m (antivirus d) s2 = (r3, s3)"
    by (cases "checkAntivirusAlert alertStore ?m (antivirus d) s2")
  obtain r4 s4 where 4: "checkSleepSettingsAlert rt alertStore ?m (sleepSettings d) s3 = (r4, s4)"
    by (cases "checkSleepSettingsAlert rt alertStore ?m (sleepSettings d) s3")
  obtain t1 where t1: "s1 = fold (mark_resolved ?m) t1 s"
    using checkDiskEncryptionAlert_only_resolves [of ?m "diskEncryption d" s] 1 by auto
  obtain t2 where t2: "s2 = fold (mark_resolved ?m) t2 s1"
    using checkOSUpdatesAlert_only_resolves [of rt ?m "osUpdates d" s1] 2 by auto
  obtain t3 where t3: "s3 = fold (mark_resolved ?m) t3 s2"
    using checkAntivirusAlert_only_resolves [of ?m "antivirus d" s2] 3 by auto
  obtain t4 where t4: "s4 = fold (mark_resolved ?m) t4 s3"
    using checkSleepSettingsAlert_only_resolves [of rt ?m "sleepSettings d" s3] 4 by auto
  have "snd (analyzeSystemData rt alertStore d s) \<in> {s1, s2, s3, s4}"
    using 1 2 3 4
    by (auto simp: analyzeSystemData_def try_catch_def await_def resolve_def split: sum.splits)
  moreover have "s2 = fold (mark_resolved ?m) (t1 @ t2) s" using t1 t2 by simp
  moreover have "s3 = fold (mark_resolved ?m) (t1 @ t2 @ t3) s" using t1 t2 t3 by simp
  moreover have "s4 = fold (mark_resolved ?m) (t1 @ t2 @ t3 @ t4) s" using t1 t2 t3 t4 by simp
  ultimately show ?thesis using t1 by blast
qed

lemma analysis_opens_no_alert:
  "open_count m t (snd (analyzeSystemData rt alertStore d s)) \<le> open_count m t s"
  "length (rows (snd (analyzeSystemData rt alertStore d s))) = length (rows s)"
  using analyzeSystemData_only_resolves [of rt d s]
  by (auto simp: open_count_resolved_le length_rows_resolved)

section \<open>At most one open alert\<close>

text \<open>
  C1.  \<^verbatim>\<open>createAlertIfNotExists\<close> looks up an open record of the machine and type and,
  when there is none, calls \<^verbatim>\<open>createAlert\<close>, which rejects: the document it is given
  has no \<^verbatim>\<open>machine_id\<close>.  So the call rejects and the store stays as it is; no
  analysis opens an alert or adds a record.  The machine \<^verbatim>\<open>M1\<close> reports an unencrypted
  disk to a store without alerts, twice, at 23:00 and at 23:30: the first analysis
  leaves the store without alerts, and after the second no \<^verbatim>\<open>disk_encryption\<close> alert
  is open, where one is expected.  The same holds of the object \<open>models\<close> that the API
  route hands to the service.  The invariant itself holds: no call that reaches the
  store breaks it, in whatever order the calls of one analysis or of several come.
\<close>

theorem alert_is_never_created:
  "createAlertIfNotExists alertStore m t sev ttl msg s =
     (if open_count m t s = 0 then Inl validation_failed else Inr (), s)
   \<and> open_count m t (snd (analyzeSystemData rt alertStore d s)) \<le> open_count m t s
   \<and> length (rows (snd (analyzeSystemData rt alertStore d s))) = length (rows s)
   \<and> analyzeSystemData decimal_runtime alertStore (scenario False) (no_alerts 1714604400000) =
       (Inr (), no_alerts 1714604400000)
   \<and> open_count ''M1'' ''disk_encryption''
        (snd (analyzeSystemData decimal_runtime alertStore (scenario False)
           ((snd (analyzeSystemData decimal_runtime alertStore (scenario False)
                    (no_alerts 1714604400000)))\<lparr>now := 1714606200000\<rparr>))) = 0
   \<and> analyzeSystemData decimal_runtime models (scenario False) (no_alerts 1714604400000) =
       (Inr (), no_alerts 1714604400000)
   \<and> (at_most_one_open s \<longrightarrow> at_most_one_open (fold after_call calls s))"
proof -
  have disk: "checkDiskEncryptionAlert alertStore ''M1'' (diskEncryption (scenario False))
                (no_alerts n) = (Inl validation_failed, no_alerts n)" for n
    by (simp add: checkDiskEncryptionAlert_alertStore scenario_def open_count_no_alerts)
  have first: "analyzeSystemData decimal_runtime alertStore (scenario False) (no_alerts n) =
       (Inr (), no_alerts n)" for n
    using disk [of n]
    by (simp add: analyzeSystemData_def try_catch_def await_def resolve_def scenario_def)
  have later: "(no_alerts 1714604400000)\<lparr>now := 1714606200000\<rparr> = no_alerts 1714606200000"
    by (simp add: no_alerts_def)
  have wired: "analyzeSystemData decimal_runtime models (scenario False) (no_alerts 1714604400000) =
       (Inr (), no_alerts 1714604400000)"
    by (simp add: analyzeSystemData_def try_catch_def await_def resolve_def scenario_def
        checkDiskEncryptionAlert_def createAlertIfNotExists_models reject_def)
  show ?thesis
    by (simp add: createAlertIfNotExists_alertStore analysis_opens_no_alert first later wired
        open_count_no_alerts at_most_one_open_after_calls)
qed

text \<open>
  Two analyses of the machine \<^verbatim>\<open>M1\<close> interleave on the store without alerts: both look
  up an open \<^verbatim>\<open>disk_encryption\<close> alert and find none, then both call \<^verbatim>\<open>createAlert\<close>.
  Both calls reject, and the store is still without alerts.
\<close>

theorem alert_is_never_created_witness:
  "at_most_one_open (no_alerts 1714604400000)
   \<and> at_most_one_open
        (fold after_call
           [Get (SELECT_open_alert ''M1'' ''disk_encryption''),
            Get (SELECT_open_alert ''M1'' ''disk_encryption''),
            CreateAlert ''M1'' ''disk_encryption'' ''high'' ''Disk Encryption Disabled''
              ''Machine M1 does not have disk encryption enabled. This poses a significant security risk.'',
            CreateAlert ''M1'' ''disk_encryption'' ''high'' ''Disk Encryption Disabled''
              ''Machine M1 does not have disk encryption enabled. This poses a significant security risk.'']
           (no_alerts 1714604400000))
   \<and> fold after_call
        [Get (SELECT_open_alert ''M1'' ''disk_encryption''),
         Get (SELECT_open_alert ''M1'' ''disk_encryption''),
         CreateAlert ''M1'' ''disk_encryption'' ''high'' ''Disk Encryption Disabled''
           ''Machine M1 does not have disk encryption enabled. This poses a significant security risk.'',
         CreateAlert ''M1'' ''disk_encryption'' ''high'' ''Disk Encryption Disabled''
           ''Machine M1 does not have disk encryption enabled. This poses a significant security risk.'']
        (no_alerts 1714604400000) = no_alerts 1714604400000"
proof -
  note t = alert_is_never_created [where s = "no_alerts 1714604400000" and calls =
      "[Get (SELECT_open_alert ''M1'' ''disk_encryption''),
        Get (SELECT_open_alert ''M1'' ''disk_encryption''),
        CreateAlert ''M1'' ''disk_encryption'' ''high'' ''Disk Encryption Disabled''
          ''Machine M1 does not have disk encryption enabled. This poses a significant security risk.'',
        CreateAlert ''M1'' ''disk_encryption'' ''high'' ''Disk Encryption Disabled''
          ''Machine M1 does not have disk encryption enabled. This poses a significant security risk.'']",
      THEN conjunct2, THEN conjunct2, THEN conjunct2, THEN conjunct2, THEN conjunct2,
      THEN conjunct2]
  have 0: "at_most_one_open (no_alerts 1714604400000)"
    by (rule at_most_one_open_no_alerts)
  have same: "fold after_call
        [Get (SELECT_open_alert ''M1'' ''disk_encryption''),
         Get (SELECT_open_alert ''M1'' ''disk_encryption''),
         CreateAlert ''M1'' ''disk_encryption'' ''high'' ''Disk Encryption Disabled''
           ''Machine M1 does not have disk encryption enabled. This poses a significant security risk.'',
         CreateAlert ''M1'' ''disk_encryption'' ''high'' ''Disk Encryption Disabled''
           ''Machine M1 does not have disk encryption enabled. This poses a significant security risk.'']
        (no_alerts 1714604400000) = no_alerts 1714604400000"
    by (simp add: db_get_def db_createAlert_def alertStore_def
        Database_createAlert_def reject_def)
  from t 0 same show ?thesis
    by simp
qed

section \<open>The antivirus rule\<close>

text \<open>
  C6.  The antivirus rule on the store, for every payload.  It takes the branches in
  the order stated: not installed (or no payload), it calls
  \<^verbatim>\<open>createAlertIfNotExists\<close> for \<^verbatim>\<open>antivirus_missing\<close> and nothing else; installed and
  not enabled, it calls it for \<^verbatim>\<open>antivirus_disabled\<close> and then resolves
  \<^verbatim>\<open>antivirus_missing\<close>; installed and enabled, it resolves \<^verbatim>\<open>antivirus_missing\<close> and
  \<^verbatim>\<open>antivirus_disabled\<close> and then calls it for \<^verbatim>\<open>antivirus_outdated\<close> or resolves
  \<^verbatim>\<open>antivirus_outdated\<close>.  But \<^verbatim>\<open>createAlertIfNotExists\<close> creates nothing: when no alert
  of its type is open it rejects, and the rule ends there.  With the payload
  \<^verbatim>\<open>{installed:true, enabled:true, definitionsOutdated:true}\<close> on a store that holds an
  open \<^verbatim>\<open>antivirus_disabled\<close> alert, the rule resolves that alert and rejects, and no
  \<^verbatim>\<open>antivirus_outdated\<close> alert is open afterwards, where exactly one is expected.
  With antivirus not installed, no \<^verbatim>\<open>antivirus_missing\<close> alert is raised; with
  antivirus installed and not enabled, no \<^verbatim>\<open>antivirus_disabled\<close> alert is raised and
  an open \<^verbatim>\<open>antivirus_missing\<close> alert is not resolved.
\<close>

theorem antivirus_alert_is_not_created:
  "checkAntivirusAlert alertStore m av s =
     (if truthy av \<and> truthy (member av ''installed'') then
        if truthy (member av ''enabled'') then
          if truthy (member av ''definitionsOutdated'') then
            (if open_count m ''antivirus_outdated'' s = 0 then Inl validation_failed else Inr (),
             mark_resolved m ''antivirus_disabled'' (mark_resolved m ''antivirus_missing'' s))
          else
            (Inr (),
             mark_resolved m ''antivirus_outdated''
               (mark_resolved m ''antivirus_disabled'' (mark_resolved m ''antivirus_missing'' s)))
        else if open_count m ''antivirus_disabled'' s = 0 then (Inl validation_failed, s)
        else (Inr (), mark_resolved m ''antivirus_missing'' s)
      else (if open_count m ''antivirus_missing'' s = 0 then Inl validation_failed else Inr (), s))
   \<and> open_count ''M1'' ''antivirus_disabled'' (one_open ''antivirus_disabled'') = 1
   \<and> checkAntivirusAlert alertStore ''M1'' (Some av_outdated) (one_open ''antivirus_disabled'') =
       (Inl validation_failed,
        mark_resolved ''M1'' ''antivirus_disabled''
          (mark_resolved ''M1'' ''antivirus_missing'' (one_open ''antivirus_disabled'')))
   \<and> open_count ''M1'' ''antivirus_outdated''
        (snd (checkAntivirusAlert alertStore ''M1'' (Some av_outdated)
                (one_open ''antivirus_disabled''))) = 0
   \<and> open_count ''M1'' ''antivirus_disabled''
        (snd (checkAntivirusAlert alertStore ''M1'' (Some av_outdated)
                (one_open ''antivirus_disabled''))) = 0
   \<and> open_count ''M1'' ''antivirus_missing''
        (snd (checkAntivirusAlert alertStore ''M1'' (Some av_outdated)
                (one_open ''antivirus_disabled''))) = 0
   \<and> checkAntivirusAlert alertStore ''M1'' (Some av_not_installed) (no_alerts 1714604400000) =
       (Inl validation_failed, no_alerts 1714604400000)
   \<and> checkAntivirusAlert alertStore ''M1'' (Some av_disabled) (one_open ''antivirus_missing'') =
       (Inl validation_failed, one_open ''antivirus_missing'')"
proof -
  have payloads:
    "truthy (Some av_outdated)" "truthy (member (Some av_outdated) ''installed'')"
    "truthy (member (Some av_outdated) ''enabled'')"
    "truthy (member (Some av_outdated) ''definitionsOutdated'')"
    "truthy (Some av_disabled)" "truthy (member (Some av_disabled) ''installed'')"
    "\<not> truthy (member (Some av_disabled) ''enabled'')"
    "\<not> truthy (member (Some av_not_installed) ''installed'')"
    by (simp_all add: av_outdated_def av_disabled_def av_not_installed_def)
  show ?thesis
    by (simp add: checkAntivirusAlert_alertStore payloads open_count_one_open
        open_count_no_alerts open_count_mark_resolved)
qed

text \<open>
  The rule where it does not have to create anything: the payload
  \<^verbatim>\<open>{installed:true, enabled:true, definitionsOutdated:true}\<close> on a store whose
  \<^verbatim>\<open>antivirus_outdated\<close> alert is open already.  The rule resolves and the alert stays
  open.
\<close>

theorem antivirus_alert_is_not_created_witness:
  "truthy (Some av_outdated) \<and> truthy (member (Some av_outdated) ''installed'')
   \<and> truthy (member (Some av_outdated) ''enabled'')
   \<and> truthy (member (Some av_outdated) ''definitionsOutdated'')
   \<and> open_count ''M1'' ''antivirus_outdated'' (one_open ''antivirus_outdated'') = 1
   \<and> checkAntivirusAlert alertStore ''M1'' (Some av_outdated) (one_open ''antivirus_outdated'') =
       (Inr (), one_open ''antivirus_outdated'')"
proof -
  have payload:
    "truthy (Some av_outdated)" "truthy (member (Some av_outdated) ''installed'')"
    "truthy (member (Some av_outdated) ''enabled'')"
    "truthy (member (Some av_outdated) ''definitionsOutdated'')"
    by (simp_all add: av_outdated_def)
  have same: "mark_resolved ''M1'' ''antivirus_disabled''
        (mark_resolved ''M1'' ''antivirus_missing'' (one_open ''antivirus_outdated'')) =
      one_open ''antivirus_outdated''"
    by (simp add: mark_resolved_noop open_count_one_open)
  note t = antivirus_alert_is_not_created [where m = "''M1''" and av = "Some av_outdated"
      and s = "one_open ''antivirus_outdated''", THEN conjunct1]
  from t show ?thesis
    by (simp add: payload same open_count_one_open)
qed

section \<open>Resolution\<close>

text \<open>
  C7, as amended.  \<^verbatim>\<open>resolveAlertByType\<close> marks every open record of the machine and
  type resolved with \<^verbatim>\<open>resolved_at\<close> the current timestamp, leaves every other record
  as it is, yields the number of records it changed, and changes nothing when no
  record of the type is open.  Each rule of the engine does this on the compliant
  branch of its payload: the disk rule to \<^verbatim>\<open>disk_encryption\<close> when the disk is
  encrypted, the OS rule to \<^verbatim>\<open>os_updates\<close> when the system is up to date, the sleep
  rule to \<^verbatim>\<open>sleep_timeout\<close> when the timeout is not above 10, the antivirus rule to
  \<^verbatim>\<open>antivirus_missing\<close> and \<^verbatim>\<open>antivirus_disabled\<close> when antivirus is installed and
  enabled, and then to \<^verbatim>\<open>antivirus_outdated\<close> when the definitions are current.  With
  antivirus installed and not enabled, the antivirus rule resolves
  \<^verbatim>\<open>antivirus_missing\<close> only when its call of \<^verbatim>\<open>createAlertIfNotExists\<close> for
  \<^verbatim>\<open>antivirus_disabled\<close> has resolved, and it leaves the \<^verbatim>\<open>antivirus_outdated\<close> records
  as they are; with antivirus not installed, or no payload, it changes no record.
  An analysis runs the rules in the order disk, OS, antivirus, sleep, on every store,
  and ends with the first rule that rejects: the state it leaves is the state that
  rule left, and the rules after it resolve nothing.  When the first three rules
  resolve, the state it leaves is the state the sleep rule leaves.
\<close>

theorem resolution_when_compliant:
  "resolveAlertByType alertStore m t s = (Inr (open_count m t s), mark_resolved m t s)
   \<and> alerts_of m t (mark_resolved m t s) =
       map (resolved_at_time (sqlite_datetime (now s))) (alerts_of m t s)
   \<and> (\<forall>m' t'. (m', t') \<noteq> (m, t) \<longrightarrow> alerts_of m' t' (mark_resolved m t s) = alerts_of m' t' s)
   \<and> (open_count m t s = 0 \<longrightarrow> resolveAlertByType alertStore m t s = (Inr 0, s))
   \<and> (truthy d \<and> truthy (member d ''encrypted'') \<longrightarrow>
        checkDiskEncryptionAlert alertStore m d s = (Inr (), mark_resolved m ''disk_encryption'' s))
   \<and> (truthy os \<and> truthy (member os ''upToDate'') \<longrightarrow>
        checkOSUpdatesAlert rt alertStore m os s = (Inr (), mark_resolved m ''os_updates'' s))
   \<and> (truthy sl \<and> js_gt rt (member sl ''sleepTimeout'') 10 = Inr False \<longrightarrow>
        checkSleepSettingsAlert rt alertStore m sl s = (Inr (), mark_resolved m ''sleep_timeout'' s))
   \<and> (truthy av \<and> truthy (member av ''installed'') \<and> truthy (member av ''enabled'') \<longrightarrow>
        snd (checkAntivirusAlert alertStore m av s) =
          (if truthy (member av ''definitionsOutdated'')
           then mark_resolved m ''antivirus_disabled'' (mark_resolved m ''antivirus_missing'' s)
           else mark_resolved m ''antivirus_outdated''
                  (mark_resolved m ''antivirus_disabled'' (mark_resolved m ''antivirus_missing'' s))))
   \<and> (truthy av \<and> truthy (member av ''installed'') \<and> \<not> truthy (member av ''enabled'') \<longrightarrow>
        checkAntivirusAlert alertStore m av s =
          (if fst (createAlertIfNotExists alertStore m ''antivirus_disabled'' ''medium''
                     ''Antivirus Disabled''
                     (''Machine '' @ m @ '' has antivirus software installed but it is not enabled.'')
                     s) = Inr ()
           then (Inr (), mark_resolved m ''antivirus_missing'' s)
           else (Inl validation_failed, s))
        \<and> alerts_of m ''antivirus_outdated'' (snd (checkAntivirusAlert alertStore m av s)) =
            alerts_of m ''antivirus_outdated'' s)
   \<and> (\<not> (truthy av \<and> truthy (member av ''installed'')) \<longrightarrow>
        snd (checkAntivirusAlert alertStore m av s) = s)
   \<and> (\<forall>e s1.
         checkDiskEncryptionAlert this_db (machineId sd) (diskEncryption sd) s' = (Inl e, s1) \<longrightarrow>
         snd (analyzeSystemData rt this_db sd s') = s1)
   \<and> (\<forall>s1 e s2.
         checkDiskEncryptionAlert this_db (machineId sd) (diskEncryption sd) s' = (Inr (), s1) \<and>
         checkOSUpdatesAlert rt this_db (machineId sd) (osUpdates sd) s1 = (Inl e, s2) \<longrightarrow>
         snd (analyzeSystemData rt this_db sd s') = s2)
   \<and> (\<forall>s1 s2 e s3.
         checkDiskEncryptionAlert this_db (machineId sd) (diskEncryption sd) s' = (Inr (), s1) \<and>
         checkOSUpdatesAlert rt this_db (machineId sd) (osUpdates sd) s1 = (Inr (), s2) \<and>
         checkAntivirusAlert this_db (machineId sd) (antivirus sd) s2 = (Inl e, s3) \<longrightarrow>
         snd (analyzeSystemData rt this_db sd s') = s3)
   \<and> (\<forall>s1 s2 s3.
         checkDiskEncryptionAlert this_db (machineId sd) (diskEncryption sd) s' = (Inr (), s1) \<and>
         checkOSUpdatesAlert rt this_db (machineId sd) (osUpdates sd) s1 = (Inr (), s2) \<and>
         checkAntivirusAlert this_db (machineId sd) (antivirus sd) s2 = (Inr (), s3) \<longrightarrow>
         snd (analyzeSystemData rt this_db sd s') =
           snd (checkSleepSettingsAlert rt this_db (machineId sd) (sleepSettings sd) s3))"
proof -
  have 1: "alerts_of m t (mark_resolved m t s) =
       map (resolved_at_time (sqlite_datetime (now s))) (alerts_of m t s)"
    by (simp add: alerts_of_mark_resolved CURRENT_TIMESTAMP_def)
  have 2: "\<forall>m' t'. (m', t') \<noteq> (m, t) \<longrightarrow> alerts_of m' t' (mark_resolved m t s) = alerts_of m' t' s"
    by (auto simp: alerts_of_mark_resolved)
  have 3: "open_count m t s = 0 \<longrightarrow> resolveAlertByType alertStore m t s = (Inr 0, s)"
    by (simp add: resolveAlertByType_alertStore mark_resolved_noop)
  have 4: "truthy d \<and> truthy (member d ''encrypted'') \<longrightarrow>
        checkDiskEncryptionAlert alertStore m d s = (Inr (), mark_resolved m ''disk_encryption'' s)"
    by (simp add: checkDiskEncryptionAlert_alertStore)
  have 5: "truthy os \<and> truthy (member os ''upToDate'') \<longrightarrow>
        checkOSUpdatesAlert rt alertStore m os s = (Inr (), mark_resolved m ''os_updates'' s)"
    by (simp add: checkOSUpdatesAlert_compliant)
  have 6: "truthy sl \<and> js_gt rt (member sl ''sleepTimeout'') 10 = Inr False \<longrightarrow>
        checkSleepSettingsAlert rt alertStore m sl s = (Inr (), mark_resolved m ''sleep_timeout'' s)"
    by (simp add: checkSleepSettingsAlert_compliant)
  have 7: "truthy av \<and> truthy (member av ''installed'') \<and> truthy (member av ''enabled'') \<longrightarrow>
        snd (checkAntivirusAlert alertStore m av s) =
          (if truthy (member av ''definitionsOutdated'')
           then mark_resolved m ''antivirus_disabled'' (mark_resolved m ''antivirus_missing'' s)
           else mark_resolved m ''antivirus_outdated''
                  (mark_resolved m ''antivirus_disabled'' (mark_resolved m ''antivirus_missing'' s)))"
    by (simp add: checkAntivirusAlert_alertStore)
  have 8: "truthy av \<and> truthy (member av ''installed'') \<and> \<not> truthy (member av ''enabled'') \<longrightarrow>
        checkAntivirusAlert alertStore m av s =
          (if fst (createAlertIfNotExists alertStore m ''antivirus_disabled'' ''medium''
                     ''Antivirus Disabled''
                     (''Machine '' @ m @ '' has antivirus software installed but it is not enabled.'')
                     s) = Inr ()
           then (Inr (), mark_resolved m ''antivirus_missing'' s)
           else (Inl validation_failed, s))
        \<and> alerts_of m ''antivirus_outdated'' (snd (checkAntivirusAlert alertStore m av s)) =
            alerts_of m ''antivirus_outdated'' s"
    by (simp add: checkAntivirusAlert_alertStore createAlertIfNotExists_alertStore
        alerts_of_mark_resolved)
  have 9: "\<not> (truthy av \<and> truthy (member av ''installed'')) \<longrightarrow>
        snd (checkAntivirusAlert alertStore m av s) = s"
    by (simp add: checkAntivirusAlert_alertStore)
  have 10: "\<forall>e s1.
         checkDiskEncryptionAlert this_db (machineId sd) (diskEncryption sd) s' = (Inl e, s1) \<longrightarrow>
         snd (analyzeSystemData rt this_db sd s') = s1"
    "\<forall>s1 e s2.
         checkDiskEncryptionAlert this_db (machineId sd) (diskEncryption sd) s' = (Inr (), s1) \<and>
         checkOSUpdatesAlert rt this_db (machineId sd) (osUpdates sd) s1 = (Inl e, s2) \<longrightarrow>
         snd (analyzeSystemData rt this_db sd s') = s2"
    "\<forall>s1 s2 e s3.
         checkDiskEncryptionAlert this_db (machineId sd) (diskEncryption sd) s' = (Inr (), s1) \<and>
         checkOSUpdatesAlert rt this_db (machineId sd) (osUpdates sd) s1 = (Inr (), s2) \<and>
         checkAntivirusAlert this_db (machineId sd) (antivirus sd) s2 = (Inl e, s3) \<longrightarrow>
         snd (analyzeSystemData rt this_db sd s') = s3"
    "\<forall>s1 s2 s3.
         checkDiskEncryptionAlert this_db (machineId sd) (diskEncryption sd) s' = (Inr (), s1) \<and>
         checkOSUpdatesAlert rt this_db (machineId sd) (osUpdates sd) s1 = (Inr (), s2) \<and>
         checkAntivirusAlert this_db (machineId sd) (antivirus sd) s2 = (Inr (), s3) \<longrightarrow>
         snd (analyzeSystemData rt this_db sd s') =
           snd (checkSleepSettingsAlert rt this_db (machineId sd) (sleepSettings sd) s3)"
    by (auto simp: analyzeSystemData_def try_catch_def await_def resolve_def
        split: prod.splits sum.splits)
  show ?thesis
    using resolveAlertByType_alertStore [of m t s] 1 2 3 4 5 6 7 8 9 10 by blast
qed

text \<open>
  The machine \<^verbatim>\<open>M1\<close> has an open \<^verbatim>\<open>disk_encryption\<close> alert, created at 23:00, and
  reports an encrypted disk at 23:30: the disk rule resolves the alert, with
  \<^verbatim>\<open>resolved_at\<close> 23:30.  On the store without alerts \<^verbatim>\<open>resolveAlertByType\<close> changes
  nothing.  With an open \<^verbatim>\<open>antivirus_disabled\<close> alert, the antivirus rule resolves it
  when antivirus is installed and enabled, resolves \<^verbatim>\<open>antivirus_missing\<close> when it is
  installed and not enabled, and changes nothing when it is not installed.  And an
  analysis whose disk rule rejects leaves the store as that rule left it.
\<close>

theorem resolution_when_compliant_witness:
  "truthy (diskEncryption (scenario True))
   \<and> truthy (member (diskEncryption (scenario True)) ''encrypted'')
   \<and> checkDiskEncryptionAlert alertStore ''M1'' (diskEncryption (scenario True))
        (one_open ''disk_encryption'') =
       (Inr (), mark_resolved ''M1'' ''disk_encryption'' (one_open ''disk_encryption''))
   \<and> alerts_of ''M1'' ''disk_encryption''
        (mark_resolved ''M1'' ''disk_encryption'' (one_open ''disk_encryption'')) =
       [\<lparr>machine_id = ''M1'', alert_type = ''disk_encryption'', severity = ''medium'',
         title = ''An alert'', message = ''An alert of the machine M1'',
         is_resolved = True, created_at = ''2024-05-01 23:00:00'',
         resolved_at = Some ''2024-05-01 23:30:00''\<rparr>]
   \<and> open_count ''M1'' ''disk_encryption'' (no_alerts 1714606200000) = 0
   \<and> resolveAlertByType alertStore ''M1'' ''disk_encryption'' (no_alerts 1714606200000) =
       (Inr 0, no_alerts 1714606200000)
   \<and> snd (checkAntivirusAlert alertStore ''M1'' (Some av_outdated) (one_open ''antivirus_disabled'')) =
       mark_resolved ''M1'' ''antivirus_disabled''
         (mark_resolved ''M1'' ''antivirus_missing'' (one_open ''antivirus_disabled''))
   \<and> checkAntivirusAlert alertStore ''M1'' (Some av_disabled) (one_open ''antivirus_disabled'') =
       (Inr (), mark_resolved ''M1'' ''antivirus_missing'' (one_open ''antivirus_disabled''))
   \<and> snd (checkAntivirusAlert alertStore ''M1'' (Some av_not_installed)
             (one_open ''antivirus_disabled'')) = one_open ''antivirus_disabled''
   \<and> checkDiskEncryptionAlert alertStore (machineId (scenario False))
        (diskEncryption (scenario False)) (one_open ''os_updates'') =
       (Inl validation_failed, one_open ''os_updates'')
   \<and> snd (analyzeSystemData decimal_runtime alertStore (scenario False) (one_open ''os_updates'')) =
       one_open ''os_updates''"
proof -
  have pre: "truthy (diskEncryption (scenario True))"
    "truthy (member (diskEncryption (scenario True)) ''encrypted'')"
    by (simp_all add: scenario_def)
  have payloads:
    "truthy (Some av_outdated)" "truthy (member (Some av_outdated) ''installed'')"
    "truthy (member (Some av_outdated) ''enabled'')"
    "truthy (member (Some av_outdated) ''definitionsOutdated'')"
    "truthy (Some av_disabled)" "truthy (member (Some av_disabled) ''installed'')"
    "\<not> truthy (member (Some av_disabled) ''enabled'')"
    "\<not> truthy (member (Some av_not_installed) ''installed'')"
    by (simp_all add: av_outdated_def av_disabled_def av_not_installed_def)
  have rows: "alerts_of ''M1'' ''disk_encryption'' (one_open ''disk_encryption'') =
      [\<lparr>machine_id = ''M1'', alert_type = ''disk_encryption'', severity = ''medium'',
        title = ''An alert'', message = ''An alert of the machine M1'',
        is_resolved = False, created_at = ''2024-05-01 23:00:00'', resolved_at = None\<rparr>]"
    "now (one_open t) = 1714606200000" for t
    by (simp_all add: alerts_of_def one_open_def)
  have disk: "checkDiskEncryptionAlert alertStore (machineId (scenario False))
        (diskEncryption (scenario False)) (one_open ''os_updates'') =
       (Inl validation_failed, one_open ''os_updates'')"
    by (simp add: checkDiskEncryptionAlert_alertStore scenario_def open_count_one_open)
  have created: "fst (createAlertIfNotExists alertStore ''M1'' ''antivirus_disabled'' sev ttl msg
                        (one_open ''antivirus_disabled'')) = Inr ()" for sev ttl msg
    by (simp add: createAlertIfNotExists_alertStore open_count_one_open)
  note rule = resolution_when_compliant [where m = "''M1''" and t = "''disk_encryption''"
      and d = "diskEncryption (scenario True)" and s = "one_open ''disk_encryption''"]
  note none = resolution_when_compliant [where m = "''M1''" and t = "''disk_encryption''"
      and s = "no_alerts 1714606200000"]
  note outdated = resolution_when_compliant [where m = "''M1''" and av = "Some av_outdated"
      and s = "one_open ''antivirus_disabled''"]
  note disabled = resolution_when_compliant [where m = "''M1''" and av = "Some av_disabled"
      and s = "one_open ''antivirus_disabled''"]
  note missing = resolution_when_compliant [where m = "''M1''" and av = "Some av_not_installed"
      and s = "one_open ''antivirus_disabled''"]
  note stops = resolution_when_compliant [where this_db = alertStore and sd = "scenario False"
      and s' = "one_open ''os_updates''" and rt = decimal_runtime]
  from rule [THEN conjunct2, THEN conjunct2, THEN conjunct2, THEN conjunct2, THEN conjunct1] rule [THEN conjunct2, THEN conjunct1] pre have
    a: "checkDiskEncryptionAlert alertStore ''M1'' (diskEncryption (scenario True))
          (one_open ''disk_encryption'') =
        (Inr (), mark_resolved ''M1'' ''disk_encryption'' (one_open ''disk_encryption''))"
    and b: "alerts_of ''M1'' ''disk_encryption''
          (mark_resolved ''M1'' ''disk_encryption'' (one_open ''disk_encryption'')) =
        map (resolved_at_time (sqlite_datetime (now (one_open ''disk_encryption''))))
          (alerts_of ''M1'' ''disk_encryption'' (one_open ''disk_encryption''))"
    by simp_all
  from none [THEN conjunct2, THEN conjunct2, THEN conjunct2, THEN conjunct1] have c: "resolveAlertByType alertStore ''M1'' ''disk_encryption''
      (no_alerts 1714606200000) = (Inr 0, no_alerts 1714606200000)"
    by (simp add: open_count_no_alerts)
  from outdated [THEN conjunct2, THEN conjunct2, THEN conjunct2, THEN conjunct2, THEN conjunct2, THEN conjunct2, THEN conjunct2, THEN conjunct1] payloads have
    d: "snd (checkAntivirusAlert alertStore ''M1'' (Some av_outdated) (one_open ''antivirus_disabled'')) =
       mark_resolved ''M1'' ''antivirus_disabled''
         (mark_resolved ''M1'' ''antivirus_missing'' (one_open ''antivirus_disabled''))"
    by simp
  from disabled [THEN conjunct2, THEN conjunct2, THEN conjunct2, THEN conjunct2, THEN conjunct2, THEN conjunct2, THEN conjunct2, THEN conjunct2, THEN conjunct1] payloads created have
    e: "checkAntivirusAlert alertStore ''M1'' (Some av_disabled) (one_open ''antivirus_disabled'') =
       (Inr (), mark_resolved ''M1'' ''antivirus_missing'' (one_open ''antivirus_disabled''))"
    by simp
  from missing [THEN conjunct2, THEN conjunct2, THEN conjunct2, THEN conjunct2, THEN conjunct2, THEN conjunct2, THEN conjunct2, THEN conjunct2, THEN conjunct2, THEN conjunct1] payloads have
    f: "snd (checkAntivirusAlert alertStore ''M1'' (Some av_not_installed)
             (one_open ''antivirus_disabled'')) = one_open ''antivirus_disabled''"
    by simp
  from stops [THEN conjunct2, THEN conjunct2, THEN conjunct2, THEN conjunct2, THEN conjunct2, THEN conjunct2, THEN conjunct2, THEN conjunct2, THEN conjunct2, THEN conjunct2, THEN conjunct1] disk have
    g: "snd (analyzeSystemData decimal_runtime alertStore (scenario False) (one_open ''os_updates'')) =
       one_open ''os_updates''"
    by blast
  show ?thesis
    using pre a b c d e f g disk
    by (simp add: rows sqlite_datetime_examples resolved_at_time_def set_resolved_def
        open_count_no_alerts)
qed

text \<open>
  C7 as it is stated fails, in two ways.  The machine has an open
  \<^verbatim>\<open>antivirus_disabled\<close> alert and reports an encrypted disk, a system up to date and
  no antivirus installed: the condition installed-but-disabled is absent, and the
  alert is still open after the analysis.  The machine has an open \<^verbatim>\<open>os_updates\<close>
  alert and reports an unencrypted disk and a system up to date: the disk rule
  rejects, the OS rule is not run, and the alert is still open after the analysis.
\<close>

theorem resolution_counterexample:
  "\<not> truthy (member (antivirus ((scenario True)\<lparr>antivirus := Some av_not_installed\<rparr>)) ''installed'')
   \<and> open_count ''M1'' ''antivirus_disabled'' (one_open ''antivirus_disabled'') = 1
   \<and> open_count ''M1'' ''antivirus_disabled''
        (snd (analyzeSystemData decimal_runtime alertStore
                ((scenario True)\<lparr>antivirus := Some av_not_installed\<rparr>)
                (one_open ''antivirus_disabled''))) = 1
   \<and> truthy (osUpdates (scenario False))
   \<and> truthy (member (osUpdates (scenario False)) ''upToDate'')
   \<and> open_count ''M1'' ''os_updates'' (one_open ''os_updates'') = 1
   \<and> open_count ''M1'' ''os_updates''
        (snd (analyzeSystemData decimal_runtime alertStore (scenario False)
                (one_open ''os_updates''))) = 1"
proof -
  have disk: "checkDiskEncryptionAlert alertStore ''M1'' (Some (JObj [(''encrypted'', JBool False)]))
        (one_open ''os_updates'') = (Inl validation_failed, one_open ''os_updates'')"
    by (simp add: checkDiskEncryptionAlert_alertStore open_count_one_open)
  have two: "analyzeSystemData decimal_runtime alertStore (scenario False) (one_open ''os_updates'') =
      (Inr (), one_open ''os_updates'')"
    using disk by (simp add: analyzeSystemData_def try_catch_def await_def resolve_def scenario_def)
  have one: "snd (analyzeSystemData decimal_runtime alertStore
                ((scenario True)\<lparr>antivirus := Some av_not_installed\<rparr>)
                (one_open ''antivirus_disabled'')) = one_open ''antivirus_disabled''"
    by (simp add: analyzeSystemData_def try_catch_def await_def resolve_def scenario_def
        checkDiskEncryptionAlert_alertStore checkOSUpdatesAlert_compliant
        checkAntivirusAlert_alertStore av_not_installed_def open_count_one_open
        open_count_mark_resolved mark_resolved_noop)
  show ?thesis
    by (simp add: one two open_count_one_open) (simp add: scenario_def av_not_installed_def)
qed

section \<open>Unknown sleep state\<close>

text \<open>
  C8.  The sleep rule calls \<^verbatim>\<open>createAlertIfNotExists\<close> when there is no payload at
  all, with the timeout \<^verbatim>\<open>unknown\<close> in its message.  A payload that is the error marker
  \<^verbatim>\<open>{error:true, message}\<close> of the probe is truthy and has no \<^verbatim>\<open>sleepTimeout\<close>;
  \<^verbatim>\<open>undefined > 10\<close> is false, so the rule takes the other branch: it creates no
  alert and resolves the open \<^verbatim>\<open>sleep_timeout\<close> alerts of the machine.  On every store
  the rule is, for the marker, the call of \<^verbatim>\<open>resolveAlertByType\<close> alone.
\<close>

theorem sleep_error_marker_resolves:
  "checkSleepSettingsAlert rt alertStore m
      (Some (JObj [(''error'', JBool True), (''message'', JStr text)])) s =
     (Inr (), mark_resolved m ''sleep_timeout'' s)
   \<and> open_count m ''sleep_timeout''
        (snd (checkSleepSettingsAlert rt alertStore m
           (Some (JObj [(''error'', JBool True), (''message'', JStr text)])) s)) = 0
   \<and> checkSleepSettingsAlert rt this_db m None =
       createAlertIfNotExists this_db m ''sleep_timeout'' ''low'' ''Sleep Timeout Too Long''
         (''Machine '' @ m @ '' has sleep timeout set to unknown minutes. Recommended: '' @
          [CHR 0xE2, CHR 0x89, CHR 0xA4] @ ''10 minutes.'')
   \<and> checkSleepSettingsAlert rt this_db m
        (Some (JObj [(''error'', JBool True), (''message'', JStr text)])) =
       await (resolveAlertByType this_db m ''sleep_timeout'') (\<lambda>changes. resolve ())"
  by (simp add: checkSleepSettingsAlert_def alertStore_simps js_gt_def sleep_message_def
      js_or_def open_count_mark_resolved)

section \<open>The retention sweep\<close>

lemma cleanup_keeps_unresolved:
  "filter (\<lambda>r. \<not> is_resolved r) (rows (snd (cleanupOldResolvedAlerts alertStore n k s))) =
     filter (\<lambda>r. \<not> is_resolved r) (rows s)"
proof -
  have "filter (\<lambda>r. \<not> is_resolved r) (filter (\<lambda>r. \<not> where_expired c r) xs) =
        filter (\<lambda>r. \<not> is_resolved r) xs" for c xs
    by (induction xs) (auto simp: where_expired_def)
  then show ?thesis
    by (simp add: cleanup_alertStore)
qed

text \<open>
  C10.  An alert of the machine \<^verbatim>\<open>M1\<close> is resolved on 2024-05-01 at 23:00:00 UTC, and
  the sweep runs with the default of 30 days on 2024-05-31 at 10:00:00 UTC.  The
  cutoff is 2024-05-01 at 10:00:00 UTC, thirteen hours before the alert was
  resolved, and the sweep deletes the alert: \<^verbatim>\<open>resolved_at\<close> holds the text
  \<^verbatim>\<open>2024-05-01 23:00:00\<close> of \<^verbatim>\<open>CURRENT_TIMESTAMP\<close>, the cutoff is the text
  \<^verbatim>\<open>2024-05-01T10:00:00.000Z\<close> of \<^verbatim>\<open>toISOString\<close>, and a blank sorts before \<^verbatim>\<open>T\<close>.
\<close>

theorem cleanup_deletes_record_inside_window:
  "(1717149600000 :: int) - 30 * 24 * 60 * 60 * 1000 < 1714604400000
   \<and> rows (snd (resolveAlertByType alertStore ''M1'' ''disk_encryption''
        (ensure_open ''M1'' ''disk_encryption'' ''high'' ''Disk Encryption Disabled'' ''''
           (no_alerts 1714604400000)))) =
       [\<lparr>machine_id = ''M1'', alert_type = ''disk_encryption'', severity = ''high'',
         title = ''Disk Encryption Disabled'', message = '''',
         is_resolved = True, created_at = ''2024-05-01 23:00:00'',
         resolved_at = Some ''2024-05-01 23:00:00''\<rparr>]
   \<and> toISOString (1717149600000 - 30 * 24 * 60 * 60 * 1000) = ''2024-05-01T10:00:00.000Z''
   \<and> cleanupOldResolvedAlerts alertStore 1717149600000 None
        ((snd (resolveAlertByType alertStore ''M1'' ''disk_encryption''
           (ensure_open ''M1'' ''disk_encryption'' ''high'' ''Disk Encryption Disabled'' ''''
              (no_alerts 1714604400000))))\<lparr>now := 1717149600000\<rparr>) =
       (Inr 1, \<lparr>rows = [], now = 1717149600000\<rparr>)"
  by (simp add: resolveAlertByType_alertStore cleanup_alertStore ensure_open_def mark_resolved_def
      open_count_def where_open_def no_alerts_def CURRENT_TIMESTAMP_def set_resolved_def
      where_expired_def sqlite_datetime_examples toISOString_examples)

section \<open>Failures during an analysis\<close>

text \<open>
  C3, as amended.  \<^verbatim>\<open>analyzeSystemData\<close> has one \<^verbatim>\<open>try\<close> block around its four
  rules.  On every store it resolves, whatever fails inside; and the state it
  leaves is the state left by the first rule that rejects: the rules after that one
  are not run.  When no rule rejects, it is the state left by the sleep rule, the
  last of the four.
\<close>

theorem analysis_stops_at_first_failure:
  "fst (analyzeSystemData rt this_db d s) = Inr ()
   \<and> (\<forall>e s1.
         checkDiskEncryptionAlert this_db (machineId d) (diskEncryption d) s = (Inl e, s1) \<longrightarrow>
         snd (analyzeSystemData rt this_db d s) = s1)
   \<and> (\<forall>s1 e s2.
         checkDiskEncryptionAlert this_db (machineId d) (diskEncryption d) s = (Inr (), s1) \<and>
         checkOSUpdatesAlert rt this_db (machineId d) (osUpdates d) s1 = (Inl e, s2) \<longrightarrow>
         snd (analyzeSystemData rt this_db d s) = s2)
   \<and> (\<forall>s1 s2 e s3.
         checkDiskEncryptionAlert this_db (machineId d) (diskEncryption d) s = (Inr (), s1) \<and>
         checkOSUpdatesAlert rt this_db (machineId d) (osUpdates d) s1 = (Inr (), s2) \<and>
         checkAntivirusAlert this_db (machineId d) (antivirus d) s2 = (Inl e, s3) \<longrightarrow>
         snd (analyzeSystemData rt this_db d s) = s3)
   \<and> (\<forall>s1 s2 s3 r s4.
         checkDiskEncryptionAlert this_db (machineId d) (diskEncryption d) s = (Inr (), s1) \<and>
         checkOSUpdatesAlert rt this_db (machineId d) (osUpdates d) s1 = (Inr (), s2) \<and>
         checkAntivirusAlert this_db (machineId d) (antivirus d) s2 = (Inr (), s3) \<and>
         checkSleepSettingsAlert rt this_db (machineId d) (sleepSettings d) s3 = (r, s4) \<longrightarrow>
         snd (analyzeSystemData rt this_db d s) = s4)"
  by (auto simp: analyzeSystemData_def try_catch_def await_def resolve_def
      split: prod.splits sum.splits)

lemma createAlertIfNotExists_failingStore:
  "createAlertIfNotExists (failingStore bad) m t sev ttl msg s =
     (if t = bad then Inl (Error ''SQLITE_IOERR: disk I/O error'')
      else if open_count m t s = 0 then Inl validation_failed else Inr (), s)"
  by (simp add: createAlertIfNotExists_def failingStore_def db_get_def db_createAlert_def await_def
      resolve_def reject_def Database_createAlert_def open_count_def find_None_filter
      failing_get_def)

lemma resolveAlertByType_failingStore:
  "resolveAlertByType (failingStore bad) m t s =
     (if t = bad then (Inl (Error ''SQLITE_IOERR: disk I/O error''), s)
      else (Inr (open_count m t s), mark_resolved m t s))"
  by (simp add: resolveAlertByType_def failingStore_def db_run_def mark_resolved_def open_count_def
      failing_run_def reject_def)

lemma checkDiskEncryptionAlert_failingStore:
  "checkDiskEncryptionAlert (failingStore ''disk_encryption'') m d s =
     (Inl (Error ''SQLITE_IOERR: disk I/O error''), s)"
  by (simp add: checkDiskEncryptionAlert_def createAlertIfNotExists_failingStore
      resolveAlertByType_failingStore await_def)

text \<open>
  The statements about \<^verbatim>\<open>disk_encryption\<close> alerts fail, and the snapshot is
  non-compliant in every category.  The disk rule rejects, the analysis resolves,
  and the store is as it was.
\<close>

theorem analysis_stops_at_first_failure_witness:
  "checkDiskEncryptionAlert (failingStore ''disk_encryption'')
      (machineId (noncompliant av_outdated)) (diskEncryption (noncompliant av_outdated))
      (no_alerts 1714604400000) =
     (Inl (Error ''SQLITE_IOERR: disk I/O error''), no_alerts 1714604400000)
   \<and> analyzeSystemData decimal_runtime (failingStore ''disk_encryption'')
        (noncompliant av_outdated) (no_alerts 1714604400000) =
       (Inr (), no_alerts 1714604400000)"
proof -
  have 1: "checkDiskEncryptionAlert (failingStore ''disk_encryption'')
      (machineId (noncompliant av_outdated)) (diskEncryption (noncompliant av_outdated))
      (no_alerts 1714604400000) =
     (Inl (Error ''SQLITE_IOERR: disk I/O error''), no_alerts 1714604400000)"
    by (rule checkDiskEncryptionAlert_failingStore)
  note t = analysis_stops_at_first_failure [of decimal_runtime "failingStore ''disk_encryption''"
      "noncompliant av_outdated" "no_alerts 1714604400000"]
  from t 1 have "fst (analyzeSystemData decimal_runtime (failingStore ''disk_encryption'')
        (noncompliant av_outdated) (no_alerts 1714604400000)) = Inr ()"
    "snd (analyzeSystemData decimal_runtime (failingStore ''disk_encryption'')
        (noncompliant av_outdated) (no_alerts 1714604400000)) = no_alerts 1714604400000"
    by blast+
  with 1 show ?thesis
    by (simp add: prod_eq_iff)
qed

text \<open>
  C3 as it is stated fails.  The store holds an open \<^verbatim>\<open>os_updates\<close> alert of the
  machine \<^verbatim>\<open>M1\<close>, which now reports an unencrypted disk and a system that is up to
  date; the statements about \<^verbatim>\<open>disk_encryption\<close> alerts fail.  The OS rule, run on its
  own, resolves the alert.  The analysis, whose disk rule has failed, leaves it open:
  the remaining rules did not run.
\<close>

theorem failure_isolation_counterexample:
  "fst (checkDiskEncryptionAlert (failingStore ''disk_encryption'') ''M1''
          (diskEncryption (scenario False)) (one_open ''os_updates'')) =
     Inl (Error ''SQLITE_IOERR: disk I/O error'')
   \<and> open_count ''M1'' ''os_updates'' (one_open ''os_updates'') = 1
   \<and> checkOSUpdatesAlert decimal_runtime (failingStore ''disk_encryption'') ''M1''
        (osUpdates (scenario False)) (one_open ''os_updates'') =
       (Inr (), mark_resolved ''M1'' ''os_updates'' (one_open ''os_updates''))
   \<and> open_count ''M1'' ''os_updates''
        (snd (checkOSUpdatesAlert decimal_runtime (failingStore ''disk_encryption'') ''M1''
                (osUpdates (scenario False)) (one_open ''os_updates''))) = 0
   \<and> analyzeSystemData decimal_runtime (failingStore ''disk_encryption'') (scenario False)
        (one_open ''os_updates'') = (Inr (), one_open ''os_updates'')
   \<and> open_count ''M1'' ''os_updates''
        (snd (analyzeSystemData decimal_runtime (failingStore ''disk_encryption'') (scenario False)
                (one_open ''os_updates''))) = 1"
proof -
  have 1: "open_count ''M1'' ''os_updates'' (one_open ''os_updates'') = 1"
    by (simp add: open_count_one_open)
  have os: "checkOSUpdatesAlert decimal_runtime (failingStore ''disk_encryption'') ''M1''
        (osUpdates (scenario False)) (one_open ''os_updates'') =
       (Inr (), mark_resolved ''M1'' ''os_updates'' (one_open ''os_updates''))"
    by (simp add: checkOSUpdatesAlert_def scenario_def resolveAlertByType_failingStore await_def
        resolve_def 1)
  have a: "analyzeSystemData decimal_runtime (failingStore ''disk_encryption'') (scenario False)
        (one_open ''os_updates'') = (Inr (), one_open ''os_updates'')"
    by (simp add: analyzeSystemData_def try_catch_def await_def resolve_def
        checkDiskEncryptionAlert_failingStore)
  show ?thesis
    by (simp add: a os 1 checkDiskEncryptionAlert_failingStore open_count_mark_resolved)
qed

section \<open>The risk score\<close>

lemma severityWeights_cases:
  "name \<notin> set Object_prototype \<Longrightarrow>
     severityWeights name =
       (if name = ''critical'' then Weight 10 else if name = ''high'' then Weight 7
        else if name = ''medium'' then Weight 4 else if name = ''low'' then Weight 1
        else Undefined)"
  by (simp add: severityWeights_def)

lemma own_weights_not_inherited:
  "''critical'' \<notin> set Object_prototype" "''high'' \<notin> set Object_prototype"
  "''medium'' \<notin> set Object_prototype" "''low'' \<notin> set Object_prototype"
  by (simp_all add: Object_prototype_def)

lemma weight_cases:
  "severity a \<notin> set Object_prototype \<Longrightarrow>
     weight a = (if severity a = ''critical'' then 10 else if severity a = ''high'' then 7
                 else if severity a = ''medium'' then 4 else if severity a = ''low'' then 1 else 0)"
  by (simp add: weight_def severityWeights_cases)

lemma add_weight_number:
  "severity a \<notin> set Object_prototype \<Longrightarrow>
     add_weight (RawNumber n) a = RawNumber (n + weight a)"
  by (simp add: add_weight_def weight_def severityWeights_cases)

lemma foldl_add_weight:
  "\<forall>a\<in>set alerts. severity a \<notin> set Object_prototype \<Longrightarrow>
     foldl add_weight (RawNumber n) alerts = RawNumber (n + sum_list (map weight alerts))"
  by (induction alerts arbitrary: n) (simp_all add: add_weight_number)

lemma foldl_add_weight_text: "foldl add_weight RawText alerts = RawText"
  by (induction alerts) (simp_all add: add_weight_def)

lemma foldl_add_weight_inherited:
  "\<exists>a\<in>set alerts. severity a \<in> set Object_prototype \<Longrightarrow>
     foldl add_weight acc alerts = RawText"
proof (induction alerts arbitrary: acc)
  case Nil then show ?case by simp
next
  case (Cons b alerts)
  show ?case
  proof (cases "severity b \<in> set Object_prototype")
    case True
    then have "severityWeights (severity b) = Inherited"
      by (auto simp: severityWeights_def Object_prototype_def)
    then have "add_weight acc b = RawText"
      by (cases acc) (simp_all add: add_weight_def)
    then show ?thesis by (simp add: foldl_add_weight_text)
  next
    case False
    with Cons.prems have "\<exists>a\<in>set alerts. severity a \<in> set Object_prototype" by auto
    from Cons.IH [OF this] show ?thesis by simp
  qed
qed

lemma riskOf_inherited:
  "\<exists>a\<in>set alerts. severity a \<in> set Object_prototype \<Longrightarrow>
     riskOf alerts =
       \<lparr>score = None, level = ''low'', alertCount = length alerts, rawScore = RawText\<rparr>"
  by (simp add: riskOf_def foldl_add_weight_inherited)

lemma normalizedScore_eq: "normalizedScore n = of_int (min 100 (2 * int n))"
proof -
  have "(of_nat n :: rat) / 50 * 100 = of_int (2 * int n)"
    by simp
  then show ?thesis
    by (simp add: normalizedScore_def maxPossibleScore_def min_def)
qed

lemma round_normalizedScore: "round (normalizedScore n) = min 100 (2 * int n)"
  by (simp only: normalizedScore_eq round_of_int)

lemma riskOf_number:
  assumes "\<forall>a\<in>set alerts. severity a \<notin> set Object_prototype"
  shows "riskOf alerts =
     \<lparr>score = Some (round (min 100 (of_nat (sum_list (map weight alerts)) / 50 * 100 :: rat))),
      level = (if min 100 (of_nat (sum_list (map weight alerts)) / 50 * 100 :: rat) \<ge> 80 then ''critical''
               else if min 100 (of_nat (sum_list (map weight alerts)) / 50 * 100 :: rat) \<ge> 60 then ''high''
               else if min 100 (of_nat (sum_list (map weight alerts)) / 50 * 100 :: rat) \<ge> 30 then ''medium''
               else ''low''),
      alertCount = length alerts,
      rawScore = RawNumber (sum_list (map weight alerts))\<rparr>"
  by (simp add: riskOf_def foldl_add_weight [OF assms] normalizedScore_def maxPossibleScore_def)

lemma score_le_100:
  "round (min 100 (of_nat n / 50 * 100 :: rat)) \<le> 100"
  using round_normalizedScore [of n] by (simp add: normalizedScore_def maxPossibleScore_def)

lemma sum_list_insort_key:
  "sum_list (map f (insort_key k x xs)) = f x + sum_list (map (f :: 'a \<Rightarrow> nat) xs)"
  by (induction xs) simp_all

lemma sum_list_sort_key: "sum_list (map f (sort_key k xs)) = sum_list (map (f :: 'a \<Rightarrow> nat) xs)"
  by (induction xs) (simp_all add: sum_list_insort_key)

lemma getMachineRiskScore_alertStore:
  "m \<noteq> [] \<Longrightarrow>
     getMachineRiskScore alertStore m s = (Inr (riskOf (newest_open_alerts m s)), s)"
  by (simp add: getMachineRiskScore_def db_getAlerts_def alertStore_def listAlerts_def await_def
      resolve_def newest_open_alerts_def open_alerts_def)

lemma newest_all:
  assumes "length (open_alerts m s) \<le> 100"
  shows "sum_list (map weight (newest_open_alerts m s)) = sum_list (map weight (open_alerts m s))"
    and "length (newest_open_alerts m s) = length (open_alerts m s)"
proof -
  have "newest_open_alerts m s = rev (sort_key created_at (open_alerts m s))"
    using assms by (simp add: newest_open_alerts_def)
  then show "sum_list (map weight (newest_open_alerts m s)) = sum_list (map weight (open_alerts m s))"
    "length (newest_open_alerts m s) = length (open_alerts m s)"
    by (simp_all add: rev_map [symmetric] sum_list_sort_key)
qed

lemma set_newest: "set (newest_open_alerts m s) \<subseteq> set (open_alerts m s)"
proof -
  have "set (take 100 (rev (sort_key created_at (open_alerts m s)))) \<subseteq>
        set (rev (sort_key created_at (open_alerts m s)))" by (rule set_take_subset)
  then show ?thesis by (simp add: newest_open_alerts_def)
qed

lemma sort_key_replicate: "sort_key k (replicate n x) = replicate n x"
proof (induction n)
  case 0 show ?case by simp
next
  case (Suc n)
  have "insort_key k x (replicate n x) = x # replicate n x"
    by (cases n) simp_all
  with Suc show ?case by simp
qed

lemma open_alerts_many_open:
  "open_alerts ''M1'' (many_open n sev) = rows (many_open n sev)"
  by (simp add: open_alerts_def many_open_def)

lemma newest_many_open:
  "newest_open_alerts ''M1'' (many_open n sev) = take 100 (rows (many_open n sev))"
  by (simp add: newest_open_alerts_def open_alerts_many_open)
    (simp add: many_open_def sort_key_replicate)

text \<open>
  C5, as amended.  For a machine with a non-empty id whose open alerts carry no
  severity that names a member the table of weights inherits from \<^verbatim>\<open>Object.prototype\<close>,
  \<^verbatim>\<open>getMachineRiskScore\<close> resolves with the score of the newest 100 of the machine's open
  alerts and leaves the store as it is: \<^verbatim>\<open>rawScore\<close> is the sum of their weights
  (critical 10, high 7, medium 4, low 1, any other severity 0), \<^verbatim>\<open>score\<close> is
  \<^verbatim>\<open>min(100, rawScore / 50 * 100)\<close> rounded, \<^verbatim>\<open>level\<close> follows the thresholds 80, 60 and
  30 of the normalized score, \<^verbatim>\<open>alertCount\<close> is their number, and the score is never
  above 100.  When the machine has at most 100 open alerts the sum and the count are
  those of all its open alerts.  A machine whose only open alert is one of severity
  high gets \<^verbatim>\<open>{score:14, level:"low", alertCount:1, rawScore:7}\<close>, and one more alert
  adds its weight to \<^verbatim>\<open>rawScore\<close>.
\<close>

theorem risk_score:
  assumes "m \<noteq> []"
    and "\<forall>a\<in>set (open_alerts m s). severity a \<notin> set Object_prototype"
  shows "getMachineRiskScore alertStore m s = (Inr (riskOf (newest_open_alerts m s)), s)
    \<and> rawScore (riskOf (newest_open_alerts m s)) =
        RawNumber (sum_list (map weight (newest_open_alerts m s)))
    \<and> (\<forall>a\<in>set (open_alerts m s).
          weight a = (if severity a = ''critical'' then 10 else if severity a = ''high'' then 7
                      else if severity a = ''medium'' then 4 else if severity a = ''low'' then 1
                      else 0))
    \<and> score (riskOf (newest_open_alerts m s)) =
        Some (round (min 100
          (of_nat (sum_list (map weight (newest_open_alerts m s))) / 50 * 100 :: rat)))
    \<and> level (riskOf (newest_open_alerts m s)) =
         (if min 100 (of_nat (sum_list (map weight (newest_open_alerts m s))) / 50 * 100 :: rat) \<ge> 80
          then ''critical''
          else if min 100 (of_nat (sum_list (map weight (newest_open_alerts m s))) / 50 * 100 :: rat) \<ge> 60
          then ''high''
          else if min 100 (of_nat (sum_list (map weight (newest_open_alerts m s))) / 50 * 100 :: rat) \<ge> 30
          then ''medium''
          else ''low'')
    \<and> alertCount (riskOf (newest_open_alerts m s)) = length (newest_open_alerts m s)
    \<and> round (min 100
          (of_nat (sum_list (map weight (newest_open_alerts m s))) / 50 * 100 :: rat)) \<le> 100
    \<and> (length (open_alerts m s) \<le> 100 \<longrightarrow>
          sum_list (map weight (newest_open_alerts m s)) = sum_list (map weight (open_alerts m s)) \<and>
          length (newest_open_alerts m s) = length (open_alerts m s))
    \<and> (\<forall>a. open_alerts m s = [a] \<and> severity a = ''high'' \<longrightarrow>
          getMachineRiskScore alertStore m s =
            (Inr \<lparr>score = Some 14, level = ''low'', alertCount = 1, rawScore = RawNumber 7\<rparr>, s))
    \<and> (\<forall>a alerts. (\<forall>b\<in>set (a # alerts). severity b \<notin> set Object_prototype) \<longrightarrow>
          rawScore (riskOf (a # alerts)) = RawNumber (weight a + sum_list (map weight alerts)))"
proof -
  let ?A = "newest_open_alerts m s"
  have A: "\<forall>a\<in>set ?A. severity a \<notin> set Object_prototype"
    using assms(2) set_newest [of m s] by blast
  note r = riskOf_number [OF A]
  have 1: "getMachineRiskScore alertStore m s = (Inr (riskOf ?A), s)"
    using assms(1) by (rule getMachineRiskScore_alertStore)
  have 3: "\<forall>a\<in>set (open_alerts m s).
          weight a = (if severity a = ''critical'' then 10 else if severity a = ''high'' then 7
                      else if severity a = ''medium'' then 4 else if severity a = ''low'' then 1
                      else 0)"
    using assms(2) by (auto simp: weight_cases)
  have 8: "length (open_alerts m s) \<le> 100 \<longrightarrow>
          sum_list (map weight ?A) = sum_list (map weight (open_alerts m s)) \<and>
          length ?A = length (open_alerts m s)"
    using newest_all [of m s] by blast
  have 9: "\<forall>a. open_alerts m s = [a] \<and> severity a = ''high'' \<longrightarrow>
          getMachineRiskScore alertStore m s =
            (Inr \<lparr>score = Some 14, level = ''low'', alertCount = 1, rawScore = RawNumber 7\<rparr>, s)"
  proof (intro allI impI)
    fix a assume a: "open_alerts m s = [a] \<and> severity a = ''high''"
    then have n: "?A = [a]" by (simp add: newest_open_alerts_def)
    have "severity a \<notin> set Object_prototype"
      using a by (simp add: own_weights_not_inherited)
    then have "riskOf [a] = \<lparr>score = Some 14, level = ''low'', alertCount = 1, rawScore = RawNumber 7\<rparr>"
      using a riskOf_number [of "[a]"] by (simp add: weight_cases)
    with 1 n show "getMachineRiskScore alertStore m s =
            (Inr \<lparr>score = Some 14, level = ''low'', alertCount = 1, rawScore = RawNumber 7\<rparr>, s)"
      by simp
  qed
  have 10: "\<forall>a alerts. (\<forall>b\<in>set (a # alerts). severity b \<notin> set Object_prototype) \<longrightarrow>
          rawScore (riskOf (a # alerts)) = RawNumber (weight a + sum_list (map weight alerts))"
    by (auto simp: riskOf_number)
  have 2: "rawScore (riskOf ?A) = RawNumber (sum_list (map weight ?A))"
    by (simp only: r risk.select_convs)
  have 4: "score (riskOf ?A) =
        Some (round (min 100 (of_nat (sum_list (map weight ?A)) / 50 * 100 :: rat)))"
    by (simp only: r risk.select_convs)
  have 5: "level (riskOf ?A) =
         (if min 100 (of_nat (sum_list (map weight ?A)) / 50 * 100 :: rat) \<ge> 80
          then ''critical''
          else if min 100 (of_nat (sum_list (map weight ?A)) / 50 * 100 :: rat) \<ge> 60
          then ''high''
          else if min 100 (of_nat (sum_list (map weight ?A)) / 50 * 100 :: rat) \<ge> 30
          then ''medium''
          else ''low'')"
    by (simp only: r risk.select_convs)
  have 6: "alertCount (riskOf ?A) = length ?A"
    by (simp only: r risk.select_convs)
  have 7: "round (min 100 (of_nat (sum_list (map weight ?A)) / 50 * 100 :: rat)) \<le> 100"
    by (rule score_le_100)
  show ?thesis
    by (intro conjI; fact)
qed

text \<open>
  The machine \<^verbatim>\<open>M1\<close> with one open alert of severity high, the alert that the disk rule
  words.
\<close>

theorem risk_score_witness:
  "''M1'' \<noteq> []
   \<and> open_alerts ''M1''
        (ensure_open ''M1'' ''disk_encryption'' ''high'' ''Disk Encryption Disabled''
           ''Machine M1 does not have disk encryption enabled. This poses a significant security risk.''
           (no_alerts 1714604400000)) =
       [\<lparr>machine_id = ''M1'', alert_type = ''disk_encryption'', severity = ''high'',
         title = ''Disk Encryption Disabled'',
         message = ''Machine M1 does not have disk encryption enabled. This poses a significant security risk.'',
         is_resolved = False, created_at = ''2024-05-01 23:00:00'', resolved_at = None\<rparr>]
   \<and> getMachineRiskScore alertStore ''M1''
        (ensure_open ''M1'' ''disk_encryption'' ''high'' ''Disk Encryption Disabled''
           ''Machine M1 does not have disk encryption enabled. This poses a significant security risk.''
           (no_alerts 1714604400000)) =
       (Inr \<lparr>score = Some 14, level = ''low'', alertCount = 1, rawScore = RawNumber 7\<rparr>,
        ensure_open ''M1'' ''disk_encryption'' ''high'' ''Disk Encryption Disabled''
          ''Machine M1 does not have disk encryption enabled. This poses a significant security risk.''
          (no_alerts 1714604400000))"
proof -
  let ?s = "ensure_open ''M1'' ''disk_encryption'' ''high'' ''Disk Encryption Disabled''
           ''Machine M1 does not have disk encryption enabled. This poses a significant security risk.''
           (no_alerts 1714604400000)"
  let ?a = "\<lparr>machine_id = ''M1'', alert_type = ''disk_encryption'', severity = ''high'',
         title = ''Disk Encryption Disabled'',
         message = ''Machine M1 does not have disk encryption enabled. This poses a significant security risk.'',
         is_resolved = False, created_at = ''2024-05-01 23:00:00'', resolved_at = None\<rparr>"
  have o: "open_alerts ''M1'' ?s = [?a]"
    by (simp add: open_alerts_def ensure_open_def open_count_def no_alerts_def
        CURRENT_TIMESTAMP_def sqlite_datetime_examples)
  have h: "\<forall>a\<in>set (open_alerts ''M1'' ?s). severity a \<notin> set Object_prototype"
    by (simp add: o own_weights_not_inherited)
  have m: "''M1'' \<noteq> []" by simp
  note t = risk_score [OF m h, THEN conjunct2, THEN conjunct2, THEN conjunct2, THEN conjunct2,
      THEN conjunct2, THEN conjunct2, THEN conjunct2, THEN conjunct2, THEN conjunct1]
  from t o have "getMachineRiskScore alertStore ''M1'' ?s =
      (Inr \<lparr>score = Some 14, level = ''low'', alertCount = 1, rawScore = RawNumber 7\<rparr>, ?s)"
    by simp
  with o show ?thesis by simp
qed

text \<open>
  Against the claim as first stated, for every machine and however many alerts are
  open.  The machine \<^verbatim>\<open>M1\<close> has 101 open alerts of severity low, whose weights sum to
  101: \<^verbatim>\<open>getAlerts\<close> lists 100 of them, and the result is
  \<^verbatim>\<open>{score:100, level:"critical", alertCount:100, rawScore:100}\<close>.  And with one open
  alert whose severity is \<^verbatim>\<open>constructor\<close> the table of weights yields the function
  \<^verbatim>\<open>Object\<close>, \<^verbatim>\<open>rawScore\<close> is a string and \<^verbatim>\<open>score\<close> is \<^verbatim>\<open>NaN\<close>.
\<close>

theorem risk_score_counterexample:
  "length (open_alerts ''M1'' (many_open 101 ''low'')) = 101
   \<and> sum_list (map weight (open_alerts ''M1'' (many_open 101 ''low''))) = 101
   \<and> getMachineRiskScore alertStore ''M1'' (many_open 101 ''low'') =
       (Inr \<lparr>score = Some 100, level = ''critical'', alertCount = 100, rawScore = RawNumber 100\<rparr>,
        many_open 101 ''low'')
   \<and> length (open_alerts ''M1'' (many_open 1 ''constructor'')) = 1
   \<and> getMachineRiskScore alertStore ''M1'' (many_open 1 ''constructor'') =
       (Inr \<lparr>score = None, level = ''low'', alertCount = 1, rawScore = RawText\<rparr>,
        many_open 1 ''constructor'')"
proof -
  have a: "length (open_alerts ''M1'' (many_open 101 ''low'')) = 101"
    by (simp add: open_alerts_many_open) (simp add: many_open_def)
  have b: "sum_list (map weight (open_alerts ''M1'' (many_open 101 ''low''))) = 101"
    by (simp add: open_alerts_many_open)
      (simp add: many_open_def weight_def severityWeights_def Object_prototype_def sum_list_replicate)
  have n: "newest_open_alerts ''M1'' (many_open 101 ''low'') = rows (many_open 100 ''low'')"
    by (simp add: newest_many_open) (simp add: many_open_def)
  have h: "\<forall>a\<in>set (rows (many_open 100 ''low'')). severity a \<notin> set Object_prototype"
    by (simp add: many_open_def Object_prototype_def)
  have w: "sum_list (map weight (rows (many_open 100 ''low''))) = 100"
    by (simp add: many_open_def weight_def severityWeights_def Object_prototype_def sum_list_replicate)
  have l: "length (rows (many_open 100 ''low'')) = 100"
    by (simp add: many_open_def)
  have c: "getMachineRiskScore alertStore ''M1'' (many_open 101 ''low'') =
       (Inr \<lparr>score = Some 100, level = ''critical'', alertCount = 100, rawScore = RawNumber 100\<rparr>,
        many_open 101 ''low'')"
  proof -
    have "riskOf (rows (many_open 100 ''low'')) =
        \<lparr>score = Some 100, level = ''critical'', alertCount = 100, rawScore = RawNumber 100\<rparr>"
      by (simp add: riskOf_number [OF h] w l)
    then have "riskOf (newest_open_alerts ''M1'' (many_open 101 ''low'')) =
        \<lparr>score = Some 100, level = ''critical'', alertCount = 100, rawScore = RawNumber 100\<rparr>"
      by (simp only: n)
    then show ?thesis
      by (simp only: getMachineRiskScore_alertStore [of "''M1''", simplified])
  qed
  have d: "length (open_alerts ''M1'' (many_open 1 ''constructor'')) = 1"
    by (simp add: open_alerts_many_open) (simp add: many_open_def)
  have n': "newest_open_alerts ''M1'' (many_open 1 ''constructor'') = rows (many_open 1 ''constructor'')"
    by (simp add: newest_many_open) (simp add: many_open_def)
  have e: "getMachineRiskScore alertStore ''M1'' (many_open 1 ''constructor'') =
       (Inr \<lparr>score = None, level = ''low'', alertCount = 1, rawScore = RawText\<rparr>,
        many_open 1 ''constructor'')"
  proof -
    have "riskOf (rows (many_open 1 ''constructor'')) =
        \<lparr>score = None, level = ''low'', alertCount = 1, rawScore = RawText\<rparr>"
      by (simp add: many_open_def riskOf_def add_weight_def severityWeights_def Object_prototype_def)
    then have "riskOf (newest_open_alerts ''M1'' (many_open 1 ''constructor'')) =
        \<lparr>score = None, level = ''low'', alertCount = 1, rawScore = RawText\<rparr>"
      by (simp only: n')
    then show ?thesis
      by (simp only: getMachineRiskScore_alertStore [of "''M1''", simplified])
  qed
  show ?thesis
    by (intro conjI; fact)
qed

section \<open>The engine on the snapshots of the probe\<close>









section \<open>The decision to transmit\<close>

subsection \<open>\<^verbatim>\<open>JSON.stringify\<close> tells values apart\<close>

lemma hexdigit_inj: "a < 16 \<Longrightarrow> b < 16 \<Longrightarrow> hexdigit a = hexdigit b \<Longrightarrow> a = b"
proof -
  assume a: "a < 16" and b: "b < 16" and e: "hexdigit a = hexdigit b"
  have d: "distinct ''0123456789abcdef''" by simp
  have l: "length ''0123456789abcdef'' = 16" by simp
  from nth_eq_iff_index_eq [OF d, of a b] a b e l show "a = b"
    unfolding hexdigit_def by simp
qed

lemma escape_not_Nil: "escape c \<noteq> []"
  by (simp add: escape_def)

lemma hd_escape: "hd (escape c) \<noteq> CHR 0x22"
  by (simp add: escape_def)

lemma unicode_escape_inj:
  assumes "(of_char c :: nat) < 32" "(of_char d :: nat) < 32"
    and hi: "hexdigit (of_char c div 16) = hexdigit (of_char d div 16)"
    and lo: "hexdigit (of_char c mod 16) = hexdigit (of_char d mod 16)"
  shows "c = d"
proof -
  let ?m = "of_char c :: nat" and ?n = "of_char d :: nat"
  have "?m div 16 < 16" "?n div 16 < 16" using assms(1,2) by simp_all
  with hi have 1: "?m div 16 = ?n div 16" by (rule hexdigit_inj [rotated 2])
  have "?m mod 16 < 16" "?n mod 16 < 16" by simp_all
  with lo have 2: "?m mod 16 = ?n mod 16" by (rule hexdigit_inj [rotated 2])
  have "?m = 16 * (?m div 16) + ?m mod 16" by simp
  also have "\<dots> = 16 * (?n div 16) + ?n mod 16" using 1 2 by simp
  also have "\<dots> = ?n" by simp
  finally show "c = d" by simp
qed

lemma escape_inj: "escape c @ x = escape d @ y \<Longrightarrow> c = d \<and> x = y"
  by (auto simp: escape_def split: if_splits dest: unicode_escape_inj)

lemma escaped_inj:
  "concat (map escape s) @ CHR 0x22 # r = concat (map escape s') @ CHR 0x22 # r' \<Longrightarrow>
   s = s' \<and> r = r'"
proof (induction s arbitrary: s')
  case Nil
  show ?case
  proof (cases s')
    case Nil with Nil.prems show ?thesis by simp
  next
    case (Cons d t)
    with Nil.prems have "CHR 0x22 = hd (escape d @ concat (map escape t) @ CHR 0x22 # r')"
      by (metis append_Nil concat.simps(1) list.map(1) list.sel(1) concat.simps(2) list.map(2) append_assoc)
    with escape_not_Nil [of d] hd_escape [of d] show ?thesis by simp
  qed
next
  case (Cons c t)
  show ?case
  proof (cases s')
    case Nil
    with Cons.prems have "CHR 0x22 = hd (escape c @ concat (map escape t) @ CHR 0x22 # r)"
      by simp
    with escape_not_Nil [of c] hd_escape [of c] show ?thesis by simp
  next
    case (Cons d t')
    with Cons.prems
    have "escape c @ (concat (map escape t) @ CHR 0x22 # r) =
          escape d @ (concat (map escape t') @ CHR 0x22 # r')" by simp
    from escape_inj [OF this] Cons.IH [of t'] Cons show ?thesis by simp
  qed
qed

lemma quote_inj: "quote s @ r = quote s' @ r' \<Longrightarrow> s = s' \<and> r = r'"
  using escaped_inj [of s r s' r'] by (simp add: quote_def)

lemma quote_head: "quote s \<noteq> [] \<and> hd (quote s) = CHR 0x22"
  by (simp add: quote_def)

lemma commas_Cons:
  "commas (x # xs) = x @ (if xs = [] then [] else CHR '','' # commas xs)"
  by (cases xs) simp_all

lemma closes_simps:
  "closes []" "closes (CHR '','' # r)" "closes (CHR '']'' # r)" "closes (CHR ''}'' # r)"
  by (simp_all add: closes_def)

lemma commas_inj:
  assumes el: "\<And>x y r r'. x \<in> set xs \<Longrightarrow> y \<in> set ys \<Longrightarrow> f x @ r = f y @ r' \<Longrightarrow>
                 closes r \<Longrightarrow> closes r' \<Longrightarrow> x = y \<and> r = r'"
    and hx: "\<And>x. x \<in> set xs \<union> set ys \<Longrightarrow> f x \<noteq> [] \<and> \<not> closes [hd (f x)]"
    and c: "c = CHR '']'' \<or> c = CHR ''}''"
    and eq: "commas (map f xs) @ c # r = commas (map f ys) @ c # r'"
  shows "xs = ys \<and> r = r'"
  using el hx eq
proof (induction xs arbitrary: ys)
  case Nil
  show ?case
  proof (cases ys)
    case Nil with Nil.prems(3) show ?thesis by simp
  next
    case (Cons y t)
    from Nil.prems(2) [of y] Cons have ne: "f y \<noteq> []" and h: "\<not> closes [hd (f y)]" by simp_all
    from Nil.prems(3) Cons ne have "c = hd (f y)"
      by (simp add: commas_Cons) (metis hd_append2 list.sel(1))
    with h c show ?thesis by (auto simp: closes_def)
  qed
next
  case (Cons x s)
  show ?case
  proof (cases ys)
    case Nil
    from Cons.prems(2) [of x] have ne: "f x \<noteq> []" and h: "\<not> closes [hd (f x)]" by simp_all
    from Cons.prems(3) Nil ne have "c = hd (f x)" by (simp add: commas_Cons) (metis hd_append2 list.sel(1))
    with h c show ?thesis by (auto simp: closes_def)
  next
    case ys: (Cons y t)
    let ?T = "(if s = [] then [] else CHR '','' # commas (map f s)) @ c # r"
    let ?U = "(if t = [] then [] else CHR '','' # commas (map f t)) @ c # r'"
    from Cons.prems(3) ys have "f x @ ?T = f y @ ?U" by (simp add: commas_Cons)
    moreover have "closes ?T" "closes ?U" using c by (auto simp: closes_def)
    ultimately have xy: "x = y" and tu: "?T = ?U"
      using Cons.prems(1) [of x y ?T ?U] ys by simp_all
    have c': "c \<noteq> CHR '',''" using c by auto
    show ?thesis
    proof (cases "s = []")
      case True
      with tu c' have "t = []" by (auto split: if_splits)
      with True tu xy ys show ?thesis by simp
    next
      case False
      with tu c' have t: "t \<noteq> []" by (auto split: if_splits)
      with False tu have e: "commas (map f s) @ c # r = commas (map f t) @ c # r'" by simp
      have "s = t \<and> r = r'"
      proof (rule Cons.IH [OF _ _ e])
        fix x' y' r1 r2
        assume "x' \<in> set s" "y' \<in> set t" "f x' @ r1 = f y' @ r2" "closes r1" "closes r2"
        then show "x' = y' \<and> r1 = r2" using Cons.prems(1) [of x' y' r1 r2] ys by simp
      next
        fix x' assume "x' \<in> set s \<union> set t"
        then show "f x' \<noteq> [] \<and> \<not> closes [hd (f x')]" using Cons.prems(2) [of x'] ys by auto
      qed
      with xy ys show ?thesis by simp
    qed
  qed
qed

lemma number_text_unclosed:
  assumes "number_text x" "number_text y" "closes r" "closes r'" "x @ r = y @ r'"
  shows "x = y \<and> r = r'"
proof -
  let ?P = "\<lambda>c. c \<in> set ''0123456789+-.e''"
  have tw: "takeWhile ?P (s @ q) = s" if "number_text s" "closes q" for s q
  proof -
    from that(1) have "\<forall>c\<in>set s. ?P c" unfolding number_text_def list_all_iff by blast
    then have "takeWhile ?P (s @ q) = s @ takeWhile ?P q" by (simp add: takeWhile_append2)
    moreover have "takeWhile ?P q = []" using that(2) by (cases q) (auto simp: closes_def)
    ultimately show ?thesis by simp
  qed
  from tw [OF assms(1,3)] tw [OF assms(2,4)] assms(5) have "x = y" by simp
  with assms(5) show ?thesis by simp
qed

lemma lead_not_closes: "c \<in> lead v \<Longrightarrow> \<not> closes [c]"
  by (cases v) (auto simp: closes_def split: if_splits)

lemma stringify_head:
  assumes "\<And>n. n \<in> set (numbers v) \<Longrightarrow> number_text (NumberToString rt n)"
  shows "stringify rt v \<noteq> [] \<and> hd (stringify rt v) \<in> lead v"
proof (cases v)
  case (JNum n)
  with assms [of n] have nt: "number_text (NumberToString rt n)" by simp
  then have "NumberToString rt n \<noteq> []" "hd (NumberToString rt n) \<in> set (NumberToString rt n)"
    by (simp_all add: number_text_def)
  with nt JNum show ?thesis unfolding number_text_def list_all_iff by auto
qed (simp_all add: quote_def)

lemma same_lead:
  assumes v: "\<And>n. n \<in> set (numbers v) \<Longrightarrow> number_text (NumberToString rt n)"
    and w: "\<And>n. n \<in> set (numbers w) \<Longrightarrow> number_text (NumberToString rt n)"
    and eq: "stringify rt v @ r = stringify rt w @ r'"
  shows "\<exists>c. c \<in> lead v \<and> c \<in> lead w"
proof -
  from stringify_head [of v rt] v have 1: "stringify rt v \<noteq> []" "hd (stringify rt v) \<in> lead v"
    by blast+
  from stringify_head [of w rt] w have 2: "stringify rt w \<noteq> []" "hd (stringify rt w) \<in> lead w"
    by blast+
  from eq have "hd (stringify rt v @ r) = hd (stringify rt w @ r')" by simp
  with 1 2 have "hd (stringify rt v) = hd (stringify rt w)" by simp
  with 1 2 show ?thesis by auto
qed

lemma stringify_inj_aux:
  assumes num: "\<And>n. n \<in> N \<Longrightarrow> number_text (NumberToString rt n)"
    and inj: "inj_on (NumberToString rt) N"
  shows "set (numbers v) \<subseteq> N \<Longrightarrow> set (numbers w) \<subseteq> N \<Longrightarrow>
         stringify rt v @ r = stringify rt w @ r' \<Longrightarrow> closes r \<Longrightarrow> closes r' \<Longrightarrow>
         v = w \<and> r = r'"
proof (induction v arbitrary: w r r')
  case JNull
  from same_lead [OF _ _ JNull.prems(3)] num JNull.prems(1,2)
  obtain c where "c \<in> lead JNull" "c \<in> lead w" by blast
  then have "w = JNull" by (cases w) (auto split: if_splits)
  with JNull.prems(3) show ?case by simp
next
  case (JBool b)
  from same_lead [OF _ _ JBool.prems(3)] num JBool.prems(1,2)
  obtain c where "c \<in> lead (JBool b)" "c \<in> lead w" by blast
  then have "w = JBool b" by (cases w) (auto split: if_splits)
  with JBool.prems(3) show ?case by simp
next
  case (JNum n)
  from same_lead [OF _ _ JNum.prems(3)] num JNum.prems(1,2)
  obtain c where "c \<in> lead (JNum n)" "c \<in> lead w" by blast
  then obtain m where w: "w = JNum m" by (cases w) (auto split: if_splits)
  with JNum.prems(1,2) have mem: "n \<in> N" "m \<in> N" by simp_all
  from JNum.prems(3) w have "NumberToString rt n @ r = NumberToString rt m @ r'" by simp
  from number_text_unclosed [OF num [OF mem(1)] num [OF mem(2)] JNum.prems(4,5) this]
  have "NumberToString rt n = NumberToString rt m" "r = r'" by simp_all
  with inj mem w show ?case by (auto dest: inj_onD)
next
  case (JStr s)
  from same_lead [OF _ _ JStr.prems(3)] num JStr.prems(1,2)
  obtain c where "c \<in> lead (JStr s)" "c \<in> lead w" by blast
  then obtain s' where w: "w = JStr s'" by (cases w) (auto split: if_splits)
  with JStr.prems(3) quote_inj [of s r s' r'] show ?case by simp
next
  case (JArr xs)
  from same_lead [OF _ _ JArr.prems(3)] num JArr.prems(1,2)
  obtain c where "c \<in> lead (JArr xs)" "c \<in> lead w" by blast
  then obtain ys where w: "w = JArr ys" by (cases w) (auto split: if_splits)
  from JArr.prems(3) w
  have eq: "commas (map (stringify rt) xs) @ CHR '']'' # r =
            commas (map (stringify rt) ys) @ CHR '']'' # r'" by simp
  have sub: "set (numbers x) \<subseteq> N" if "x \<in> set xs \<union> set ys" for x
    using that JArr.prems(1,2) w by auto
  have "xs = ys \<and> r = r'"
  proof (rule commas_inj [OF _ _ _ eq])
    fix x y q q'
    assume "x \<in> set xs" "y \<in> set ys" "stringify rt x @ q = stringify rt y @ q'"
      "closes q" "closes q'"
    then show "x = y \<and> q = q'" using JArr.IH [of x y q q'] sub [of x] sub [of y] by simp
  next
    fix x assume x: "x \<in> set xs \<union> set ys"
    from stringify_head [of x rt] num sub [OF x]
    have "stringify rt x \<noteq> []" "hd (stringify rt x) \<in> lead x" by blast+
    then show "stringify rt x \<noteq> [] \<and> \<not> closes [hd (stringify rt x)]"
      using lead_not_closes by blast
  qed simp
  with w show ?case by simp
next
  case (JObj kvs)
  from same_lead [OF _ _ JObj.prems(3)] num JObj.prems(1,2)
  obtain c where "c \<in> lead (JObj kvs)" "c \<in> lead w" by blast
  then obtain kws where w: "w = JObj kws" by (cases w) (auto split: if_splits)
  let ?f = "\<lambda>(k, v). quote k @ CHR '':'' # stringify rt v"
  from JObj.prems(3) w
  have eq: "commas (map ?f kvs) @ CHR ''}'' # r = commas (map ?f kws) @ CHR ''}'' # r'" by simp
  have sub: "set (numbers x) \<subseteq> N" if "(k, x) \<in> set kvs \<union> set kws" for k x
    using that JObj.prems(1,2) w by (fastforce simp: subset_iff)
  have "kvs = kws \<and> r = r'"
  proof (rule commas_inj [OF _ _ _ eq])
    fix x y q q'
    assume a: "x \<in> set kvs" "y \<in> set kws" "?f x @ q = ?f y @ q'" "closes q" "closes q'"
    obtain k v where x: "x = (k, v)" by (cases x)
    obtain k' v' where y: "y = (k', v')" by (cases y)
    from a(3) x y
    have "quote k @ (CHR '':'' # stringify rt v @ q) = quote k' @ (CHR '':'' # stringify rt v' @ q')"
      by simp
    from quote_inj [OF this] have k: "k = k'" and e: "stringify rt v @ q = stringify rt v' @ q'"
      by simp_all
    from JObj.IH [of x v v' q q'] a x y e sub [of k v] sub [of k' v']
    have "v = v' \<and> q = q'" by simp
    with k x y show "x = y \<and> q = q'" by simp
  next
    fix x assume x: "x \<in> set kvs \<union> set kws"
    obtain k v where "x = (k, v)" by (cases x)
    then show "?f x \<noteq> [] \<and> \<not> closes [hd (?f x)]" by (simp add: quote_def closes_def)
  qed simp
  with w show ?case by simp
qed

lemma stringify_inj:
  assumes p: "prints_faithfully rt ns"
    and v: "set (numbers v) \<subseteq> set ns" and w: "set (numbers w) \<subseteq> set ns"
  shows "(stringify rt v = stringify rt w) = (v = w)"
proof
  assume e: "stringify rt v = stringify rt w"
  from p have 1: "\<And>n. n \<in> set ns \<Longrightarrow> number_text (NumberToString rt n)"
    unfolding prints_faithfully_def list_all_iff by blast
  from p have 2: "inj_on (NumberToString rt) (set ns)"
    unfolding prints_faithfully_def by (simp add: distinct_map)
  from stringify_inj_aux [of "set ns" rt v w "[]" "[]", OF 1 2 v w] e
  show "v = w" by (simp add: closes_def)
qed simp

lemma JSON_stringify_inj:
  assumes p: "prints_faithfully rt ns"
    and v: "set (case x of None \<Rightarrow> [] | Some v \<Rightarrow> numbers v) \<subseteq> set ns"
    and w: "set (case y of None \<Rightarrow> [] | Some v \<Rightarrow> numbers v) \<subseteq> set ns"
  shows "(JSON_stringify rt x = JSON_stringify rt y) = (x = y)"
proof (cases x)
  case None then show ?thesis by (cases y) (simp_all add: JSON_stringify_def)
next
  case (Some a)
  show ?thesis
  proof (cases y)
    case None with Some show ?thesis by (simp add: JSON_stringify_def)
  next
    case y: (Some b)
    from stringify_inj [OF p, of a b] v w Some y show ?thesis
      by (simp add: JSON_stringify_def)
  qed
qed

lemma hasStateChanged_same:
  "lastState this = Some previous \<Longrightarrow> payloads previous = payloads current \<Longrightarrow>
   \<not> hasStateChanged rt this current"
  by (simp add: hasStateChanged_def payloads_def)

lemma hasStateChanged_iff:
  assumes l: "lastState this = Some previous"
    and p: "prints_faithfully rt (payload_numbers previous @ payload_numbers current)"
  shows "hasStateChanged rt this current = (payloads previous \<noteq> payloads current)"
proof -
  let ?ns = "payload_numbers previous @ payload_numbers current"
  have "(JSON_stringify rt (key previous) = JSON_stringify rt (key current)) =
        (key previous = key current)"
    if "key \<in> {diskEncryption, osUpdates, antivirus, sleepSettings}" for key
    using that by (intro JSON_stringify_inj [OF p]) (auto simp: payload_numbers_def payloads_def)
  then show ?thesis using l by (simp add: hasStateChanged_def payloads_def)
qed

lemma shouldSendHeartbeat_iff:
  "lastState this = Some previous \<Longrightarrow>
   shouldSendHeartbeat this Date_now = (Date_now - timestamp previous \<ge> heartbeat_ms)"
proof -
  assume l: "lastState this = Some previous"
  let ?d = "Date_now - timestamp previous"
  have "((of_int ?d :: rat) / (1000 * 60 * 60) \<ge> 24) = ((of_int ?d :: rat) \<ge> of_int heartbeat_ms)"
    by (simp add: heartbeat_ms_def field_simps)
  also have "\<dots> = (?d \<ge> heartbeat_ms)" by (simp only: of_int_le_iff)
  finally show ?thesis using l by (simp add: shouldSendHeartbeat_def Let_def)
qed

subsection \<open>The payloads of the probe and the order of their members\<close>

text \<open>
  Every payload of the probe is an object of primitive values whose member names, in
  their order, are one of a few lists, and no two of these lists have the same
  names.  So two payloads of the same probe that are the same up to the order of
  their members are the same.
\<close>

lemma sorted_members_primitive: "primitive v \<Longrightarrow> sorted_members v = v"
  by (cases v) simp_all

lemma sorted_members_flat:
  "flat_object v \<Longrightarrow> sorted_members v = JObj (sort_key fst (case v of JObj kvs \<Rightarrow> kvs))"
proof (cases v)
  case (JObj kvs)
  assume "flat_object v"
  with JObj have "list_all (\<lambda>kv. primitive (snd kv)) kvs" by simp
  then have "map (\<lambda>(k, v). (k, sorted_members v)) kvs = kvs"
    by (induction kvs) (auto simp: sorted_members_primitive)
  with JObj show ?thesis by simp
qed simp_all

lemma distinct_keys_set_eq:
  "distinct (map fst xs) \<Longrightarrow> map fst xs = map fst ys \<Longrightarrow> set xs = set ys \<Longrightarrow> xs = ys"
proof (induction xs arbitrary: ys)
  case Nil then show ?case by simp
next
  case (Cons x xs)
  then obtain y ys' where ys: "ys = y # ys'" by (cases ys) auto
  with Cons.prems have k: "fst x = fst y" and ks: "map fst xs = map fst ys'" by simp_all
  from Cons.prems(1) have nx: "fst x \<notin> fst ` set xs" and d: "distinct (map fst xs)" by simp_all
  from nx ks have ny: "fst y \<notin> fst ` set ys'" using k by (metis list.set_map)
  have "x \<in> set (y # ys')" using Cons.prems(3) ys by auto
  with ny k have xy: "x = y" by (auto simp: image_iff)
  have "set xs = set ys'"
  proof -
    have "set xs = set (x # xs) - {x}" using nx by (auto simp: image_iff)
    also have "\<dots> = set (y # ys') - {y}" using Cons.prems(3) ys xy by simp
    also have "\<dots> = set ys'" using ny by (auto simp: image_iff)
    finally show ?thesis .
  qed
  from Cons.IH [OF d ks this] xy ys show ?case by simp
qed

lemma flat_objects_same:
  assumes a: "flat_object a" and b: "flat_object b"
    and n: "names a = names b" and d: "distinct (names a)"
    and s: "sorted_members a = sorted_members b"
  shows "a = b"
proof -
  from a obtain kvs where A: "a = JObj kvs" by (cases a) simp_all
  from b obtain kws where B: "b = JObj kws" by (cases b) simp_all
  from s sorted_members_flat [OF a] sorted_members_flat [OF b] A B
  have "sort_key fst kvs = sort_key fst kws" by simp
  then have "set (sort_key fst kvs) = set (sort_key fst kws)" by simp
  then have "set kvs = set kws" by simp
  with distinct_keys_set_eq [of kvs kws] n d A B show ?thesis by simp
qed

lemma names_sorted_members: "set (names (sorted_members v)) = set (names v)"
proof (cases v)
  case (JObj kvs)
  have "set (map fst (sort_key fst (map (\<lambda>(k, v). (k, sorted_members v)) kvs))) =
        fst ` set (map (\<lambda>(k, v). (k, sorted_members v)) kvs)" by simp
  also have "\<dots> = fst ` set kvs" by (force simp: image_iff)
  finally show ?thesis using JObj by simp
qed simp_all

lemma shaped_same:
  assumes a: "flat_object a" "names a \<in> set shapes"
    and b: "flat_object b" "names b \<in> set shapes"
    and sh: "\<And>x y. x \<in> set shapes \<Longrightarrow> y \<in> set shapes \<Longrightarrow> set x = set y \<Longrightarrow> x = y"
    and d: "\<And>x. x \<in> set shapes \<Longrightarrow> distinct x"
    and s: "sorted_members a = sorted_members b"
  shows "a = b"
proof -
  from s names_sorted_members [of a] names_sorted_members [of b]
  have "set (names a) = set (names b)" by simp
  with sh a(2) b(2) have "names a = names b" by blast
  with flat_objects_same [OF a(1) b(1) _ d [OF a(2)] s] show ?thesis by simp
qed

lemma probe_payloads_member_order:
  assumes "list_all2 same_members (payloads (getSystemState h m)) (payloads (getSystemState h' m'))"
  shows "payloads (getSystemState h m) = payloads (getSystemState h' m')"
proof -
  from assms have s:
    "sorted_members (checkDiskEncryption h) = sorted_members (checkDiskEncryption h')"
    "sorted_members (checkOSUpdates h) = sorted_members (checkOSUpdates h')"
    "sorted_members (checkAntivirus h) = sorted_members (checkAntivirus h')"
    "sorted_members (checkSleepSettings h) = sorted_members (checkSleepSettings h')"
    by (simp_all add: payloads_def getSystemState_def same_members_def)
  note a = checkDiskEncryption_shape [of h, THEN conjunct1] checkDiskEncryption_shape [of h, THEN conjunct2]
    checkDiskEncryption_shape [of h', THEN conjunct1] checkDiskEncryption_shape [of h', THEN conjunct2]
  have 1: "checkDiskEncryption h = checkDiskEncryption h'"
    by (rule shaped_same [OF a disk_shapes(2) disk_shapes(1) s(1)])
  note b = checkOSUpdates_shape [of h, THEN conjunct1] checkOSUpdates_shape [of h, THEN conjunct2]
    checkOSUpdates_shape [of h', THEN conjunct1] checkOSUpdates_shape [of h', THEN conjunct2]
  have 2: "checkOSUpdates h = checkOSUpdates h'"
    by (rule shaped_same [OF b os_shapes(2) os_shapes(1) s(2)])
  note c = checkAntivirus_shape [of h, THEN conjunct1] checkAntivirus_shape [of h, THEN conjunct2]
    checkAntivirus_shape [of h', THEN conjunct1] checkAntivirus_shape [of h', THEN conjunct2]
  have 3: "checkAntivirus h = checkAntivirus h'"
    by (rule shaped_same [OF c antivirus_shapes(2) antivirus_shapes(1) s(3)])
  note d = checkSleepSettings_shape [of h, THEN conjunct1] checkSleepSettings_shape [of h, THEN conjunct2]
    checkSleepSettings_shape [of h', THEN conjunct1] checkSleepSettings_shape [of h', THEN conjunct2]
  have 4: "checkSleepSettings h = checkSleepSettings h'"
    by (rule shaped_same [OF d sleep_shapes(2) sleep_shapes(1) s(4)])
  from 1 2 3 4 show ?thesis by (simp add: payloads_def getSystemState_def)
qed

subsection \<open>When a check transmits\<close>

lemma shouldSend_this:
  "shouldSend rt (this\<lparr>this_machineId := a, lastCheck := b\<rparr>) = shouldSend rt this"
  by (simp add: shouldSend_def hasStateChanged_def shouldSendHeartbeat_def fun_eq_iff)

lemma runCheck_known:
  assumes "this_machineId this = Some m" "m \<noteq> []"
  shows "fst (runCheck rt this lookup h Date_now sendSystemData) =
           (if shouldSend rt this (getSystemState h m) Date_now
            then Some (getSystemState h m) else None)"
    and "lastState (snd (runCheck rt this lookup h Date_now sendSystemData)) =
           (if shouldSend rt this (getSystemState h m) Date_now \<and>
               \<not> isl (sendSystemData (getSystemState h m))
            then Some (getSystemState h m) else lastState this)"
  using assms
  by (simp_all add: runCheck_def Let_def shouldSend_this split: sum.splits)

lemma change_gate_probe_snapshots:
  assumes l: "lastState this = Some (getSystemState h0 m0)"
    and s: "list_all2 same_members (payloads (getSystemState h0 m0)) (payloads (getSystemState h m))"
    and t: "Date_now - clock h0 < heartbeat_ms"
  shows "\<not> shouldSend rt this (getSystemState h m) Date_now"
proof -
  have ts: "timestamp (getSystemState h0 m0) = clock h0" by (simp add: getSystemState_def)
  from hasStateChanged_same [OF l probe_payloads_member_order [OF s], of rt]
    shouldSendHeartbeat_iff [OF l, of Date_now] l t ts
  show ?thesis by (simp add: shouldSend_def)
qed

lemma checkOSUpdates_lastCheck:
  assumes "os_platform h = ''darwin''" "exec h ''softwareupdate -l'' = Inr out"
  shows "member (Some (checkOSUpdates h)) ''lastCheck'' = Some (JStr (toISOString (clock h)))"
  using assms
  by (simp add: checkOSUpdates_def safeRun_def checkMacOSUpdates_def runCommand_def
      and_then_def Let_def)

lemma mac_later_payloads:
  "payloads (getSystemState (mac\<lparr>os_uptime := u, clock := t\<rparr>) m) = payloads (getSystemState mac m)"
proof -
  have p: "os_platform mac = ''darwin''" by (simp add: mac_def)
  have e: "exec mac ''softwareupdate -l'' =
             Inl (ExecError (Some ''command not found'') ''Command failed'')"
    by (simp add: mac_def)
  show ?thesis
    by (simp add: payloads_def getSystemState_def checkDiskEncryption_def checkOSUpdates_def
        checkAntivirus_def checkSleepSettings_def checkMacOSEncryption_def checkMacOSUpdates_def
        checkMacOSAntivirus_def checkMacOSSleep_def runCommand_def and_then_def p e)
qed

lemma list_all2_same_members: "xs = ys \<Longrightarrow> list_all2 same_members xs ys"
  by (simp add: list_all2_same same_members_def)

text \<open>
  C2.  A check transmits its snapshot exactly in three cases: the monitor has not
  transmitted yet; or one of the four category payloads (\<^verbatim>\<open>diskEncryption\<close>,
  \<^verbatim>\<open>osUpdates\<close>, \<^verbatim>\<open>antivirus\<close>, \<^verbatim>\<open>sleepSettings\<close>) is not the same value as in the
  snapshot last transmitted; or 24 hours or more lie between the timestamp of the
  snapshot last transmitted and the time of the decision.  With the four payloads
  the same and less than 24 hours elapsed, it does not transmit, whatever the other
  members of the two snapshots are.  The payloads are compared through their
  \<^verbatim>\<open>JSON.stringify\<close> texts, which tell any two values apart (objects being lists of
  members in their order) as long as the runtime prints the numbers in them
  faithfully.  For snapshots that \<^verbatim>\<open>getSystemState\<close> assembles the order of members
  makes no difference: payloads that are the same up to it are the same, and the
  check does not transmit.  \<^verbatim>\<open>runCheck\<close> hands the snapshot to the API client exactly
  when \<^verbatim>\<open>shouldSend\<close> holds, and its \<^verbatim>\<open>lastState\<close> becomes that snapshot exactly when
  the transmission succeeds.
\<close>

theorem change_gate_decision:
  "(lastState this = None \<longrightarrow> shouldSend rt this current Date_now)
   \<and> (lastState this = Some previous \<longrightarrow>
        (payloads previous = payloads current \<and> Date_now - timestamp previous < heartbeat_ms \<longrightarrow>
           \<not> shouldSend rt this current Date_now)
        \<and> (heartbeat_ms \<le> Date_now - timestamp previous \<longrightarrow>
             shouldSend rt this current Date_now)
        \<and> (payloads previous \<noteq> payloads current \<and>
            prints_faithfully rt (payload_numbers previous @ payload_numbers current) \<longrightarrow>
             shouldSend rt this current Date_now))
   \<and> (lastState this = Some (getSystemState h0 m0) \<and>
       list_all2 same_members (payloads (getSystemState h0 m0)) (payloads (getSystemState h1 m1)) \<and>
       Date_now - clock h0 < heartbeat_ms \<longrightarrow>
        \<not> shouldSend rt this (getSystemState h1 m1) Date_now)
   \<and> (this_machineId this = Some m \<and> m \<noteq> [] \<longrightarrow>
        fst (runCheck rt this lookup h Date_now sendSystemData) =
          (if shouldSend rt this (getSystemState h m) Date_now
           then Some (getSystemState h m) else None)
        \<and> lastState (snd (runCheck rt this lookup h Date_now sendSystemData)) =
          (if shouldSend rt this (getSystemState h m) Date_now \<and>
              \<not> isl (sendSystemData (getSystemState h m))
           then Some (getSystemState h m) else lastState this))"
proof (intro conjI impI)
  assume "lastState this = None"
  then show "shouldSend rt this current Date_now" by (simp add: shouldSend_def)
next
  assume l: "lastState this = Some previous"
    and "payloads previous = payloads current \<and> Date_now - timestamp previous < heartbeat_ms"
  then show "\<not> shouldSend rt this current Date_now"
    using hasStateChanged_same [of this previous current rt]
      shouldSendHeartbeat_iff [of this previous Date_now]
    by (simp add: shouldSend_def)
next
  assume "lastState this = Some previous" "heartbeat_ms \<le> Date_now - timestamp previous"
  then show "shouldSend rt this current Date_now"
    using shouldSendHeartbeat_iff [of this previous Date_now] by (simp add: shouldSend_def)
next
  assume l: "lastState this = Some previous"
    and "payloads previous \<noteq> payloads current \<and>
         prints_faithfully rt (payload_numbers previous @ payload_numbers current)"
  then show "shouldSend rt this current Date_now"
    using hasStateChanged_iff [of this previous rt current] by (simp add: shouldSend_def)
next
  assume "lastState this = Some (getSystemState h0 m0) \<and>
       list_all2 same_members (payloads (getSystemState h0 m0)) (payloads (getSystemState h1 m1)) \<and>
       Date_now - clock h0 < heartbeat_ms"
  then show "\<not> shouldSend rt this (getSystemState h1 m1) Date_now"
    using change_gate_probe_snapshots [of this h0 m0 h1 m1 Date_now rt] by blast
next
  assume "this_machineId this = Some m \<and> m \<noteq> []"
  then show "fst (runCheck rt this lookup h Date_now sendSystemData) =
          (if shouldSend rt this (getSystemState h m) Date_now
           then Some (getSystemState h m) else None)"
    using runCheck_known(1) [of this m rt lookup h Date_now sendSystemData] by blast
next
  assume "this_machineId this = Some m \<and> m \<noteq> []"
  then show "lastState (snd (runCheck rt this lookup h Date_now sendSystemData)) =
          (if shouldSend rt this (getSystemState h m) Date_now \<and>
              \<not> isl (sendSystemData (getSystemState h m))
           then Some (getSystemState h m) else lastState this)"
    using runCheck_known(2) [of this m rt lookup h Date_now sendSystemData] by blast
qed

text \<open>
  A monitor of the Mac of the examples: the first check transmits; a check one hour
  after the snapshot last transmitted, with the same payloads and other host data,
  does not; one 24 hours after it does; and one with FileVault turned off does.  The
  same for the snapshots the probe makes of that Mac: the first is transmitted, and
  the one made an hour later is not.
\<close>

theorem change_gate_decision_witness:
  "shouldSend decimal_runtime (monitoring None) (snapshot 1714604400000 True) 1714604400250
   \<and> \<not> shouldSend decimal_runtime (monitoring (Some (snapshot 1714604400000 True)))
          (snapshot 1714608000000 True) 1714608000250
   \<and> shouldSend decimal_runtime (monitoring (Some (snapshot 1714604400000 True)))
        (snapshot 1714690800000 True) 1714690800250
   \<and> shouldSend decimal_runtime (monitoring (Some (snapshot 1714604400000 True)))
        (snapshot 1714608000000 False) 1714608000250
   \<and> fst (runCheck decimal_runtime (monitoring None) (Inl (Error ''no id'')) mac 1714604400250
             (\<lambda>state. Inr ())) = Some (getSystemState mac ''M1'')
   \<and> lastState (snd (runCheck decimal_runtime (monitoring None) (Inl (Error ''no id'')) mac
                        1714604400250 (\<lambda>state. Inr ()))) = Some (getSystemState mac ''M1'')
   \<and> \<not> shouldSend decimal_runtime (monitoring (Some (getSystemState mac ''M1'')))
          (getSystemState (mac\<lparr>os_uptime := 7200, clock := 1714608000000\<rparr>) ''M1'')
          1714608000250"
proof -
  let ?p = "snapshot 1714604400000 True"
  let ?later = "mac\<lparr>os_uptime := 7200, clock := 1714608000000\<rparr>"
  have d: "decimal 1 = ''1''" "decimal (Suc 0) = ''1''" "decimal 10 = ''10''"
    by (simp_all add: decimal.simps digit_def)
  have f: "prints_faithfully decimal_runtime (payload_numbers ?p @ payload_numbers (snapshot t b))"
    for t b
    by (simp add: prints_faithfully_def payload_numbers_def payloads_def snapshot_def
        number_text_def decimal_runtime_def d)
  have e: "payloads ?p = payloads (snapshot t True)" for t
    by (simp add: payloads_def snapshot_def)
  have n: "payloads ?p \<noteq> payloads (snapshot t False)" for t
    by (simp add: payloads_def snapshot_def)
  have ts: "timestamp (snapshot t b) = t" for t b
    by (simp add: snapshot_def)
  have m: "lastState (monitoring x) = x" "this_machineId (monitoring x) = Some ''M1''" for x
    by (simp_all add: monitoring_def)
  have c: "clock mac = 1714604400000"
    by (simp add: mac_def)
  note same = list_all2_same_members
    [OF mac_later_payloads [where u = 7200 and t = 1714608000000 and m = "''M1''", symmetric]]
  note fresh = change_gate_decision [where this = "monitoring None" and rt = decimal_runtime
      and previous = ?p and m = "''M1''" and lookup = "Inl (Error ''no id'')" and h = mac
      and sendSystemData = "\<lambda>state. Inr ()"]
  note later = change_gate_decision [where this = "monitoring (Some ?p)"
      and rt = decimal_runtime and previous = ?p]
  note probed = change_gate_decision [where this = "monitoring (Some (getSystemState mac ''M1''))"
      and rt = decimal_runtime and ?h0.0 = mac and ?m0.0 = "''M1''" and ?h1.0 = ?later
      and ?m1.0 = "''M1''" and Date_now = 1714608000250,
      THEN conjunct2, THEN conjunct2, THEN conjunct1]
  from fresh [where current = "snapshot 1714604400000 True" and Date_now = 1714604400250]
    fresh [where current = "getSystemState mac ''M1''" and Date_now = 1714604400250]
    later [where current = "snapshot 1714608000000 True" and Date_now = 1714608000250]
    later [where current = "snapshot 1714690800000 True" and Date_now = 1714690800250]
    later [where current = "snapshot 1714608000000 False" and Date_now = 1714608000250]
    probed same f e n
  show ?thesis
    by (simp add: m ts c heartbeat_ms_def)
qed

end
